theory Spec2Isabelle
  imports Complex_Main "HOL-Library.AList"
begin

section \<open>Data model (runner/models.py)\<close>

text \<open>
  \<open>JobState\<close> and \<open>EventType\<close> are the two string enums of the runner; \<open>JobState_value\<close>
  and \<open>EventType_value\<close> give the \<open>.value\<close> of a member.
\<close>

datatype JobState =
    DRAFT | ASK_RUNNING | ASK_DONE | NEEDS_INPUT | PLAN_RUNNING | PLAN_READY
  | PLAN_NEEDS_INPUT | APPROVED | EXECUTING | COMPLETE | FAILED

fun JobState_value :: "JobState \<Rightarrow> string" where
  "JobState_value DRAFT = ''draft''"
| "JobState_value ASK_RUNNING = ''ask_running''"
| "JobState_value ASK_DONE = ''ask_done''"
| "JobState_value NEEDS_INPUT = ''needs_input''"
| "JobState_value PLAN_RUNNING = ''plan_running''"
| "JobState_value PLAN_READY = ''plan_ready''"
| "JobState_value PLAN_NEEDS_INPUT = ''plan_needs_input''"
| "JobState_value APPROVED = ''approved''"
| "JobState_value EXECUTING = ''executing''"
| "JobState_value COMPLETE = ''complete''"
| "JobState_value FAILED = ''failed''"

datatype EventType = STEP | LOG | DONE | ERROR

fun EventType_value :: "EventType \<Rightarrow> string" where
  "EventType_value STEP = ''step''"
| "EventType_value LOG = ''log''"
| "EventType_value DONE = ''done''"
| "EventType_value ERROR = ''error''"

text \<open>
  A \<open>datetime\<close> is an opaque clock reading. A \<open>Path\<close> is the list of its components, so
  \<open>p / name\<close> is \<open>p @ [name]\<close> for a single-component name (every name the runner joins
  is one: a job id, \<open>run.json\<close>, \<open>plan.md\<close>, ...).
\<close>

type_synonym datetime = nat
type_synonym path = "string list"

record JobEvent =
  event_type :: EventType
  data :: string
  timestamp :: datetime

record Job =
  job_id :: string
  project_path :: string
  state :: JobState
  session_id :: string
  plan_id :: string
  plan_markdown :: string
  artifacts_dir :: path
  events :: "JobEvent list"
  created_at :: datetime
  updated_at :: datetime

section \<open>Exceptions\<close>

text \<open>
  Every \<open>raise\<close> of the source is a value. The three \<open>KeyError\<close>s of the job manager carry
  an f-string with the \<open>repr\<close> of the key; the model keeps which f-string it is and the
  key. A \<open>KeyError\<close> raised by a bare subscript carries the key itself. An
  \<open>AttributeError\<close> carries the type name of the object and the attribute asked for, a
  \<open>TypeError\<close> of \<open>str.join\<close> the index and the type name of the item that is no \<open>str\<close>.
  \<open>OtherException\<close> is any further subclass of \<open>Exception\<close> that the environment may
  raise, with its \<open>str\<close>. \<open>CancelledError\<close> is \<open>asyncio.CancelledError\<close>, raised at an \<open>await\<close>
  of a task that is cancelled (as when the service is stopped): it derives from
  \<open>BaseException\<close> and not from \<open>Exception\<close>, so \<open>except Exception\<close> lets it pass.
\<close>

datatype key_message = Job_not_found | No_job_with_plan_id | No_event_queue | Bare_key

datatype error =
    KeyError key_message string
  | InvalidTransitionError JobState JobState
  | TimeoutError string
  | FileNotFoundError string
  | OSError string
  | AttributeError string string
  | TypeError nat string
  | ValidationError string
  | OtherException string
  | CancelledError

text \<open>
  What the \<open>except\<close> clauses of the handlers match: \<open>except Exception\<close> matches every
  exception but \<open>CancelledError\<close>, and \<open>except OSError\<close> also matches \<open>TimeoutError\<close> and
  \<open>FileNotFoundError\<close>, its subclasses.
\<close>

fun is_Exception :: "error \<Rightarrow> bool" where
  "is_Exception CancelledError = False"
| "is_Exception e = True"

fun is_TimeoutError :: "error \<Rightarrow> bool" where
  "is_TimeoutError (TimeoutError msg) = True"
| "is_TimeoutError e = False"

fun is_OSError :: "error \<Rightarrow> bool" where
  "is_OSError (TimeoutError msg) = True"
| "is_OSError (FileNotFoundError msg) = True"
| "is_OSError (OSError msg) = True"
| "is_OSError e = False"

section \<open>The transition table (runner/state_machine.py)\<close>

text \<open>
  \<open>ALLOWED_TRANSITIONS\<close> is the dict of the source, key by key; \<open>validate_transition\<close>
  reads it with \<open>.get(current, frozenset())\<close>.
\<close>

definition ALLOWED_TRANSITIONS :: "(JobState \<times> JobState set) list" where
  "ALLOWED_TRANSITIONS =
    [(DRAFT, {ASK_RUNNING, PLAN_RUNNING}),
     (ASK_RUNNING, {ASK_DONE, NEEDS_INPUT, FAILED}),
     (NEEDS_INPUT, {ASK_RUNNING}),
     (ASK_DONE, {PLAN_RUNNING}),
     (PLAN_RUNNING, {PLAN_READY, PLAN_NEEDS_INPUT, FAILED}),
     (PLAN_NEEDS_INPUT, {PLAN_RUNNING}),
     (PLAN_READY, {APPROVED}),
     (APPROVED, {EXECUTING}),
     (EXECUTING, {COMPLETE, FAILED}),
     (COMPLETE, {}),
     (FAILED, {})]"

definition validate_transition :: "JobState \<Rightarrow> JobState \<Rightarrow> error + bool" where
  "validate_transition current target =
    (let allowed = (case map_of ALLOWED_TRANSITIONS current of None \<Rightarrow> {} | Some s \<Rightarrow> s)
     in if target \<notin> allowed then Inl (InvalidTransitionError current target) else Inr True)"

text \<open>
  The table as section 4.1 of the specification prints it, edge by edge. It is written
  from the specification's words, to be compared with \<open>ALLOWED_TRANSITIONS\<close>.
\<close>

definition spec_edges :: "(JobState \<times> JobState) list" where
  "spec_edges =
    [(DRAFT, ASK_RUNNING), (DRAFT, PLAN_RUNNING),
     (ASK_RUNNING, ASK_DONE), (ASK_RUNNING, NEEDS_INPUT), (ASK_RUNNING, FAILED),
     (NEEDS_INPUT, ASK_RUNNING),
     (ASK_DONE, PLAN_RUNNING),
     (PLAN_RUNNING, PLAN_READY), (PLAN_RUNNING, PLAN_NEEDS_INPUT), (PLAN_RUNNING, FAILED),
     (PLAN_NEEDS_INPUT, PLAN_RUNNING),
     (PLAN_READY, APPROVED),
     (APPROVED, EXECUTING),
     (EXECUTING, COMPLETE), (EXECUTING, FAILED)]"

section \<open>The disk\<close>

text \<open>
  The part of the file system the job manager touches: the directories that exist and
  the text files with their content. \<open>mkdir\<close> is \<open>Path.mkdir(parents=True, exist_ok=True)\<close>:
  it creates the directory and every missing ancestor, accepts a directory that is
  already there, and raises when the path or one of its ancestors is a regular file.
  \<open>write_text\<close> is \<open>Path.write_text\<close>: it replaces the whole file, and raises when the
  parent directory is missing or the path is a directory. Other causes of an
  \<open>OSError\<close> (permissions, a full disk) are outside the model.
\<close>

record disk =
  dirs :: "path set"
  files :: "path \<rightharpoonup> string"

fun ancestors :: "path \<Rightarrow> path list" where
  "ancestors [] = [[]]"
| "ancestors (c # cs) = [] # map ((#) c) (ancestors cs)"

definition mkdir :: "disk \<Rightarrow> path \<Rightarrow> error + disk" where
  "mkdir d p =
    (if list_ex (\<lambda>q. files d q \<noteq> None) (ancestors p)
     then Inl (OSError ''File exists'')
     else Inr (d\<lparr>dirs := dirs d \<union> set (ancestors p)\<rparr>))"

definition write_text :: "disk \<Rightarrow> path \<Rightarrow> string \<Rightarrow> error + disk" where
  "write_text d p content =
    (if p = [] \<or> p \<in> dirs d then Inl (OSError ''Is a directory'')
     else if butlast p \<notin> dirs d then Inl (FileNotFoundError ''No such file or directory'')
     else Inr (d\<lparr>files := (files d)(p \<mapsto> content)\<rparr>))"

section \<open>The job manager (runner/services/job_manager.py)\<close>

text \<open>
  \<open>_jobs\<close> and \<open>_queues\<close> are Python dicts: association lists in insertion order, where
  storing under a key that is present replaces the value in place and storing under a
  new key appends (\<open>AList.update\<close>). A \<open>Job\<close> object is reachable only through its entry
  of \<open>_jobs\<close>, so mutating the object is replacing the value of that entry.

  An \<open>asyncio.Queue\<close> is an object that the manager shares with the consumer of the
  events: \<open>_queues\<close> holds a reference to it, \<open>get_events\<close> hands that reference out, and
  \<open>add_event\<close> and the consumer then work on the one object. So the queue objects live
  in a store: \<open>queue_store\<close> gives, for each reference, the items waiting in that queue,
  oldest first, and \<open>next_ref\<close> is the reference of the next object to be created.
\<close>

type_synonym queue_ref = nat

record JobManager =
  artifacts_root :: path
  jobs :: "(string \<times> Job) list"
  queues :: "(string \<times> queue_ref) list"
  queue_store :: "queue_ref \<Rightarrow> JobEvent list"
  next_ref :: queue_ref

definition JobManager_init :: "path \<Rightarrow> JobManager" where
  "JobManager_init base =
    \<lparr>artifacts_root = base, jobs = [], queues = [], queue_store = (\<lambda>r. []), next_ref = 0\<rparr>"

text \<open>
  The queue operations the service uses. \<open>Queue_init\<close> is \<open>asyncio.Queue()\<close>: a new, empty
  and unbounded queue. \<open>queue_put\<close> is \<open>await queue.put(item)\<close>, which never waits on an
  unbounded queue. \<open>queue_get\<close> is \<open>await queue.get()\<close>: it takes the oldest item; on an
  empty queue the caller stays suspended and nothing changes (\<open>None\<close>).
\<close>

definition Queue_init :: "JobManager \<Rightarrow> queue_ref \<times> JobManager" where
  "Queue_init m =
    (next_ref m, m\<lparr>queue_store := (queue_store m)(next_ref m := []), next_ref := Suc (next_ref m)\<rparr>)"

definition queue_put :: "JobManager \<Rightarrow> queue_ref \<Rightarrow> JobEvent \<Rightarrow> JobManager" where
  "queue_put m queue item = m\<lparr>queue_store := (queue_store m)(queue := queue_store m queue @ [item])\<rparr>"

definition queue_get :: "JobManager \<Rightarrow> queue_ref \<Rightarrow> JobEvent option \<times> JobManager" where
  "queue_get m queue =
    (case queue_store m queue of
       [] \<Rightarrow> (None, m)
     | item # rest \<Rightarrow> (Some item, m\<lparr>queue_store := (queue_store m)(queue := rest)\<rparr>))"

text \<open>
  \<open>create_job\<close>: \<open>hex\<close> is \<open>uuid.uuid4().hex\<close> and \<open>now\<close> is \<open>datetime.now(tz=UTC)\<close>, the
  two values the call draws from its environment.
\<close>

definition create_job ::
  "JobManager \<Rightarrow> disk \<Rightarrow> string \<Rightarrow> string \<Rightarrow> datetime \<Rightarrow> (error + Job) \<times> JobManager \<times> disk" where
  "create_job m d ppath hex now =
    (let jid = take 12 hex;
         adir = artifacts_root m @ [jid]
     in case mkdir d adir of
          Inl e \<Rightarrow> (Inl e, m, d)
        | Inr d' \<Rightarrow>
            (let job = \<lparr>job_id = jid, project_path = ppath, state = DRAFT, session_id = '''',
                        plan_id = '''', plan_markdown = '''', artifacts_dir = adir, events = [],
                        created_at = now, updated_at = now\<rparr>;
                 m1 = m\<lparr>jobs := AList.update jid job (jobs m)\<rparr>;
                 (queue, m2) = Queue_init m1
             in (Inr job, m2\<lparr>queues := AList.update jid queue (queues m2)\<rparr>, d')))"

definition get_job :: "JobManager \<Rightarrow> string \<Rightarrow> error + Job" where
  "get_job m jid =
    (case map_of (jobs m) jid of
       None \<Rightarrow> Inl (KeyError Job_not_found jid)
     | Some job \<Rightarrow> Inr job)"

text \<open>The \<open>for job in self._jobs.values()\<close> loop of \<open>get_job_by_plan_id\<close>.\<close>

fun scan_plan_id :: "string \<Rightarrow> Job list \<Rightarrow> Job option" where
  "scan_plan_id pid [] = None"
| "scan_plan_id pid (job # rest) = (if plan_id job = pid then Some job else scan_plan_id pid rest)"

definition get_job_by_plan_id :: "JobManager \<Rightarrow> string \<Rightarrow> error + Job" where
  "get_job_by_plan_id m pid =
    (case scan_plan_id pid (map snd (jobs m)) of
       None \<Rightarrow> Inl (KeyError No_job_with_plan_id pid)
     | Some job \<Rightarrow> Inr job)"

definition transition ::
  "JobManager \<Rightarrow> string \<Rightarrow> JobState \<Rightarrow> datetime \<Rightarrow> (error + Job) \<times> JobManager" where
  "transition m jid target_state now =
    (case get_job m jid of
       Inl e \<Rightarrow> (Inl e, m)
     | Inr job \<Rightarrow>
        (case validate_transition (state job) target_state of
           Inl e \<Rightarrow> (Inl e, m)
         | Inr ok \<Rightarrow>
            (let job' = job\<lparr>state := target_state, updated_at := now\<rparr>
             in (Inr job', m\<lparr>jobs := AList.update jid job' (jobs m)\<rparr>))))"

text \<open>
  \<open>add_event\<close> appends to \<open>job.events\<close> before it subscripts \<open>_queues\<close>, so a missing queue
  raises after the log has grown.
\<close>

definition add_event ::
  "JobManager \<Rightarrow> string \<Rightarrow> EventType \<Rightarrow> string \<Rightarrow> datetime \<Rightarrow> (error + JobEvent) \<times> JobManager" where
  "add_event m jid ty dat now =
    (case get_job m jid of
       Inl e \<Rightarrow> (Inl e, m)
     | Inr job \<Rightarrow>
        (let event = \<lparr>event_type = ty, data = dat, timestamp = now\<rparr>;
             m1 = m\<lparr>jobs := AList.update jid (job\<lparr>events := events job @ [event]\<rparr>) (jobs m)\<rparr>
         in case map_of (queues m1) jid of
              None \<Rightarrow> (Inl (KeyError Bare_key jid), m1)
            | Some queue \<Rightarrow> (Inr event, queue_put m1 queue event)))"

text \<open>\<open>get_events\<close> returns the queue object itself, that is, its reference.\<close>

definition get_events :: "JobManager \<Rightarrow> string \<Rightarrow> error + queue_ref" where
  "get_events m jid =
    (case map_of (queues m) jid of
       None \<Rightarrow> Inl (KeyError No_event_queue jid)
     | Some queue \<Rightarrow> Inr queue)"

definition save_artifact ::
  "JobManager \<Rightarrow> disk \<Rightarrow> string \<Rightarrow> string \<Rightarrow> string \<Rightarrow> (error + path) \<times> disk" where
  "save_artifact m d jid filename content =
    (case get_job m jid of
       Inl e \<Rightarrow> (Inl e, d)
     | Inr job \<Rightarrow>
        (let artifact_path = artifacts_dir job @ [filename]
         in case write_text d artifact_path content of
              Inl e \<Rightarrow> (Inl e, d)
            | Inr d' \<Rightarrow> (Inr artifact_path, d')))"

text \<open>
  \<open>save_run_metadata\<close>: \<open>dump\<close> is \<open>json.dumps(job.model_dump(mode="json"), indent=2,
  default=str)\<close>, the library's rendering of the whole record.
\<close>

definition save_run_metadata ::
  "(Job \<Rightarrow> string) \<Rightarrow> JobManager \<Rightarrow> disk \<Rightarrow> string \<Rightarrow> (error + path) \<times> disk" where
  "save_run_metadata dump m d jid =
    (case get_job m jid of
       Inl e \<Rightarrow> (Inl e, d)
     | Inr job \<Rightarrow> save_artifact m d jid ''run.json'' (dump job))"

text \<open>
  The producer and a consumer of one job's events, in any interleaving. The consumer
  does what \<open>_event_generator\<close> (routers/events.py) and the test of the job manager do:
  it asks \<open>get_events\<close> for the queue once, and from then on gets from that queue.
  A schedule lists the steps that follow: an \<open>add_event\<close> call of the producer, or one
  \<open>queue.get()\<close> of the consumer. \<open>run_channel\<close> runs a schedule for a consumer that holds
  \<open>queue\<close> and has observed \<open>seen\<close>; it returns what the consumer has observed and the
  manager afterwards, and stops at the first \<open>add_event\<close> that raises. \<open>event_consumer\<close>
  is the whole: the \<open>get_events\<close> call, whose \<open>KeyError\<close> ends the consumer, then the
  schedule. (\<open>_event_generator\<close> is a consumer that gets no more once it has observed a
  \<open>DONE\<close> or \<open>ERROR\<close> event: its schedules have no \<open>QueueGet\<close> after that.)
\<close>

datatype channel_op = AddEvent EventType string datetime | QueueGet

fun run_channel ::
  "JobManager \<Rightarrow> string \<Rightarrow> queue_ref \<Rightarrow> channel_op list \<Rightarrow> JobEvent list
     \<Rightarrow> error + (JobEvent list \<times> JobManager)" where
  "run_channel m jid queue [] seen = Inr (seen, m)"
| "run_channel m jid queue (AddEvent ty dat now # ops) seen =
    (case add_event m jid ty dat now of
       (Inl e, m') \<Rightarrow> Inl e
     | (Inr ev, m') \<Rightarrow> run_channel m' jid queue ops seen)"
| "run_channel m jid queue (QueueGet # ops) seen =
    (case queue_get m queue of
       (None, m') \<Rightarrow> run_channel m' jid queue ops seen
     | (Some ev, m') \<Rightarrow> run_channel m' jid queue ops (seen @ [ev]))"

definition event_consumer ::
  "JobManager \<Rightarrow> string \<Rightarrow> channel_op list \<Rightarrow> error + (JobEvent list \<times> JobManager)" where
  "event_consumer m jid ops =
    (case get_events m jid of
       Inl e \<Rightarrow> Inl e
     | Inr queue \<Rightarrow> run_channel m jid queue ops [])"

text \<open>The events that the \<open>add_event\<close> calls of a schedule create, in call order.\<close>

fun added :: "channel_op list \<Rightarrow> JobEvent list" where
  "added [] = []"
| "added (AddEvent ty dat now # ops) = \<lparr>event_type = ty, data = dat, timestamp = now\<rparr> # added ops"
| "added (QueueGet # ops) = added ops"

section \<open>Decoded JSON and the library functions the runner calls\<close>

text \<open>
  What \<open>json.loads\<close> returns: \<open>None\<close>, a bool, an int, a float, a str, a list, or a dict
  (its items in order, keys distinct). A float is modelled by the real it denotes; the
  non-finite floats are outside the model. \<open>truthy\<close> is Python's truth value of such an
  object, \<open>type_name\<close> its \<open>type(...).__name__\<close>, \<open>dict_get\<close> is \<open>dict.get(key, default)\<close>
  and \<open>py_or a b\<close> is \<open>a or b\<close>.
\<close>

datatype json =
    JNull | JBool bool | JInt int | JFloat real | JStr string
  | JArr "json list" | JObj "(string \<times> json) list"

fun truthy :: "json \<Rightarrow> bool" where
  "truthy JNull = False"
| "truthy (JBool b) = b"
| "truthy (JInt i) = (i \<noteq> 0)"
| "truthy (JFloat r) = (r \<noteq> 0)"
| "truthy (JStr s) = (s \<noteq> [])"
| "truthy (JArr xs) = (xs \<noteq> [])"
| "truthy (JObj kvs) = (kvs \<noteq> [])"

fun type_name :: "json \<Rightarrow> string" where
  "type_name JNull = ''NoneType''"
| "type_name (JBool b) = ''bool''"
| "type_name (JInt i) = ''int''"
| "type_name (JFloat r) = ''float''"
| "type_name (JStr s) = ''str''"
| "type_name (JArr xs) = ''list''"
| "type_name (JObj kvs) = ''dict''"

definition dict_get :: "(string \<times> json) list \<Rightarrow> string \<Rightarrow> json \<Rightarrow> json" where
  "dict_get d k dflt = (case map_of d k of None \<Rightarrow> dflt | Some v \<Rightarrow> v)"

definition py_or :: "json \<Rightarrow> json \<Rightarrow> json" where
  "py_or a b = (if truthy a then a else b)"

text \<open>
  The one result record of a buffered invocation. Its fields \<open>text\<close> and \<open>session_id\<close>
  are \<open>result_text\<close> and \<open>result_session_id\<close> here: the first name is a keyword of the
  prover, and a \<open>Job\<close> has a field of the second name already.
\<close>

record AgentResult =
  result_text :: string
  result_session_id :: string
  duration_ms :: int
  is_error :: bool

text \<open>
  The functions of the Python library whose code is not part of the repository, taken
  as parameters:
  \<^item> \<open>json_loads\<close>: \<open>json.loads\<close>, with \<open>None\<close> for \<open>JSONDecodeError\<close>;
  \<^item> \<open>json_dumps\<close>: \<open>json.dumps\<close> of a decoded object;
  \<^item> \<open>py_str\<close>: \<open>str\<close> of a decoded object that is not a \<open>str\<close>;
  \<^item> \<open>builtin_message\<close>: \<open>str\<close> of a \<open>KeyError\<close>, \<open>AttributeError\<close> or \<open>TypeError\<close>, whose
    text the interpreter composes;
  \<^item> \<open>pydantic_validate\<close>: what constructing an \<open>AgentResult\<close> does with field values that
    are not of the declared types (a coercion, or a \<open>ValidationError\<close>);
  \<^item> \<open>dump_job\<close>: \<open>json.dumps(job.model_dump(mode="json"), indent=2, default=str)\<close>.
\<close>

record library =
  json_loads :: "string \<Rightarrow> json option"
  json_dumps :: "json \<Rightarrow> string"
  py_str :: "json \<Rightarrow> string"
  builtin_message :: "error \<Rightarrow> string"
  pydantic_validate :: "json \<Rightarrow> json \<Rightarrow> json \<Rightarrow> json \<Rightarrow> error + AgentResult"
  dump_job :: "Job \<Rightarrow> string"

text \<open>\<open>format_value\<close> is the \<open>{...}\<close> of an f-string; \<open>str_exc\<close> is \<open>str(exc)\<close>.\<close>

definition format_value :: "library \<Rightarrow> json \<Rightarrow> string" where
  "format_value lib v = (case v of JStr s \<Rightarrow> s | _ \<Rightarrow> py_str lib v)"

definition str_exc :: "library \<Rightarrow> error \<Rightarrow> string" where
  "str_exc lib e =
    (case e of
       InvalidTransitionError current target \<Rightarrow>
         ''Transition from '' @ [CHR 0x27] @ JobState_value current @ [CHR 0x27]
           @ '' to '' @ [CHR 0x27] @ JobState_value target @ [CHR 0x27] @ '' is not allowed''
     | TimeoutError msg \<Rightarrow> msg
     | FileNotFoundError msg \<Rightarrow> msg
     | OSError msg \<Rightarrow> msg
     | ValidationError msg \<Rightarrow> msg
     | OtherException msg \<Rightarrow> msg
     | _ \<Rightarrow> builtin_message lib e)"

definition AgentResult_init :: "library \<Rightarrow> json \<Rightarrow> json \<Rightarrow> json \<Rightarrow> json \<Rightarrow> error + AgentResult" where
  "AgentResult_init lib t s d e =
    (case (t, s, d, e) of
       (JStr t', JStr s', JInt d', JBool e') \<Rightarrow>
         Inr \<lparr>result_text = t', result_session_id = s', duration_ms = d', is_error = e'\<rparr>
     | _ \<Rightarrow> pydantic_validate lib t s d e)"

section \<open>The process bridge (runner/services/cursor_invoker.py)\<close>

subsection \<open>Buffered invocation\<close>

text \<open>
  \<open>invoke_cursor\<close>. The agent process is outside the model; the invocation is given what
  happened there:
  \<^item> \<open>agent\<close>: what \<open>_find_agent_command()\<close> did, the base command or the
    \<open>FileNotFoundError\<close> with the install hint;
  \<^item> \<open>finished\<close>: what \<open>asyncio.to_thread(_run_blocking, ...)\<close> did, the stripped output with the
    return code, or the \<open>TimeoutError\<close> (or another \<open>OSError\<close> of \<open>subprocess.run\<close>).
\<close>

definition invoke_cursor ::
  "library \<Rightarrow> error + string list \<Rightarrow> error + string \<times> int \<Rightarrow> error + AgentResult" where
  "invoke_cursor lib agent finished =
    (case agent of
       Inl e \<Rightarrow> Inl e
     | Inr base_cmd \<Rightarrow>
        (case finished of
           Inl e \<Rightarrow> Inl e
         | Inr (raw, returncode) \<Rightarrow>
            if raw = [] then
              Inr \<lparr>result_text = ''(No response from agent)'', result_session_id = '''',
                   duration_ms = 0, is_error = True\<rparr>
            else
              (case json_loads lib raw of
                 None \<Rightarrow>
                   Inr \<lparr>result_text = raw, result_session_id = '''', duration_ms = 0, is_error = False\<rparr>
               | Some (JObj dat) \<Rightarrow>
                   AgentResult_init lib
                     (dict_get dat ''result'' (JStr raw))
                     (dict_get dat ''session_id'' (JStr ''''))
                     (dict_get dat ''duration_ms'' (JInt 0))
                     (dict_get dat ''is_error'' (JBool False))
               | Some v \<Rightarrow> Inl (AttributeError (type_name v) ''get''))))"

subsection \<open>Streaming invocation\<close>

text \<open>
  \<open>_stream_blocking\<close>, the worker. The process is its output lines and its exit code, or
  the \<open>OSError\<close> of a \<open>Popen\<close> that could not start it. The worker returns what it has put
  on the queue, in order, and what its future resolves to: each line without its trailing
  newline and carriage return characters, if something is left of it, then the sentinel
  \<open>None\<close>; when \<open>Popen\<close> raises nothing is put, not even the sentinel.
\<close>

record process =
  out_lines :: "string list"
  exit_code :: int

definition rstrip_newlines :: "string \<Rightarrow> string" where
  "rstrip_newlines s = rev (dropWhile (\<lambda>c. c = CHR 0x0A \<or> c = CHR 0x0D) (rev s))"

fun put_lines :: "string list \<Rightarrow> string option list" where
  "put_lines [] = []"
| "put_lines (line # rest) =
    (let stripped = rstrip_newlines line
     in if stripped \<noteq> [] then Some stripped # put_lines rest else put_lines rest)"

definition stream_blocking :: "error + process \<Rightarrow> string option list \<times> (error + int)" where
  "stream_blocking started =
    (case started of
       Inl e \<Rightarrow> ([], Inl e)
     | Inr p \<Rightarrow> (put_lines (out_lines p) @ [None], Inr (exit_code p)))"

text \<open>
  One pass of the generator's loop body on a line taken from the queue: what it yields,
  if anything, or the exception it raises. A line that decodes to something else than a
  dict raises at \<open>chunk.get\<close>.
\<close>

definition handle_line :: "library \<Rightarrow> string \<Rightarrow> error + json option" where
  "handle_line lib line =
    (case json_loads lib line of
       None \<Rightarrow> Inr (Some (JStr line))
     | Some (JObj chunk) \<Rightarrow>
        (let chunk_type = dict_get chunk ''type'' (JStr '''')
         in if chunk_type = JStr ''text_delta'' then
              (let txt = dict_get chunk ''content'' (JStr '''')
               in if truthy txt then Inr (Some txt) else Inr None)
            else if chunk_type = JStr ''result'' then
              (let final_text = dict_get chunk ''result'' (JStr '''')
               in if truthy final_text
                  then Inr (Some (JStr (''__result__::'' @ json_dumps lib (JObj chunk))))
                  else Inr None)
            else if chunk_type = JStr ''tool_use'' then
              (let tool_name = dict_get chunk ''name'' (JStr ''unknown'')
               in Inr (Some (JStr (''[Tool: '' @ format_value lib tool_name @ '']''))))
            else if chunk_type = JStr ''tool_result'' then
              Inr (Some (JStr ''[Tool completed]''))
            else
              (let raw_text = py_or (py_or (dict_get chunk ''content'' (JStr ''''))
                                           (dict_get chunk ''result'' (JStr '''')))
                                    (JStr (py_str lib (JObj chunk)))
               in if truthy raw_text then Inr (Some raw_text) else Inr None))
     | Some v \<Rightarrow> Inl (AttributeError (type_name v) ''get''))"

text \<open>
  The \<open>while True\<close> loop of the generator, run on the outcomes of its successive
  \<open>queue.get_nowait()\<close> calls: \<open>Empty\<close> (the loop sleeps and polls again) or an item. It
  returns what the generator has yielded and how the loop ended: \<open>Some (Inr ())\<close> at the
  sentinel, \<open>Some (Inl e)\<close> when the body raised, and \<open>None\<close> when the polls given are used
  up and the loop is still polling.
\<close>

datatype poll = Empty | Got "string option"

fun stream_loop :: "library \<Rightarrow> poll list \<Rightarrow> json list \<times> (error + unit) option" where
  "stream_loop lib [] = ([], None)"
| "stream_loop lib (Empty # polls) = stream_loop lib polls"
| "stream_loop lib (Got None # polls) = ([], Some (Inr ()))"
| "stream_loop lib (Got (Some line) # polls) =
    (case handle_line lib line of
       Inl e \<Rightarrow> ([], Some (Inl e))
     | Inr y \<Rightarrow>
        (case stream_loop lib polls of
           (ys, ending) \<Rightarrow> ((case y of None \<Rightarrow> [] | Some v \<Rightarrow> [v]) @ ys, ending)))"

text \<open>
  \<open>invoke_cursor_streaming\<close>: the items yielded and the end of the generator. After the
  sentinel it awaits the worker's future: \<open>reader\<close> is what the future resolves to, and
  \<open>Some (Inr returncode)\<close> is the normal end of the generator with the \<open>returncode\<close> it has
  received (and logs).
\<close>

definition invoke_cursor_streaming ::
  "library \<Rightarrow> error + string list \<Rightarrow> poll list \<Rightarrow> error + int \<Rightarrow> json list \<times> (error + int) option" where
  "invoke_cursor_streaming lib agent polls reader =
    (case agent of
       Inl e \<Rightarrow> ([], Some (Inl e))
     | Inr base_cmd \<Rightarrow>
        (case stream_loop lib polls of
           (ys, None) \<Rightarrow> (ys, None)
         | (ys, Some (Inl e)) \<Rightarrow> (ys, Some (Inl e))
         | (ys, Some (Inr u)) \<Rightarrow>
            (case reader of
               Inl e \<Rightarrow> (ys, Some (Inl e))
             | Inr returncode \<Rightarrow> (ys, Some (Inr returncode)))))"

text \<open>The items that a list of polls takes from the queue, in order.\<close>

fun taken :: "poll list \<Rightarrow> string option list" where
  "taken [] = []"
| "taken (Empty # polls) = taken polls"
| "taken (Got x # polls) = x # taken polls"

text \<open>What the loop body yields on each of a list of lines, in order.\<close>

fun yields :: "library \<Rightarrow> string list \<Rightarrow> json list" where
  "yields lib [] = []"
| "yields lib (line # rest) =
    (case handle_line lib line of Inr (Some v) \<Rightarrow> v # yields lib rest | _ \<Rightarrow> yields lib rest)"

section \<open>The phase handlers (runner/routers)\<close>

text \<open>
  What a handler works on: the job manager, the disk, and the clock. \<open>clock w n\<close> is
  what the \<open>n\<close>-th \<open>datetime.now(tz=UTC)\<close> of the service returns and \<open>ticks w\<close> counts the
  readings made so far. The \<open>w_\<close> operations are the job manager's methods on this
  state; each reads the clock where the method does. The manager is wired into the
  routers (\<open>_get_manager\<close> returns it), and a handler is modelled as running without
  another handler's steps in between.
\<close>

record world =
  mgr :: JobManager
  dsk :: disk
  clock :: "nat \<Rightarrow> datetime"
  ticks :: nat

definition clock_now :: "world \<Rightarrow> datetime" where
  "clock_now w = clock w (ticks w)"

definition tick :: "world \<Rightarrow> world" where
  "tick w = w\<lparr>ticks := Suc (ticks w)\<rparr>"

definition w_create_job :: "world \<Rightarrow> string \<Rightarrow> string \<Rightarrow> (error + Job) \<times> world" where
  "w_create_job w ppath hex =
    (case create_job (mgr w) (dsk w) ppath hex (clock_now w) of
       (Inl e, m, d) \<Rightarrow> (Inl e, w)
     | (Inr job, m, d) \<Rightarrow> (Inr job, tick (w\<lparr>mgr := m, dsk := d\<rparr>)))"

definition w_transition :: "world \<Rightarrow> string \<Rightarrow> JobState \<Rightarrow> (error + Job) \<times> world" where
  "w_transition w jid target_state =
    (case transition (mgr w) jid target_state (clock_now w) of
       (Inl e, m) \<Rightarrow> (Inl e, w)
     | (Inr job, m) \<Rightarrow> (Inr job, tick (w\<lparr>mgr := m\<rparr>)))"

definition w_add_event :: "world \<Rightarrow> string \<Rightarrow> EventType \<Rightarrow> string \<Rightarrow> (error + JobEvent) \<times> world" where
  "w_add_event w jid ty dat =
    (case get_job (mgr w) jid of
       Inl e \<Rightarrow> (Inl e, w)
     | Inr job \<Rightarrow>
        (case add_event (mgr w) jid ty dat (clock_now w) of
           (r, m) \<Rightarrow> (r, tick (w\<lparr>mgr := m\<rparr>))))"

definition w_save_artifact :: "world \<Rightarrow> string \<Rightarrow> string \<Rightarrow> string \<Rightarrow> (error + path) \<times> world" where
  "w_save_artifact w jid filename content =
    (case save_artifact (mgr w) (dsk w) jid filename content of
       (r, d) \<Rightarrow> (r, w\<lparr>dsk := d\<rparr>))"

definition w_save_run_metadata :: "library \<Rightarrow> world \<Rightarrow> string \<Rightarrow> (error + path) \<times> world" where
  "w_save_run_metadata lib w jid =
    (case save_run_metadata (dump_job lib) (mgr w) (dsk w) jid of
       (r, d) \<Rightarrow> (r, w\<lparr>dsk := d\<rparr>))"

text \<open>
  \<open>registered w jid job q\<close>: \<open>job\<close> is the record registered under \<open>jid\<close> and \<open>q\<close> is what waits
  in the queue that \<open>get_events\<close> hands out for \<open>jid\<close>.
\<close>

definition registered :: "world \<Rightarrow> string \<Rightarrow> Job \<Rightarrow> JobEvent list \<Rightarrow> bool" where
  "registered w jid job q \<longleftrightarrow>
     get_job (mgr w) jid = Inr job
     \<and> (case get_events (mgr w) jid of Inl e \<Rightarrow> False | Inr queue \<Rightarrow> queue_store (mgr w) queue = q)"

text \<open>\<open>log_events evs\<close>: every event of \<open>evs\<close> is of category \<open>LOG\<close>.\<close>

definition log_events :: "JobEvent list \<Rightarrow> bool" where
  "log_events evs \<longleftrightarrow> list_all (\<lambda>ev. event_type ev = LOG) evs"

text \<open>
  An attribute assignment \<open>job.field = value\<close> by a handler, on the job object that is
  registered under \<open>jid\<close>.
\<close>

definition assign :: "world \<Rightarrow> string \<Rightarrow> (Job \<Rightarrow> Job) \<Rightarrow> world" where
  "assign w jid f =
    (case map_of (jobs (mgr w)) jid of
       None \<Rightarrow> w
     | Some job \<Rightarrow> w\<lparr>mgr := (mgr w)\<lparr>jobs := AList.update jid (f job) (jobs (mgr w))\<rparr>\<rparr>)"

text \<open>
  What leaves a handler instead of a response: the \<open>HTTPException\<close> it raises, with
  status code and detail, or an exception it does not catch.
\<close>

datatype http_error = HTTPException nat string | Unhandled error

subsection \<open>Ask (routers/ask.py)\<close>

text \<open>
  The request fields that reach the job manager; the message, the context and the
  history only go into the prompt, which is handed to the agent process. \<open>hex\<close> is the
  uuid4 that \<open>create_job\<close> draws; \<open>agent\<close> and \<open>finished\<close> are what happened to the
  invocation, as for \<open>invoke_cursor\<close>.
\<close>

record AskRequest =
  ask_project_path :: string
  ask_message :: string
  ask_session_id :: string

record AskResponse =
  ask_job_id :: string
  ask_text :: string
  ask_response_session_id :: string

definition ask ::
  "library \<Rightarrow> world \<Rightarrow> AskRequest \<Rightarrow> string \<Rightarrow> error + string list \<Rightarrow> error + string \<times> int
     \<Rightarrow> (http_error + AskResponse) \<times> world" where
  "ask lib w request hex agent finished =
    (case w_create_job w (ask_project_path request) hex of
       (Inl e, w1) \<Rightarrow> (Inl (Unhandled e), w1)
     | (Inr job, w1) \<Rightarrow>
        (let jid = job_id job;
             w2 = (if ask_session_id request \<noteq> []
                   then assign w1 jid (\<lambda>j. j\<lparr>session_id := ask_session_id request\<rparr>) else w1)
         in case w_transition w2 jid ASK_RUNNING of
              (Inl e, w3) \<Rightarrow> (Inl (Unhandled e), w3)
            | (Inr j3, w3) \<Rightarrow>
               (case invoke_cursor lib agent finished of
                  Inl exc \<Rightarrow>
                    if is_TimeoutError exc then
                      (case w_transition w3 jid FAILED of
                         (Inl e, w4) \<Rightarrow> (Inl (Unhandled e), w4)
                       | (Inr j4, w4) \<Rightarrow>
                          (case w_add_event w4 jid ERROR ''Cursor agent timed out'' of
                             (Inl e, w5) \<Rightarrow> (Inl (Unhandled e), w5)
                           | (Inr ev, w5) \<Rightarrow> (Inl (HTTPException 504 ''Cursor agent timed out''), w5)))
                    else if is_OSError exc then
                      (case w_transition w3 jid FAILED of
                         (Inl e, w4) \<Rightarrow> (Inl (Unhandled e), w4)
                       | (Inr j4, w4) \<Rightarrow>
                          (case w_add_event w4 jid ERROR (''Cursor CLI not found: '' @ str_exc lib exc) of
                             (Inl e, w5) \<Rightarrow> (Inl (Unhandled e), w5)
                           | (Inr ev, w5) \<Rightarrow>
                               (Inl (HTTPException 500 (''Cursor CLI not found: '' @ str_exc lib exc)), w5)))
                    else (Inl (Unhandled exc), w3)
                | Inr result \<Rightarrow>
                    (let w4 = assign w3 jid (\<lambda>j. j\<lparr>session_id := result_session_id result\<rparr>)
                     in case w_transition w4 jid ASK_DONE of
                          (Inl e, w5) \<Rightarrow> (Inl (Unhandled e), w5)
                        | (Inr j5, w5) \<Rightarrow>
                           (case w_add_event w5 jid DONE ''Ask completed'' of
                              (Inl e, w6) \<Rightarrow> (Inl (Unhandled e), w6)
                            | (Inr ev, w6) \<Rightarrow>
                               (case w_save_artifact w6 jid ''ask_response.md'' (result_text result) of
                                  (Inl e, w7) \<Rightarrow> (Inl (Unhandled e), w7)
                                | (Inr p, w7) \<Rightarrow>
                                    (Inr \<lparr>ask_job_id = jid, ask_text = result_text result,
                                          ask_response_session_id = result_session_id result\<rparr>, w7)))))))"

subsection \<open>Plan (routers/plan.py)\<close>

text \<open>
  As for \<open>ask\<close>; \<open>plan_hex\<close> is the second uuid4, drawn for the plan id. The only
  \<open>except\<close> clause of the handler is the one for \<open>TimeoutError\<close>.
\<close>

record PlanRequest =
  plan_project_path :: string
  plan_objective :: string
  plan_session_id :: string

record PlanResponse =
  plan_job_id :: string
  plan_response_plan_id :: string
  plan_response_markdown :: string
  plan_response_session_id :: string

definition create_plan ::
  "library \<Rightarrow> world \<Rightarrow> PlanRequest \<Rightarrow> string \<Rightarrow> string \<Rightarrow> error + string list \<Rightarrow> error + string \<times> int
     \<Rightarrow> (http_error + PlanResponse) \<times> world" where
  "create_plan lib w request hex plan_hex agent finished =
    (case w_create_job w (plan_project_path request) hex of
       (Inl e, w1) \<Rightarrow> (Inl (Unhandled e), w1)
     | (Inr job, w1) \<Rightarrow>
        (let jid = job_id job;
             w2 = (if plan_session_id request \<noteq> []
                   then assign w1 jid (\<lambda>j. j\<lparr>session_id := plan_session_id request\<rparr>) else w1)
         in case w_transition w2 jid PLAN_RUNNING of
              (Inl e, w3) \<Rightarrow> (Inl (Unhandled e), w3)
            | (Inr j3, w3) \<Rightarrow>
               (case invoke_cursor lib agent finished of
                  Inl exc \<Rightarrow>
                    if is_TimeoutError exc then
                      (case w_transition w3 jid FAILED of
                         (Inl e, w4) \<Rightarrow> (Inl (Unhandled e), w4)
                       | (Inr j4, w4) \<Rightarrow>
                          (case w_add_event w4 jid ERROR ''Cursor agent timed out'' of
                             (Inl e, w5) \<Rightarrow> (Inl (Unhandled e), w5)
                           | (Inr ev, w5) \<Rightarrow> (Inl (HTTPException 504 ''Cursor agent timed out''), w5)))
                    else (Inl (Unhandled exc), w3)
                | Inr result \<Rightarrow>
                    (let markdown = result_text result;
                         pid = take 12 plan_hex;
                         w4 = assign w3 jid (\<lambda>j. j\<lparr>session_id := result_session_id result\<rparr>);
                         w5 = assign w4 jid (\<lambda>j. j\<lparr>plan_id := pid\<rparr>);
                         w6 = assign w5 jid (\<lambda>j. j\<lparr>plan_markdown := markdown\<rparr>)
                     in case w_transition w6 jid PLAN_READY of
                          (Inl e, w7) \<Rightarrow> (Inl (Unhandled e), w7)
                        | (Inr j7, w7) \<Rightarrow>
                           (case w_add_event w7 jid DONE ''Plan generation completed'' of
                              (Inl e, w8) \<Rightarrow> (Inl (Unhandled e), w8)
                            | (Inr ev, w8) \<Rightarrow>
                               (case w_save_artifact w8 jid ''plan.md'' markdown of
                                  (Inl e, w9) \<Rightarrow> (Inl (Unhandled e), w9)
                                | (Inr p, w9) \<Rightarrow>
                                    (Inr \<lparr>plan_job_id = jid, plan_response_plan_id = pid,
                                          plan_response_markdown = markdown,
                                          plan_response_session_id = result_session_id result\<rparr>, w9)))))))"

subsection \<open>Execute (routers/execute.py)\<close>

text \<open>
  The body of the \<open>async for\<close> of \<open>_run_execution\<close>, on the items the generator yields:
  a marker item adds the final text to \<open>accumulated_text\<close>, any other item is
  accumulated and recorded as a \<open>LOG\<close> event. An item that is no \<open>str\<close> raises at
  \<open>chunk.startswith\<close>, and marker text that decodes to something else than a dict at
  \<open>result_data.get\<close>.
\<close>

fun drain_chunks ::
  "library \<Rightarrow> world \<Rightarrow> string \<Rightarrow> json list \<Rightarrow> json list \<Rightarrow> (error + json list) \<times> world" where
  "drain_chunks lib w jid [] acc = (Inr acc, w)"
| "drain_chunks lib w jid (chunk # rest) acc =
    (case chunk of
       JStr s \<Rightarrow>
         if take 12 s = ''__result__::'' then
           (case json_loads lib (drop 12 s) of
              None \<Rightarrow> drain_chunks lib w jid rest acc
            | Some (JObj result_data) \<Rightarrow>
                (let final_text = dict_get result_data ''result'' (JStr '''')
                 in drain_chunks lib w jid rest (if truthy final_text then acc @ [final_text] else acc))
            | Some v \<Rightarrow> (Inl (AttributeError (type_name v) ''get''), w))
         else
           (case w_add_event w jid LOG s of
              (Inl e, w') \<Rightarrow> (Inl e, w')
            | (Inr ev, w') \<Rightarrow> drain_chunks lib w' jid rest (acc @ [chunk]))
     | v \<Rightarrow> (Inl (AttributeError (type_name v) ''startswith''), w))"

text \<open>\<open>"".join(accumulated_text)\<close>, which raises on the first item that is no \<open>str\<close>.\<close>

fun join_text :: "nat \<Rightarrow> json list \<Rightarrow> error + string" where
  "join_text i [] = Inr []"
| "join_text i (JStr s # rest) =
    (case join_text (Suc i) rest of Inl e \<Rightarrow> Inl e | Inr t \<Rightarrow> Inr (s @ t))"
| "join_text i (v # rest) = Inl (TypeError i (type_name v))"

text \<open>
  The first part of the \<open>try\<close> block, up to the end of the \<open>async for\<close>: the \<open>STEP\<close> event
  and the draining of the generator. \<open>gen\<close> is what \<open>invoke_cursor_streaming\<close> gives, the
  items and the end of the generator. The result is \<open>None\<close> when the generator neither
  ends nor raises (the task stays in the loop), \<open>Some (Inl exc)\<close> when an exception is
  raised, and \<open>Some (Inr acc)\<close> with the accumulated text at the normal end.
\<close>

definition drain_stream ::
  "library \<Rightarrow> world \<Rightarrow> string \<Rightarrow> json list \<times> (error + int) option
     \<Rightarrow> (error + json list) option \<times> world" where
  "drain_stream lib w jid gen =
    (case w_add_event w jid STEP ''Starting Cursor agent in execute mode (streaming)'' of
       (Inl e, w1) \<Rightarrow> (Some (Inl e), w1)
     | (Inr ev, w1) \<Rightarrow>
        (case drain_chunks lib w1 jid (fst gen) [] of
           (Inl e, w2) \<Rightarrow> (Some (Inl e), w2)
         | (Inr acc, w2) \<Rightarrow>
            (case snd gen of
               None \<Rightarrow> (None, w2)
             | Some (Inl e) \<Rightarrow> (Some (Inl e), w2)
             | Some (Inr returncode) \<Rightarrow> (Some (Inr acc), w2))))"

text \<open>The rest of the \<open>try\<close> block, after the loop.\<close>

definition complete_execution :: "world \<Rightarrow> string \<Rightarrow> json list \<Rightarrow> (error + unit) \<times> world" where
  "complete_execution w jid acc =
    (case join_text 0 acc of
       Inl e \<Rightarrow> (Inl e, w)
     | Inr full_output \<Rightarrow>
        (case w_save_artifact w jid ''logs.txt'' full_output of
           (Inl e, w1) \<Rightarrow> (Inl e, w1)
         | (Inr p1, w1) \<Rightarrow>
            (case w_save_artifact w1 jid ''job_summary.md'' full_output of
               (Inl e, w2) \<Rightarrow> (Inl e, w2)
             | (Inr p2, w2) \<Rightarrow>
                (case w_transition w2 jid COMPLETE of
                   (Inl e, w3) \<Rightarrow> (Inl e, w3)
                 | (Inr j3, w3) \<Rightarrow>
                    (case w_add_event w3 jid DONE ''Execution completed successfully'' of
                       (Inl e, w4) \<Rightarrow> (Inl e, w4)
                     | (Inr ev, w4) \<Rightarrow> (Inr (), w4))))))"

text \<open>The body of the \<open>except Exception as exc\<close> clause.\<close>

definition fail_execution :: "library \<Rightarrow> world \<Rightarrow> string \<Rightarrow> error \<Rightarrow> (error + unit) \<times> world" where
  "fail_execution lib w jid exc =
    (case w_transition w jid FAILED of
       (Inl e, w1) \<Rightarrow> (Inl e, w1)
     | (Inr j1, w1) \<Rightarrow>
        (case w_add_event w1 jid ERROR (str_exc lib exc) of
           (Inl e, w2) \<Rightarrow> (Inl e, w2)
         | (Inr ev, w2) \<Rightarrow> (Inr (), w2)))"

text \<open>
  The \<open>except Exception as exc\<close> clause on an exception of the \<open>try\<close> block: it runs its
  body on an instance of \<open>Exception\<close>, and lets any other exception pass.
\<close>

definition except_Exception :: "library \<Rightarrow> world \<Rightarrow> string \<Rightarrow> error \<Rightarrow> (error + unit) \<times> world" where
  "except_Exception lib w jid exc =
    (if is_Exception exc then fail_execution lib w jid exc else (Inl exc, w))"

text \<open>
  The \<open>finally\<close> clause: \<open>pending\<close> is how the statement would end without it; an
  exception of \<open>save_run_metadata\<close> takes its place.
\<close>

definition finally_save :: "library \<Rightarrow> string \<Rightarrow> (error + unit) \<times> world \<Rightarrow> (error + unit) \<times> world" where
  "finally_save lib jid pending =
    (case w_save_run_metadata lib (snd pending) jid of
       (Inl e, w') \<Rightarrow> (Inl e, w')
     | (Inr p, w') \<Rightarrow> (fst pending, w'))"

text \<open>
  \<open>_run_execution\<close>: how the task ends, and the state it leaves. \<open>None\<close>: the task never
  comes back from the loop, and the state is the one in which it goes on polling;
  \<open>Some (Inr ())\<close>: the task returns; \<open>Some (Inl exc)\<close>: the exception \<open>exc\<close> leaves the task.
\<close>

definition run_execution ::
  "library \<Rightarrow> world \<Rightarrow> string \<Rightarrow> json list \<times> (error + int) option
     \<Rightarrow> (error + unit) option \<times> world" where
  "run_execution lib w jid gen =
    (case drain_stream lib w jid gen of
       (None, w1) \<Rightarrow> (None, w1)
     | (Some (Inl exc), w1) \<Rightarrow> apfst Some (finally_save lib jid (except_Exception lib w1 jid exc))
     | (Some (Inr acc), w1) \<Rightarrow>
        (case complete_execution w1 jid acc of
           (Inl exc, w2) \<Rightarrow> apfst Some (finally_save lib jid (except_Exception lib w2 jid exc))
         | (Inr u, w2) \<Rightarrow> apfst Some (finally_save lib jid (Inr (), w2))))"

section \<open>Concrete registries, lines and runs\<close>

text \<open>
  The values on which the theorems below are instantiated: two uuid4 draws that agree
  on their first 12 hex digits, a disk, jobs and registries.
\<close>

definition demo_hex :: string where
  "demo_hex = ''0123456789ab4def8123456789abcdef''"

definition demo_hex_b :: string where
  "demo_hex_b = ''0123456789ab4000a000000000000001''"

definition demo_disk :: disk where
  "demo_disk = \<lparr>dirs = {[]}, files = Map.empty\<rparr>"

definition demo_disk1 :: disk where
  "demo_disk1 = \<lparr>dirs = {[], [''jobs''], [''jobs'', ''0123456789ab'']}, files = Map.empty\<rparr>"

definition demo_job :: Job where
  "demo_job = \<lparr>job_id = ''0123456789ab'', project_path = ''/p'', state = DRAFT, session_id = '''',
      plan_id = '''', plan_markdown = '''', artifacts_dir = [''jobs'', ''0123456789ab''], events = [],
      created_at = 1, updated_at = 1\<rparr>"

definition demo_manager :: JobManager where
  "demo_manager = \<lparr>artifacts_root = [''jobs''], jobs = [(''0123456789ab'', demo_job)],
      queues = [(''0123456789ab'', 0)], queue_store = (\<lambda>r. []), next_ref = 1\<rparr>"

definition demo_manager_failed :: JobManager where
  "demo_manager_failed = \<lparr>artifacts_root = [''jobs''],
      jobs = [(''0123456789ab'', demo_job\<lparr>state := FAILED\<rparr>)],
      queues = [(''0123456789ab'', 0)], queue_store = (\<lambda>r. []), next_ref = 1\<rparr>"

definition demo_job2 :: Job where
  "demo_job2 = \<lparr>job_id = ''ba9876543210'', project_path = ''/q'', state = PLAN_READY, session_id = ''s1'',
      plan_id = ''feedfacecafe'', plan_markdown = ''# Plan'', artifacts_dir = [''jobs'', ''ba9876543210''],
      events = [], created_at = 2, updated_at = 4\<rparr>"

definition demo_manager2 :: JobManager where
  "demo_manager2 = \<lparr>artifacts_root = [''jobs''],
      jobs = [(''ba9876543210'', demo_job2), (''0123456789ab'', demo_job)],
      queues = [(''ba9876543210'', 0), (''0123456789ab'', 1)], queue_store = (\<lambda>r. []), next_ref = 2\<rparr>"

definition demo_job_b :: Job where
  "demo_job_b = \<lparr>job_id = ''0123456789ab'', project_path = ''/q'', state = DRAFT, session_id = '''',
      plan_id = '''', plan_markdown = '''', artifacts_dir = [''jobs'', ''0123456789ab''], events = [],
      created_at = 2, updated_at = 2\<rparr>"

definition demo_manager_b :: JobManager where
  "demo_manager_b = \<lparr>artifacts_root = [''jobs''], jobs = [(''0123456789ab'', demo_job_b)],
      queues = [(''0123456789ab'', 1)], queue_store = (\<lambda>r. []), next_ref = 2\<rparr>"

text \<open>A schedule of a producer and a consumer on one channel.\<close>

definition demo_ops :: "channel_op list" where
  "demo_ops = [AddEvent STEP ''start'' 3, QueueGet, QueueGet, AddEvent LOG ''hello'' 4,
               AddEvent DONE ''bye'' 5, QueueGet]"

text \<open>
  Output of the agent: a line that is no JSON, one line for each kind of chunk, a
  number, and the object of a buffered invocation. \<open>demo_loads\<close> is \<open>json.loads\<close> on
  these texts and \<open>demo_dumps\<close> is \<open>json.dumps\<close> on the one object that is dumped.
\<close>

definition line_plain :: string where
  \<open>line_plain = ''Error: not logged in''\<close>

definition line_delta :: string where
  \<open>line_delta = ''{"type": "text_delta", "content": "partial one"}''\<close>

definition line_delta_empty :: string where
  \<open>line_delta_empty = ''{"type": "text_delta", "content": ""}''\<close>

definition line_result :: string where
  \<open>line_result = ''{"type": "result", "result": "all done"}''\<close>

definition line_result_empty :: string where
  \<open>line_result_empty = ''{"type": "result", "result": ""}''\<close>

definition line_tool_use :: string where
  \<open>line_tool_use = ''{"type": "tool_use", "name": "edit"}''\<close>

definition line_tool_result :: string where
  \<open>line_tool_result = ''{"type": "tool_result"}''\<close>

definition line_other :: string where
  \<open>line_other = ''{"type": "status", "content": "thinking"}''\<close>

definition line_number :: string where
  \<open>line_number = ''42''\<close>

definition raw_object :: string where
  \<open>raw_object = ''{"result": "hi", "session_id": "s-1", "duration_ms": 12, "is_error": false}''\<close>

definition demo_loads :: "string \<Rightarrow> json option" where
  "demo_loads s =
    (if s = line_delta then Some (JObj [(''type'', JStr ''text_delta''), (''content'', JStr ''partial one'')])
     else if s = line_delta_empty then Some (JObj [(''type'', JStr ''text_delta''), (''content'', JStr '''')])
     else if s = line_result then Some (JObj [(''type'', JStr ''result''), (''result'', JStr ''all done'')])
     else if s = line_result_empty then Some (JObj [(''type'', JStr ''result''), (''result'', JStr '''')])
     else if s = line_tool_use then Some (JObj [(''type'', JStr ''tool_use''), (''name'', JStr ''edit'')])
     else if s = line_tool_result then Some (JObj [(''type'', JStr ''tool_result'')])
     else if s = line_other then Some (JObj [(''type'', JStr ''status''), (''content'', JStr ''thinking'')])
     else if s = line_number then Some (JInt 42)
     else if s = raw_object then
       Some (JObj [(''result'', JStr ''hi''), (''session_id'', JStr ''s-1''),
                   (''duration_ms'', JInt 12), (''is_error'', JBool False)])
     else None)"

definition demo_dumps :: "json \<Rightarrow> string" where
  "demo_dumps v =
    (if v = JObj [(''type'', JStr ''result''), (''result'', JStr ''all done'')] then line_result else '''')"

definition demo_library :: library where
  "demo_library = \<lparr>json_loads = demo_loads, json_dumps = demo_dumps, py_str = (\<lambda>v. ''?''),
      builtin_message = (\<lambda>e. ''?''),
      pydantic_validate = (\<lambda>t s d e. Inl (ValidationError ''1 validation error for AgentResult'')),
      dump_job = (\<lambda>job. JobState_value (state job))\<rparr>"

text \<open>
  A process that prints six lines with content and an empty one and exits with 0, and
  polls of the generator that take what the worker puts on the queue for it, with idle
  polls in between and one more item polled after the sentinel.
\<close>

definition demo_process :: process where
  "demo_process = \<lparr>out_lines = [line_delta @ [CHR 0x0A], [CHR 0x0D, CHR 0x0A], line_plain @ [CHR 0x0A],
      line_tool_use @ [CHR 0x0A], line_tool_result @ [CHR 0x0A], line_other @ [CHR 0x0A], line_result],
      exit_code = 0\<rparr>"

definition demo_polls :: "poll list" where
  "demo_polls = [Empty, Got (Some line_delta), Got (Some line_plain), Empty, Empty,
      Got (Some line_tool_use), Got (Some line_tool_result), Got (Some line_other),
      Got (Some line_result), Empty, Got None, Empty,
      Got (Some line_plain)]"

text \<open>
  A plan request on a fresh service where the agent is not installed, and an execution
  on a job in \<open>EXECUTING\<close>: with a stream that raises after one item, with a task that
  is cancelled after one item, with the stream of two partial texts and the result
  marker, and with the stream of a worker that could not start the agent process, as
  far as three polls of the generator go.
\<close>

definition demo_world :: world where
  "demo_world = \<lparr>mgr = JobManager_init [''jobs''], dsk = demo_disk, clock = (\<lambda>n. 10 + n), ticks = 0\<rparr>"

definition demo_plan_request :: PlanRequest where
  "demo_plan_request = \<lparr>plan_project_path = ''/p'', plan_objective = ''add tests'', plan_session_id = ''''\<rparr>"

definition demo_hint :: string where
  "demo_hint = ''Cursor agent CLI not found. Install it with: curl -fsSL https://cursor.com/install | bash''"

definition demo_job_exec :: Job where
  "demo_job_exec = \<lparr>job_id = ''0123456789ab'', project_path = ''/p'', state = EXECUTING, session_id = ''s-1'',
      plan_id = ''feedfacecafe'', plan_markdown = ''# Plan'', artifacts_dir = [''jobs'', ''0123456789ab''],
      events = [], created_at = 1, updated_at = 7\<rparr>"

definition demo_exec_world :: world where
  "demo_exec_world = \<lparr>mgr = \<lparr>artifacts_root = [''jobs''], jobs = [(''0123456789ab'', demo_job_exec)],
                               queues = [(''0123456789ab'', 0)], queue_store = (\<lambda>r. []),
                               next_ref = 1\<rparr>,
      dsk = demo_disk1, clock = (\<lambda>n. 10 + n), ticks = 0\<rparr>"

definition demo_gen :: "json list \<times> (error + int) option" where
  "demo_gen = ([JStr ''partial one''], Some (Inl (OSError ''Broken pipe'')))"

definition demo_gen_cancelled :: "json list \<times> (error + int) option" where
  "demo_gen_cancelled = ([JStr ''partial one''], Some (Inl CancelledError))"

definition demo_gen_ok :: "json list \<times> (error + int) option" where
  "demo_gen_ok = ([JStr ''partial one'', JStr ''partial two'', JStr (''__result__::'' @ line_result)],
                  Some (Inr 0))"

definition demo_gen_unstarted :: "json list \<times> (error + int) option" where
  "demo_gen_unstarted =
    invoke_cursor_streaming demo_library (Inr [''agent'']) [Empty, Empty, Empty]
      (snd (stream_blocking (Inl (FileNotFoundError ''No such file or directory''))))"

text \<open>
  What a run of the execution task leaves: how it ended, the state and the events
  (category and payload) of the job, and the content of one file.
\<close>

definition summary ::
  "(error + unit) option \<times> world \<Rightarrow> string \<Rightarrow> path
    \<Rightarrow> (error + unit) option \<times> (JobState \<times> (EventType \<times> string) list) option \<times> string option" where
  "summary res jid p =
    (fst res,
     (case get_job (mgr (snd res)) jid of Inl e \<Rightarrow> None
      | Inr job \<Rightarrow> Some (state job, map (\<lambda>ev. (event_type ev, data ev)) (events job))),
     files (dsk (snd res)) p)"

section \<open>Transitions through the job manager\<close>

lemma validate_transition_edge:
  "validate_transition c t =
     (if (c, t) \<in> set spec_edges then Inr True else Inl (InvalidTransitionError c t))"
  by (cases c; cases t; simp add: validate_transition_def ALLOWED_TRANSITIONS_def spec_edges_def)

lemma get_job_demo: "get_job demo_manager ''0123456789ab'' = Inr demo_job"
  by (simp add: get_job_def demo_manager_def)

lemma get_job_update:
  "get_job (m\<lparr>jobs := AList.update jid job' (jobs m)\<rparr>) k = (if k = jid then Inr job' else get_job m k)"
  by (simp add: get_job_def update_conv')

text \<open>
  Claim C1. When the pair (current state, target) is not an edge of the table of section
  4.1, and in particular when the current state is \<open>COMPLETE\<close> or \<open>FAILED\<close>, \<open>transition\<close>
  on a registered job raises \<open>InvalidTransitionError\<close> carrying that current state and
  that target, and the manager (the job's state and every other field) is unchanged.
\<close>

theorem transition_rejects_non_edge:
  assumes "get_job m jid = Inr job"
    and "(state job, target) \<notin> set spec_edges \<or> state job = COMPLETE \<or> state job = FAILED"
  shows "transition m jid target now = (Inl (InvalidTransitionError (state job) target), m)"
proof -
  from assms(2) have "(state job, target) \<notin> set spec_edges"
    by (auto simp add: spec_edges_def)
  then show ?thesis
    using assms(1) by (simp add: transition_def validate_transition_edge)
qed

theorem transition_rejects_non_edge_witness:
  "get_job demo_manager ''0123456789ab'' = Inr demo_job
   \<and> (state demo_job, EXECUTING) \<notin> set spec_edges
   \<and> transition demo_manager ''0123456789ab'' EXECUTING 9
       = (Inl (InvalidTransitionError DRAFT EXECUTING), demo_manager)
   \<and> get_job demo_manager_failed ''0123456789ab'' = Inr (demo_job\<lparr>state := FAILED\<rparr>)
   \<and> state (demo_job\<lparr>state := FAILED\<rparr>) = FAILED
   \<and> transition demo_manager_failed ''0123456789ab'' DRAFT 9
       = (Inl (InvalidTransitionError FAILED DRAFT), demo_manager_failed)"
proof -
  have n: "(state demo_job, EXECUTING) \<notin> set spec_edges
           \<or> state demo_job = COMPLETE \<or> state demo_job = FAILED"
    by (simp add: demo_job_def spec_edges_def)
  have g: "get_job demo_manager_failed ''0123456789ab'' = Inr (demo_job\<lparr>state := FAILED\<rparr>)"
    by (simp add: get_job_def demo_manager_failed_def)
  have f: "(state (demo_job\<lparr>state := FAILED\<rparr>), DRAFT) \<notin> set spec_edges
           \<or> state (demo_job\<lparr>state := FAILED\<rparr>) = COMPLETE \<or> state (demo_job\<lparr>state := FAILED\<rparr>) = FAILED"
    by simp
  show ?thesis
    using get_job_demo n g transition_rejects_non_edge [OF get_job_demo n, of 9]
      transition_rejects_non_edge [OF g f, of 9]
    by (simp add: demo_job_def spec_edges_def)
qed

text \<open>
  Claim C2. When the pair (current state, target) is an edge of the table of section
  4.1, \<open>transition\<close> on a registered job succeeds: it returns the job with its state set
  to the target and \<open>updated_at\<close> set to the clock reading of the call, a later \<open>get_job\<close>
  returns that record, and the other jobs and the queues (the references and the queue
  objects) are untouched.
\<close>

theorem transition_accepts_edge:
  assumes "get_job m jid = Inr job"
    and "(state job, target) \<in> set spec_edges"
  shows "fst (transition m jid target now) = Inr (job\<lparr>state := target, updated_at := now\<rparr>)
       \<and> get_job (snd (transition m jid target now)) jid
            = Inr (job\<lparr>state := target, updated_at := now\<rparr>)
       \<and> (\<forall>k. k \<noteq> jid \<longrightarrow> get_job (snd (transition m jid target now)) k = get_job m k)
       \<and> queues (snd (transition m jid target now)) = queues m
       \<and> queue_store (snd (transition m jid target now)) = queue_store m
       \<and> next_ref (snd (transition m jid target now)) = next_ref m"
proof -
  let ?job = "job\<lparr>state := target, updated_at := now\<rparr>"
  have allowed: "validate_transition (state job) target = Inr True"
    using assms(2) by (simp add: validate_transition_edge)
  have step: "transition m jid target now = (Inr ?job, m\<lparr>jobs := AList.update jid ?job (jobs m)\<rparr>)"
    using assms(1) allowed by (simp add: transition_def Let_def)
  show ?thesis
    unfolding step by (simp add: get_job_update)
qed

theorem transition_accepts_edge_witness:
  "get_job demo_manager ''0123456789ab'' = Inr demo_job
   \<and> (state demo_job, ASK_RUNNING) \<in> set spec_edges
   \<and> fst (transition demo_manager ''0123456789ab'' ASK_RUNNING 9)
       = Inr (demo_job\<lparr>state := ASK_RUNNING, updated_at := 9\<rparr>)
   \<and> get_job (snd (transition demo_manager ''0123456789ab'' ASK_RUNNING 9)) ''0123456789ab''
       = Inr (demo_job\<lparr>state := ASK_RUNNING, updated_at := 9\<rparr>)"
proof -
  have e: "(state demo_job, ASK_RUNNING) \<in> set spec_edges"
    by (simp add: demo_job_def spec_edges_def)
  show ?thesis
    using get_job_demo e transition_accepts_edge [OF get_job_demo e, of 9] by simp
qed

section \<open>Lookups\<close>

lemma scan_plan_id_None: "scan_plan_id pid js = None \<longleftrightarrow> (\<forall>j \<in> set js. plan_id j \<noteq> pid)"
  by (induction js) auto

lemma scan_plan_id_Some:
  "scan_plan_id pid js = Some job \<longleftrightarrow>
     (\<exists>pre post. js = pre @ job # post \<and> plan_id job = pid \<and> (\<forall>j \<in> set pre. plan_id j \<noteq> pid))"
proof (induction js)
  case Nil
  then show ?case by simp
next
  case (Cons a js)
  show ?case
  proof (cases "plan_id a = pid")
    case True
    have "(\<exists>pre post. a # js = pre @ job # post \<and> plan_id job = pid \<and> (\<forall>j \<in> set pre. plan_id j \<noteq> pid))
          \<longleftrightarrow> a = job"
    proof
      assume "\<exists>pre post. a # js = pre @ job # post \<and> plan_id job = pid \<and> (\<forall>j \<in> set pre. plan_id j \<noteq> pid)"
      then obtain pre post where h: "a # js = pre @ job # post" "\<forall>j \<in> set pre. plan_id j \<noteq> pid"
        by blast
      show "a = job"
      proof (cases pre)
        case Nil
        with h show ?thesis by simp
      next
        case (Cons b pre')
        with h True show ?thesis by auto
      qed
    next
      assume "a = job"
      with True have "a # js = [] @ job # js \<and> plan_id job = pid \<and> (\<forall>j \<in> set []. plan_id j \<noteq> pid)"
        by simp
      then show "\<exists>pre post. a # js = pre @ job # post \<and> plan_id job = pid \<and> (\<forall>j \<in> set pre. plan_id j \<noteq> pid)"
        by blast
    qed
    with True show ?thesis by auto
  next
    case False
    have "(\<exists>pre post. a # js = pre @ job # post \<and> plan_id job = pid \<and> (\<forall>j \<in> set pre. plan_id j \<noteq> pid))
          \<longleftrightarrow> (\<exists>pre post. js = pre @ job # post \<and> plan_id job = pid \<and> (\<forall>j \<in> set pre. plan_id j \<noteq> pid))"
      (is "?L \<longleftrightarrow> ?R")
    proof
      assume ?L
      then obtain pre post where h: "a # js = pre @ job # post" "plan_id job = pid"
          "\<forall>j \<in> set pre. plan_id j \<noteq> pid" by blast
      show ?R
      proof (cases pre)
        case Nil
        with h False show ?thesis by simp
      next
        case (Cons b pre')
        with h have "js = pre' @ job # post \<and> plan_id job = pid \<and> (\<forall>j \<in> set pre'. plan_id j \<noteq> pid)"
          by simp
        then show ?thesis by blast
      qed
    next
      assume ?R
      then obtain pre post where h: "js = pre @ job # post" "plan_id job = pid"
          "\<forall>j \<in> set pre. plan_id j \<noteq> pid" by blast
      with False have "a # js = (a # pre) @ job # post \<and> plan_id job = pid
          \<and> (\<forall>j \<in> set (a # pre). plan_id j \<noteq> pid)" by simp
      then show ?L by blast
    qed
    with False Cons.IH show ?thesis by simp
  qed
qed

lemma scan_plan_id_SomeD: "scan_plan_id pid js = Some job \<Longrightarrow> job \<in> set js \<and> plan_id job = pid"
  by (induction js) (auto split: if_splits)

text \<open>
  Claim C9. \<open>get_job\<close> on an id that is not a key of the registry raises the
  \<open>KeyError\<close> "Job ... not found", and on a registered id returns the record stored
  under it. \<open>get_job_by_plan_id\<close> on a plan id that no registered job carries raises the
  \<open>KeyError\<close> "No job found with plan_id ..."; on a plan id that some job carries it
  returns a registered job with that plan id, which is the matching record itself when
  only one job carries it.
\<close>

theorem lookups_found_or_not_found:
  "(map_of (jobs m) jid = None \<longrightarrow> get_job m jid = Inl (KeyError Job_not_found jid))
   \<and> (map_of (jobs m) jid = Some job \<longrightarrow> get_job m jid = Inr job)
   \<and> ((\<forall>j \<in> set (map snd (jobs m)). plan_id j \<noteq> pid)
        \<longrightarrow> get_job_by_plan_id m pid = Inl (KeyError No_job_with_plan_id pid))
   \<and> ((\<exists>j \<in> set (map snd (jobs m)). plan_id j = pid)
        \<longrightarrow> (\<exists>j \<in> set (map snd (jobs m)). plan_id j = pid \<and> get_job_by_plan_id m pid = Inr j))
   \<and> (\<forall>j. j \<in> set (map snd (jobs m)) \<and> plan_id j = pid
            \<and> (\<forall>j' \<in> set (map snd (jobs m)). plan_id j' = pid \<longrightarrow> j' = j)
        \<longrightarrow> get_job_by_plan_id m pid = Inr j)"
proof (intro conjI impI allI)
  assume "map_of (jobs m) jid = None"
  then show "get_job m jid = Inl (KeyError Job_not_found jid)" by (simp add: get_job_def)
next
  assume "map_of (jobs m) jid = Some job"
  then show "get_job m jid = Inr job" by (simp add: get_job_def)
next
  assume "\<forall>j \<in> set (map snd (jobs m)). plan_id j \<noteq> pid"
  then have "scan_plan_id pid (map snd (jobs m)) = None" by (simp only: scan_plan_id_None)
  then show "get_job_by_plan_id m pid = Inl (KeyError No_job_with_plan_id pid)"
    by (simp add: get_job_by_plan_id_def)
next
  assume "\<exists>j \<in> set (map snd (jobs m)). plan_id j = pid"
  then have "scan_plan_id pid (map snd (jobs m)) \<noteq> None" by (simp only: scan_plan_id_None) blast
  then obtain j where s: "scan_plan_id pid (map snd (jobs m)) = Some j" by blast
  then have "j \<in> set (map snd (jobs m)) \<and> plan_id j = pid"
    by (rule scan_plan_id_SomeD)
  with s show "\<exists>j \<in> set (map snd (jobs m)). plan_id j = pid \<and> get_job_by_plan_id m pid = Inr j"
    by (auto simp add: get_job_by_plan_id_def)
next
  fix j
  assume a: "j \<in> set (map snd (jobs m)) \<and> plan_id j = pid
            \<and> (\<forall>j' \<in> set (map snd (jobs m)). plan_id j' = pid \<longrightarrow> j' = j)"
  then have "scan_plan_id pid (map snd (jobs m)) \<noteq> None" by (simp only: scan_plan_id_None) blast
  then obtain j' where s: "scan_plan_id pid (map snd (jobs m)) = Some j'" by blast
  then have "j' \<in> set (map snd (jobs m)) \<and> plan_id j' = pid"
    by (rule scan_plan_id_SomeD)
  with a have "j' = j" by blast
  with s show "get_job_by_plan_id m pid = Inr j" by (simp add: get_job_by_plan_id_def)
qed

theorem lookups_found_or_not_found_witness:
  "map_of (jobs demo_manager2) ''nonexistent'' = None
   \<and> get_job demo_manager2 ''nonexistent'' = Inl (KeyError Job_not_found ''nonexistent'')
   \<and> map_of (jobs demo_manager2) ''0123456789ab'' = Some demo_job
   \<and> get_job demo_manager2 ''0123456789ab'' = Inr demo_job
   \<and> get_job_by_plan_id demo_manager2 ''nonexistent'' = Inl (KeyError No_job_with_plan_id ''nonexistent'')
   \<and> get_job_by_plan_id demo_manager2 ''feedfacecafe'' = Inr demo_job2"
proof -
  have a: "map_of (jobs demo_manager2) ''nonexistent'' = None"
    by (simp add: demo_manager2_def)
  have b: "map_of (jobs demo_manager2) ''0123456789ab'' = Some demo_job"
    by (simp add: demo_manager2_def)
  have c: "\<forall>j \<in> set (map snd (jobs demo_manager2)). plan_id j \<noteq> ''nonexistent''"
    by (simp add: demo_manager2_def demo_job_def demo_job2_def)
  have d: "demo_job2 \<in> set (map snd (jobs demo_manager2)) \<and> plan_id demo_job2 = ''feedfacecafe''
           \<and> (\<forall>j' \<in> set (map snd (jobs demo_manager2)). plan_id j' = ''feedfacecafe'' \<longrightarrow> j' = demo_job2)"
    by (simp add: demo_manager2_def demo_job_def demo_job2_def)
  show ?thesis
    using a b c d
      lookups_found_or_not_found [of demo_manager2 "''nonexistent''" demo_job "''nonexistent''"]
      lookups_found_or_not_found [of demo_manager2 "''0123456789ab''" demo_job "''feedfacecafe''"]
    by blast
qed

text \<open>
  Claim C10. In a registry with at least one job whose \<open>plan_id\<close> still is the default
  empty string, \<open>get_job_by_plan_id\<close> with the empty string does not raise: it returns
  the first such job in the order of the registry (the jobs before it all carry a
  non-empty plan id).
\<close>

theorem empty_plan_id_finds_first_unplanned_job:
  assumes "\<exists>j \<in> set (map snd (jobs m)). plan_id j = ''''"
  shows "\<exists>pre job post. map snd (jobs m) = pre @ job # post \<and> plan_id job = ''''
           \<and> (\<forall>j \<in> set pre. plan_id j \<noteq> '''') \<and> get_job_by_plan_id m '''' = Inr job"
proof -
  from assms have "scan_plan_id '''' (map snd (jobs m)) \<noteq> None"
    by (simp only: scan_plan_id_None) blast
  then obtain job where s: "scan_plan_id '''' (map snd (jobs m)) = Some job" by blast
  then obtain pre post where "map snd (jobs m) = pre @ job # post" "plan_id job = ''''"
      "\<forall>j \<in> set pre. plan_id j \<noteq> ''''"
    unfolding scan_plan_id_Some by blast
  with s show ?thesis by (auto simp add: get_job_by_plan_id_def)
qed

theorem empty_plan_id_finds_first_unplanned_job_witness:
  "plan_id demo_job = '''' \<and> demo_job \<in> set (map snd (jobs demo_manager2))
   \<and> get_job_by_plan_id demo_manager2 '''' = Inr demo_job"
proof -
  have a: "\<exists>j \<in> set (map snd (jobs demo_manager2)). plan_id j = ''''"
    by (simp add: demo_manager2_def demo_job_def)
  have b: "get_job_by_plan_id demo_manager2 '''' = Inr demo_job"
    by (simp add: get_job_by_plan_id_def demo_manager2_def demo_job_def demo_job2_def)
  show ?thesis
    using a b empty_plan_id_finds_first_unplanned_job [OF a]
    by (simp add: demo_manager2_def demo_job_def)
qed

section \<open>The event channel\<close>

lemma add_event_registered:
  assumes "map_of (jobs m) jid = Some job" and "map_of (queues m) jid = Some queue"
  shows "add_event m jid ty dat now =
          (Inr \<lparr>event_type = ty, data = dat, timestamp = now\<rparr>,
           m\<lparr>jobs := AList.update jid
                       (job\<lparr>events := events job @ [\<lparr>event_type = ty, data = dat, timestamp = now\<rparr>]\<rparr>) (jobs m),
             queue_store := (queue_store m)
                  (queue := queue_store m queue @ [\<lparr>event_type = ty, data = dat, timestamp = now\<rparr>])\<rparr>)"
  using assms by (simp add: add_event_def get_job_def queue_put_def Let_def)

lemma queue_get_store:
  "queue_get m queue =
     (case queue_store m queue of [] \<Rightarrow> (None, m)
      | ev # rest \<Rightarrow> (Some ev, m\<lparr>queue_store := (queue_store m)(queue := rest)\<rparr>))"
  by (simp add: queue_get_def)

lemma run_channel_invariant:
  assumes "map_of (jobs m) jid = Some job" and "map_of (queues m) jid = Some queue"
  shows "\<exists>seen' m' job'. run_channel m jid queue ops seen = Inr (seen', m')
           \<and> map_of (jobs m') jid = Some job' \<and> events job' = events job @ added ops
           \<and> map_of (queues m') jid = Some queue
           \<and> seen' @ queue_store m' queue = seen @ queue_store m queue @ added ops"
  using assms
proof (induction ops arbitrary: m job seen)
  case Nil
  then show ?case by simp
next
  case (Cons op ops)
  show ?case
  proof (cases op)
    case (AddEvent ty dat now)
    let ?ev = "\<lparr>event_type = ty, data = dat, timestamp = now\<rparr>"
    let ?job = "job\<lparr>events := events job @ [?ev]\<rparr>"
    let ?m = "m\<lparr>jobs := AList.update jid ?job (jobs m),
               queue_store := (queue_store m)(queue := queue_store m queue @ [?ev])\<rparr>"
    have step: "add_event m jid ty dat now = (Inr ?ev, ?m)"
      by (rule add_event_registered [OF Cons.prems])
    have j: "map_of (jobs ?m) jid = Some ?job" by (simp add: update_conv')
    have qq: "map_of (queues ?m) jid = Some queue" using Cons.prems(2) by simp
    have st: "queue_store ?m queue = queue_store m queue @ [?ev]" by simp
    from Cons.IH [OF j qq, of seen] obtain seen' m' job' where
      r: "run_channel ?m jid queue ops seen = Inr (seen', m')"
         "map_of (jobs m') jid = Some job'" "events job' = events ?job @ added ops"
         "map_of (queues m') jid = Some queue"
         "seen' @ queue_store m' queue = seen @ queue_store ?m queue @ added ops"
      by blast
    have "run_channel m jid queue (op # ops) seen = Inr (seen', m')"
      using AddEvent step r(1) by simp
    moreover have "events job' = events job @ added (op # ops)"
      using AddEvent r(3) by simp
    moreover have "seen' @ queue_store m' queue = seen @ queue_store m queue @ added (op # ops)"
      using AddEvent r(5) st by simp
    ultimately show ?thesis using r(2) r(4) by blast
  next
    case QueueGet
    show ?thesis
    proof (cases "queue_store m queue")
      case Nil
      have step: "queue_get m queue = (None, m)"
        using Nil by (simp add: queue_get_store)
      from Cons.IH [OF Cons.prems, of seen] obtain seen' m' job' where
        r: "run_channel m jid queue ops seen = Inr (seen', m')"
           "map_of (jobs m') jid = Some job'" "events job' = events job @ added ops"
           "map_of (queues m') jid = Some queue"
           "seen' @ queue_store m' queue = seen @ queue_store m queue @ added ops"
        by blast
      have "run_channel m jid queue (op # ops) seen = Inr (seen', m')"
        using QueueGet step r(1) by simp
      moreover have "events job' = events job @ added (op # ops)"
        using QueueGet r(3) by simp
      moreover have "seen' @ queue_store m' queue = seen @ queue_store m queue @ added (op # ops)"
        using QueueGet r(5) by simp
      ultimately show ?thesis using r(2) r(4) by blast
    next
      case (Cons ev rest)
      let ?m = "m\<lparr>queue_store := (queue_store m)(queue := rest)\<rparr>"
      have step: "queue_get m queue = (Some ev, ?m)"
        using Cons by (simp add: queue_get_store)
      have j: "map_of (jobs ?m) jid = Some job" using Cons.prems(1) by simp
      have qq: "map_of (queues ?m) jid = Some queue" using Cons.prems(2) by simp
      have st: "queue_store ?m queue = rest" by simp
      from Cons.IH [OF j qq, of "seen @ [ev]"] obtain seen' m' job' where
        r: "run_channel ?m jid queue ops (seen @ [ev]) = Inr (seen', m')"
           "map_of (jobs m') jid = Some job'" "events job' = events job @ added ops"
           "map_of (queues m') jid = Some queue"
           "seen' @ queue_store m' queue = (seen @ [ev]) @ queue_store ?m queue @ added ops"
        by blast
      have "run_channel m jid queue (op # ops) seen = Inr (seen', m')"
        using QueueGet step r(1) by simp
      moreover have "events job' = events job @ added (op # ops)"
        using QueueGet r(3) by simp
      moreover have "seen' @ queue_store m' queue = seen @ queue_store m queue @ added (op # ops)"
        using QueueGet r(5) Cons st by simp
      ultimately show ?thesis using r(2) r(4) by blast
    qed
  qed
qed

lemma run_channel_append:
  "run_channel m jid queue (xs @ ys) seen =
     (case run_channel m jid queue xs seen of
        Inl e \<Rightarrow> Inl e
      | Inr (s, m') \<Rightarrow> run_channel m' jid queue ys s)"
proof (induction xs arbitrary: m seen)
  case Nil
  then show ?case by simp
next
  case (Cons op xs)
  then show ?case
    by (cases op) (auto split: prod.splits sum.splits option.splits)
qed

lemma run_channel_drain:
  assumes "length (queue_store m queue) \<le> n"
  shows "\<exists>m'. run_channel m jid queue (replicate n QueueGet) seen = Inr (seen @ queue_store m queue, m')
           \<and> queue_store m' queue = [] \<and> jobs m' = jobs m \<and> queues m' = queues m"
  using assms
proof (induction n arbitrary: m seen)
  case 0
  then show ?case by simp
next
  case (Suc n)
  show ?case
  proof (cases "queue_store m queue")
    case Nil
    have step: "queue_get m queue = (None, m)"
      using Nil by (simp add: queue_get_store)
    from Suc.IH [of m seen] Nil obtain m' where
      "run_channel m jid queue (replicate n QueueGet) seen = Inr (seen @ queue_store m queue, m')"
      "queue_store m' queue = []" "jobs m' = jobs m" "queues m' = queues m" by auto
    with step show ?thesis by simp
  next
    case (Cons ev rest)
    let ?m = "m\<lparr>queue_store := (queue_store m)(queue := rest)\<rparr>"
    have step: "queue_get m queue = (Some ev, ?m)"
      using Cons by (simp add: queue_get_store)
    have st: "queue_store ?m queue = rest" by simp
    have "length (queue_store ?m queue) \<le> n" using Suc.prems Cons by simp
    from Suc.IH [OF this, of "seen @ [ev]"] obtain m' where
      "run_channel ?m jid queue (replicate n QueueGet) (seen @ [ev])
         = Inr ((seen @ [ev]) @ queue_store ?m queue, m')"
      "queue_store m' queue = []" "jobs m' = jobs ?m" "queues m' = queues ?m" by blast
    with step Cons st show ?thesis by simp
  qed
qed

text \<open>
  Claim C6. Take a registered job and a consumer that gets the job's queue from
  \<open>get_events\<close> (some events may wait in it already), and any schedule of \<open>add_event\<close>
  calls interleaved with the consumer's \<open>queue.get()\<close> calls on that queue. No call
  raises, and \<open>get_events\<close> still hands out the same queue afterwards. What the consumer
  has observed, followed by what still waits in the queue, is what waited at the start
  followed by the events of the \<open>add_event\<close> calls in call order, each with the category,
  payload and timestamp it was added with (first in first out, nothing lost, nothing
  twice). Once the consumer has taken what waits, it has observed exactly that sequence
  and the queue is empty. And the job's event log is its old log with the same new events
  appended in the same order.
\<close>

theorem event_channel_fifo:
  assumes "get_job m jid = Inr job" and "get_events m jid = Inr queue"
  shows "\<exists>seen m' job'. event_consumer m jid ops = Inr (seen, m')
           \<and> get_job m' jid = Inr job' \<and> events job' = events job @ added ops
           \<and> get_events m' jid = Inr queue
           \<and> seen @ queue_store m' queue = queue_store m queue @ added ops
           \<and> (\<exists>m''. event_consumer m jid (ops @ replicate (length (queue_store m' queue)) QueueGet)
                        = Inr (queue_store m queue @ added ops, m'')
                    \<and> queue_store m'' queue = []
                    \<and> get_job m'' jid = Inr job'
                    \<and> get_events m'' jid = Inr queue)"
proof -
  from assms have j: "map_of (jobs m) jid = Some job" and qq: "map_of (queues m) jid = Some queue"
    by (auto simp add: get_job_def get_events_def split: option.splits)
  from run_channel_invariant [OF j qq, of ops "[]"] obtain seen m' job' where
    r: "run_channel m jid queue ops [] = Inr (seen, m')"
       "map_of (jobs m') jid = Some job'" "events job' = events job @ added ops"
       "map_of (queues m') jid = Some queue"
       "seen @ queue_store m' queue = queue_store m queue @ added ops"
    by auto
  from run_channel_drain [of m' queue "length (queue_store m' queue)" jid seen] obtain m'' where
    d: "run_channel m' jid queue (replicate (length (queue_store m' queue)) QueueGet) seen
          = Inr (seen @ queue_store m' queue, m'')"
       "queue_store m'' queue = []" "jobs m'' = jobs m'" "queues m'' = queues m'"
    by auto
  have c1: "event_consumer m jid ops = Inr (seen, m')"
    using assms(2) r(1) by (simp add: event_consumer_def)
  have c2: "event_consumer m jid (ops @ replicate (length (queue_store m' queue)) QueueGet)
              = Inr (queue_store m queue @ added ops, m'')"
    using assms(2) r(1) r(5) d(1) by (simp add: event_consumer_def run_channel_append)
  have g1: "get_job m' jid = Inr job'" using r(2) by (simp add: get_job_def)
  have e1: "get_events m' jid = Inr queue" using r(4) by (simp add: get_events_def)
  have g2: "get_job m'' jid = Inr job'" using r(2) d(3) by (simp add: get_job_def)
  have e2: "get_events m'' jid = Inr queue" using r(4) d(4) by (simp add: get_events_def)
  from c1 g1 r(3) e1 r(5) c2 d(2) g2 e2 show ?thesis by blast
qed

theorem event_channel_fifo_witness:
  "get_job demo_manager ''0123456789ab'' = Inr demo_job
   \<and> get_events demo_manager ''0123456789ab'' = Inr 0
   \<and> (\<exists>m' job'. event_consumer demo_manager ''0123456789ab'' demo_ops
          = Inr ([\<lparr>event_type = STEP, data = ''start'', timestamp = 3\<rparr>,
                  \<lparr>event_type = LOG, data = ''hello'', timestamp = 4\<rparr>], m')
        \<and> queue_store m' 0 = [\<lparr>event_type = DONE, data = ''bye'', timestamp = 5\<rparr>]
        \<and> get_events m' ''0123456789ab'' = Inr 0
        \<and> get_job m' ''0123456789ab'' = Inr job'
        \<and> events job' = [\<lparr>event_type = STEP, data = ''start'', timestamp = 3\<rparr>,
                          \<lparr>event_type = LOG, data = ''hello'', timestamp = 4\<rparr>,
                          \<lparr>event_type = DONE, data = ''bye'', timestamp = 5\<rparr>])
   \<and> (\<exists>m''. event_consumer demo_manager ''0123456789ab'' (demo_ops @ [QueueGet])
          = Inr ([\<lparr>event_type = STEP, data = ''start'', timestamp = 3\<rparr>,
                  \<lparr>event_type = LOG, data = ''hello'', timestamp = 4\<rparr>,
                  \<lparr>event_type = DONE, data = ''bye'', timestamp = 5\<rparr>], m'')
        \<and> queue_store m'' 0 = [])"
proof -
  let ?e1 = "\<lparr>event_type = STEP, data = ''start'', timestamp = 3\<rparr>"
  let ?e2 = "\<lparr>event_type = LOG, data = ''hello'', timestamp = 4\<rparr>"
  let ?e3 = "\<lparr>event_type = DONE, data = ''bye'', timestamp = 5\<rparr>"
  have a: "get_job demo_manager ''0123456789ab'' = Inr demo_job"
    by (simp add: get_job_def demo_manager_def)
  have b: "get_events demo_manager ''0123456789ab'' = Inr 0"
    by (simp add: get_events_def demo_manager_def)
  have c: "added demo_ops = [?e1, ?e2, ?e3]"
    by (simp add: demo_ops_def)
  have q0: "queue_store demo_manager 0 = []" "events demo_job = []"
    by (simp_all add: demo_manager_def demo_job_def)
  have run: "map_sum id fst (event_consumer demo_manager ''0123456789ab'' demo_ops) = Inr [?e1, ?e2]"
    by (simp add: event_consumer_def get_events_def demo_manager_def demo_ops_def add_event_def
        get_job_def queue_put_def queue_get_def Let_def)
  from event_channel_fifo [OF a b, of demo_ops] obtain seen m' job' m'' where
    r: "event_consumer demo_manager ''0123456789ab'' demo_ops = Inr (seen, m')"
       "get_job m' ''0123456789ab'' = Inr job'" "events job' = events demo_job @ added demo_ops"
       "get_events m' ''0123456789ab'' = Inr 0"
       "seen @ queue_store m' 0 = queue_store demo_manager 0 @ added demo_ops"
       "event_consumer demo_manager ''0123456789ab''
            (demo_ops @ replicate (length (queue_store m' 0)) QueueGet)
          = Inr (queue_store demo_manager 0 @ added demo_ops, m'')"
       "queue_store m'' 0 = []"
    by blast
  have s: "seen = [?e1, ?e2]" using run r(1) by simp
  have w: "queue_store m' 0 = [?e3]" using r(5) s c q0(1) by simp
  have ev: "events job' = [?e1, ?e2, ?e3]" using r(3) c q0(2) by simp
  have full: "event_consumer demo_manager ''0123456789ab'' (demo_ops @ [QueueGet])
          = Inr ([?e1, ?e2, ?e3], m'')"
    using r(6) w c q0(1) by simp
  have one: "\<exists>m' job'. event_consumer demo_manager ''0123456789ab'' demo_ops = Inr ([?e1, ?e2], m')
        \<and> queue_store m' 0 = [?e3]
        \<and> get_events m' ''0123456789ab'' = Inr 0
        \<and> get_job m' ''0123456789ab'' = Inr job'
        \<and> events job' = [?e1, ?e2, ?e3]"
    using r(1,2,4) s w ev by blast
  have two: "\<exists>m''. event_consumer demo_manager ''0123456789ab'' (demo_ops @ [QueueGet])
          = Inr ([?e1, ?e2, ?e3], m'')
        \<and> queue_store m'' 0 = []"
    using full r(7) by blast
  from a b one two show ?thesis by blast
qed

section \<open>Creating jobs\<close>

lemma self_in_ancestors: "p \<in> set (ancestors p)"
  by (induction p) auto

lemma update_fresh: "k \<notin> fst ` set al \<Longrightarrow> AList.update k v al = al @ [(k, v)]"
  by (induction al) auto

lemma map_of_fresh: "k \<notin> fst ` set al \<Longrightarrow> map_of al k' = Some v \<Longrightarrow> k' \<noteq> k"
  by (auto simp add: map_of_eq_None_iff [symmetric])

lemma create_job_ok:
  assumes "\<not> list_ex (\<lambda>q. files d q \<noteq> None) (ancestors (artifacts_root m @ [take 12 hex]))"
  shows "create_job m d ppath hex now =
          (Inr \<lparr>job_id = take 12 hex, project_path = ppath, state = DRAFT, session_id = '''',
                plan_id = '''', plan_markdown = '''', artifacts_dir = artifacts_root m @ [take 12 hex],
                events = [], created_at = now, updated_at = now\<rparr>,
           m\<lparr>jobs := AList.update (take 12 hex)
                  \<lparr>job_id = take 12 hex, project_path = ppath, state = DRAFT, session_id = '''',
                    plan_id = '''', plan_markdown = '''', artifacts_dir = artifacts_root m @ [take 12 hex],
                    events = [], created_at = now, updated_at = now\<rparr> (jobs m),
             queue_store := (queue_store m)(next_ref m := []),
             next_ref := Suc (next_ref m),
             queues := AList.update (take 12 hex) (next_ref m) (queues m)\<rparr>,
           d\<lparr>dirs := dirs d \<union> set (ancestors (artifacts_root m @ [take 12 hex]))\<rparr>)"
  using assms by (simp add: create_job_def mkdir_def Queue_init_def Let_def)

text \<open>
  Claim C8, as amended. Unless a regular file stands where the artifacts directory or
  one of its ancestors should be, \<open>create_job\<close> returns a job in state \<open>DRAFT\<close> with an
  empty event log, whose id is the first 12 hex digits of the uuid4 drawn by the call,
  whose artifacts directory is the artifacts root joined with that id and exists on disk
  after the call (created with its missing ancestors, or already there), which is
  registered under its id and has an empty event queue: \<open>get_events\<close> hands out the queue
  object that the call has created, nothing waits in it, and every other queue object is
  as it was. When that id is not yet a key of the registry, the job is appended to the
  registry, its id differs from the key of every job registered before, and each of
  those stays registered unchanged.
\<close>

theorem create_job_result:
  assumes "\<not> list_ex (\<lambda>q. files d q \<noteq> None) (ancestors (artifacts_root m @ [take 12 hex]))"
  shows "\<exists>job m' d'. create_job m d ppath hex now = (Inr job, m', d')
          \<and> state job = DRAFT \<and> project_path job = ppath \<and> events job = []
          \<and> job_id job = take 12 hex
          \<and> artifacts_dir job = artifacts_root m @ [job_id job]
          \<and> artifacts_dir job \<in> dirs d' \<and> dirs d \<subseteq> dirs d' \<and> files d' = files d
          \<and> get_job m' (job_id job) = Inr job
          \<and> get_events m' (job_id job) = Inr (next_ref m)
          \<and> queue_store m' (next_ref m) = []
          \<and> (\<forall>queue. queue \<noteq> next_ref m \<longrightarrow> queue_store m' queue = queue_store m queue)
          \<and> (job_id job \<notin> fst ` set (jobs m) \<longrightarrow>
                jobs m' = jobs m @ [(job_id job, job)]
              \<and> (\<forall>k j. map_of (jobs m) k = Some j \<longrightarrow> k \<noteq> job_id job \<and> get_job m' k = Inr j))"
proof -
  let ?jid = "take 12 hex"
  let ?adir = "artifacts_root m @ [?jid]"
  let ?job = "\<lparr>job_id = ?jid, project_path = ppath, state = DRAFT, session_id = '''',
               plan_id = '''', plan_markdown = '''', artifacts_dir = ?adir, events = [],
               created_at = now, updated_at = now\<rparr>"
  let ?m = "m\<lparr>jobs := AList.update ?jid ?job (jobs m),
               queue_store := (queue_store m)(next_ref m := []),
               next_ref := Suc (next_ref m),
               queues := AList.update ?jid (next_ref m) (queues m)\<rparr>"
  let ?d = "d\<lparr>dirs := dirs d \<union> set (ancestors ?adir)\<rparr>"
  have mk: "mkdir d ?adir = Inr ?d"
    using assms by (simp add: mkdir_def)
  have c: "create_job m d ppath hex now = (Inr ?job, ?m, ?d)"
    by (simp add: create_job_def Queue_init_def Let_def mk)
  have g: "get_job ?m ?jid = Inr ?job"
    by (simp add: get_job_def update_conv')
  have e: "get_events ?m ?jid = Inr (next_ref m)"
    by (simp add: get_events_def update_conv')
  have st: "queue_store ?m (next_ref m) = []"
      "\<forall>queue. queue \<noteq> next_ref m \<longrightarrow> queue_store ?m queue = queue_store m queue"
    by simp_all
  have dd: "?adir \<in> dirs ?d"
    using self_in_ancestors [of ?adir] by simp
  have fresh: "?jid \<notin> fst ` set (jobs m) \<longrightarrow>
                jobs ?m = jobs m @ [(?jid, ?job)]
              \<and> (\<forall>k j. map_of (jobs m) k = Some j \<longrightarrow> k \<noteq> ?jid \<and> get_job ?m k = Inr j)"
  proof
    assume f: "?jid \<notin> fst ` set (jobs m)"
    have 1: "jobs ?m = jobs m @ [(?jid, ?job)]"
      using update_fresh [OF f] by simp
    have 2: "\<forall>k j. map_of (jobs m) k = Some j \<longrightarrow> k \<noteq> ?jid \<and> get_job ?m k = Inr j"
    proof (intro allI impI)
      fix k j assume s: "map_of (jobs m) k = Some j"
      have ne: "k \<noteq> ?jid" by (rule map_of_fresh [OF f s])
      then show "k \<noteq> ?jid \<and> get_job ?m k = Inr j"
        using s by (simp add: get_job_def update_conv')
    qed
    from 1 2 show "jobs ?m = jobs m @ [(?jid, ?job)]
              \<and> (\<forall>k j. map_of (jobs m) k = Some j \<longrightarrow> k \<noteq> ?jid \<and> get_job ?m k = Inr j)"
      by blast
  qed
  have s1: "state ?job = DRAFT" "project_path ?job = ppath" "events ?job = []"
      "job_id ?job = take 12 hex" "artifacts_dir ?job = artifacts_root m @ [job_id ?job]"
    by simp_all
  have s2: "artifacts_dir ?job \<in> dirs ?d" using dd by simp
  have s3: "dirs d \<subseteq> dirs ?d" "files ?d = files d" by auto
  have s4: "get_job ?m (job_id ?job) = Inr ?job" using g by simp
  have s5: "get_events ?m (job_id ?job) = Inr (next_ref m)" using e by simp
  have s6: "job_id ?job \<notin> fst ` set (jobs m) \<longrightarrow>
                jobs ?m = jobs m @ [(job_id ?job, ?job)]
              \<and> (\<forall>k j. map_of (jobs m) k = Some j \<longrightarrow> k \<noteq> job_id ?job \<and> get_job ?m k = Inr j)"
    using fresh by (simp only: s1(4))
  from c s1 s2 s3 s4 s5 st s6 show ?thesis by blast
qed

theorem create_job_result_witness:
  "\<not> list_ex (\<lambda>q. files demo_disk q \<noteq> None)
        (ancestors (artifacts_root (JobManager_init [''jobs'']) @ [take 12 demo_hex]))
   \<and> (\<exists>job m' d'. create_job (JobManager_init [''jobs'']) demo_disk ''/p'' demo_hex 1 = (Inr job, m', d')
          \<and> state job = DRAFT \<and> job_id job = take 12 demo_hex
          \<and> artifacts_dir job \<in> dirs d'
          \<and> get_job m' (job_id job) = Inr job
          \<and> get_events m' (job_id job) = Inr 0
          \<and> queue_store m' 0 = [])
   \<and> create_job (JobManager_init [''jobs'']) demo_disk ''/p'' demo_hex 1
        = (Inr demo_job, demo_manager, demo_disk1)"
proof -
  have a: "\<not> list_ex (\<lambda>q. files demo_disk q \<noteq> None)
        (ancestors (artifacts_root (JobManager_init [''jobs'']) @ [take 12 demo_hex]))"
    by (simp add: demo_disk_def JobManager_init_def demo_hex_def)
  have b: "create_job (JobManager_init [''jobs'']) demo_disk ''/p'' demo_hex 1
        = (Inr demo_job, demo_manager, demo_disk1)"
    by (auto simp add: create_job_def Queue_init_def JobManager_init_def demo_disk_def demo_hex_def mkdir_def
        demo_job_def demo_manager_def demo_disk1_def Let_def)
  have n: "next_ref (JobManager_init [''jobs'']) = 0" by (simp add: JobManager_init_def)
  show ?thesis
    using a b create_job_result [OF a, of "''/p''" 1] unfolding n by blast
qed

text \<open>
  Claim C8 as stated fails when two uuid4 draws agree on their first 12 hex digits: the
  second \<open>create_job\<close> returns a job with the id of the first, creates no directory (the
  disk is unchanged), and replaces the first job in the registry.
\<close>

theorem create_job_repeated_prefix:
  "create_job (JobManager_init [''jobs'']) demo_disk ''/p'' demo_hex 1
     = (Inr demo_job, demo_manager, demo_disk1)
   \<and> create_job demo_manager demo_disk1 ''/q'' demo_hex_b 2
     = (Inr demo_job_b, demo_manager_b, demo_disk1)
   \<and> demo_hex_b \<noteq> demo_hex
   \<and> job_id demo_job_b = job_id demo_job
   \<and> artifacts_dir demo_job_b \<in> dirs demo_disk1
   \<and> get_job demo_manager_b (job_id demo_job) = Inr demo_job_b
   \<and> demo_job_b \<noteq> demo_job"
proof -
  have a: "create_job (JobManager_init [''jobs'']) demo_disk ''/p'' demo_hex 1
        = (Inr demo_job, demo_manager, demo_disk1)"
    by (auto simp add: create_job_def Queue_init_def JobManager_init_def demo_disk_def demo_hex_def mkdir_def
        demo_job_def demo_manager_def demo_disk1_def Let_def)
  have b: "create_job demo_manager demo_disk1 ''/q'' demo_hex_b 2
     = (Inr demo_job_b, demo_manager_b, demo_disk1)"
    by (auto simp add: create_job_def Queue_init_def demo_hex_b_def mkdir_def
        demo_job_b_def demo_manager_def demo_manager_b_def demo_disk1_def Let_def)
  have c: "demo_hex_b \<noteq> demo_hex" by (simp add: demo_hex_b_def demo_hex_def)
  have d: "job_id demo_job_b = job_id demo_job" by (simp add: demo_job_b_def demo_job_def)
  have e: "artifacts_dir demo_job_b \<in> dirs demo_disk1" by (simp add: demo_job_b_def demo_disk1_def)
  have f: "get_job demo_manager_b (job_id demo_job) = Inr demo_job_b"
    by (simp add: get_job_def demo_manager_b_def demo_job_def)
  have g: "demo_job_b \<noteq> demo_job" by (simp add: demo_job_b_def demo_job_def)
  from a b c d e f g show ?thesis by blast
qed

section \<open>The process bridge\<close>

lemmas demo_lines = line_plain_def line_delta_def line_delta_empty_def line_result_def
  line_result_empty_def line_tool_use_def line_tool_result_def line_other_def line_number_def
  raw_object_def

text \<open>
  Claim C7, as amended. A buffered invocation whose captured output is not empty and is
  not valid JSON does not fail: its result has the raw output as text, no session token,
  duration 0 and the error flag not set. An empty captured output gives the fixed text
  "(No response from agent)" with the error flag set. When the output decodes to a JSON
  object, the text, session token, duration and error flag of the result are the
  object's \<open>result\<close>, \<open>session_id\<close>, \<open>duration_ms\<close> and \<open>is_error\<close> fields, where these are a
  string, a string, an integer and a boolean; a field that is absent counts as the raw
  output, the empty string, 0 and false.
\<close>

theorem invoke_cursor_result:
  "(raw \<noteq> [] \<and> json_loads lib raw = None \<longrightarrow>
      invoke_cursor lib (Inr cmd) (Inr (raw, rc))
        = Inr \<lparr>result_text = raw, result_session_id = '''', duration_ms = 0, is_error = False\<rparr>)
   \<and> invoke_cursor lib (Inr cmd) (Inr ([], rc))
        = Inr \<lparr>result_text = ''(No response from agent)'', result_session_id = '''',
               duration_ms = 0, is_error = True\<rparr>
   \<and> (raw \<noteq> [] \<and> json_loads lib raw = Some (JObj dat)
        \<and> dict_get dat ''result'' (JStr raw) = JStr t
        \<and> dict_get dat ''session_id'' (JStr '''') = JStr s
        \<and> dict_get dat ''duration_ms'' (JInt 0) = JInt d
        \<and> dict_get dat ''is_error'' (JBool False) = JBool e \<longrightarrow>
      invoke_cursor lib (Inr cmd) (Inr (raw, rc))
        = Inr \<lparr>result_text = t, result_session_id = s, duration_ms = d, is_error = e\<rparr>)"
proof (intro conjI impI)
  assume "raw \<noteq> [] \<and> json_loads lib raw = None"
  then show "invoke_cursor lib (Inr cmd) (Inr (raw, rc))
        = Inr \<lparr>result_text = raw, result_session_id = '''', duration_ms = 0, is_error = False\<rparr>"
    by (simp add: invoke_cursor_def)
next
  show "invoke_cursor lib (Inr cmd) (Inr ([], rc))
        = Inr \<lparr>result_text = ''(No response from agent)'', result_session_id = '''',
               duration_ms = 0, is_error = True\<rparr>"
    by (simp add: invoke_cursor_def)
next
  assume a: "raw \<noteq> [] \<and> json_loads lib raw = Some (JObj dat)
        \<and> dict_get dat ''result'' (JStr raw) = JStr t
        \<and> dict_get dat ''session_id'' (JStr '''') = JStr s
        \<and> dict_get dat ''duration_ms'' (JInt 0) = JInt d
        \<and> dict_get dat ''is_error'' (JBool False) = JBool e"
  then have "invoke_cursor lib (Inr cmd) (Inr (raw, rc))
        = AgentResult_init lib (JStr t) (JStr s) (JInt d) (JBool e)"
    by (simp add: invoke_cursor_def)
  then show "invoke_cursor lib (Inr cmd) (Inr (raw, rc))
        = Inr \<lparr>result_text = t, result_session_id = s, duration_ms = d, is_error = e\<rparr>"
    by (simp add: AgentResult_init_def)
qed

theorem invoke_cursor_result_witness:
  "line_plain \<noteq> [] \<and> json_loads demo_library line_plain = None
   \<and> invoke_cursor demo_library (Inr [''agent'']) (Inr (line_plain, 1))
        = Inr \<lparr>result_text = line_plain, result_session_id = '''', duration_ms = 0, is_error = False\<rparr>
   \<and> raw_object \<noteq> []
   \<and> json_loads demo_library raw_object
        = Some (JObj [(''result'', JStr ''hi''), (''session_id'', JStr ''s-1''),
                      (''duration_ms'', JInt 12), (''is_error'', JBool False)])
   \<and> invoke_cursor demo_library (Inr [''agent'']) (Inr (raw_object, 0))
        = Inr \<lparr>result_text = ''hi'', result_session_id = ''s-1'', duration_ms = 12, is_error = False\<rparr>"
proof -
  have a: "line_plain \<noteq> [] \<and> json_loads demo_library line_plain = None"
    by (simp add: demo_library_def demo_loads_def demo_lines)
  have b: "raw_object \<noteq> []" by (simp add: raw_object_def)
  have c: "json_loads demo_library raw_object
        = Some (JObj [(''result'', JStr ''hi''), (''session_id'', JStr ''s-1''),
                      (''duration_ms'', JInt 12), (''is_error'', JBool False)])"
    by (simp add: demo_library_def demo_loads_def demo_lines)
  have d: "dict_get [(''result'', JStr ''hi''), (''session_id'', JStr ''s-1''),
                      (''duration_ms'', JInt 12), (''is_error'', JBool False)] ''result'' (JStr raw_object) = JStr ''hi''
     \<and> dict_get [(''result'', JStr ''hi''), (''session_id'', JStr ''s-1''),
                      (''duration_ms'', JInt 12), (''is_error'', JBool False)] ''session_id'' (JStr '''') = JStr ''s-1''
     \<and> dict_get [(''result'', JStr ''hi''), (''session_id'', JStr ''s-1''),
                      (''duration_ms'', JInt 12), (''is_error'', JBool False)] ''duration_ms'' (JInt 0) = JInt 12
     \<and> dict_get [(''result'', JStr ''hi''), (''session_id'', JStr ''s-1''),
                      (''duration_ms'', JInt 12), (''is_error'', JBool False)] ''is_error'' (JBool False) = JBool False"
    by (simp add: dict_get_def)
  show ?thesis
    using a b c d
      invoke_cursor_result [of line_plain demo_library "[''agent'']" 1]
      invoke_cursor_result [of raw_object demo_library "[''agent'']" 0
        "[(''result'', JStr ''hi''), (''session_id'', JStr ''s-1''),
          (''duration_ms'', JInt 12), (''is_error'', JBool False)]" "''hi''" "''s-1''" 12 False]
    by simp
qed

text \<open>
  Claim C7 as stated fails on an empty captured output, which gives a fixed text with
  the error flag set, and on an output that is valid JSON but no object (here the number
  42), on which the invocation raises.
\<close>

theorem invoke_cursor_empty_or_non_object_output:
  "json_loads demo_library '''' = None
   \<and> invoke_cursor demo_library (Inr [''agent'']) (Inr ('''', 0))
        = Inr \<lparr>result_text = ''(No response from agent)'', result_session_id = '''',
               duration_ms = 0, is_error = True\<rparr>
   \<and> json_loads demo_library line_number = Some (JInt 42)
   \<and> invoke_cursor demo_library (Inr [''agent'']) (Inr (line_number, 0))
        = Inl (AttributeError ''int'' ''get'')"
  by (simp add: invoke_cursor_def demo_library_def demo_loads_def demo_lines)

lemma put_lines_eq:
  "put_lines ls = map Some (filter (\<lambda>s. s \<noteq> []) (map rstrip_newlines ls))"
  by (induction ls) (simp_all add: Let_def)

lemma stream_loop_taken:
  assumes "taken polls = map Some ls @ None # later"
    and "\<forall>l \<in> set ls. \<exists>y. handle_line lib l = Inr y"
  shows "stream_loop lib polls = (yields lib ls, Some (Inr ()))"
  using assms
proof (induction polls arbitrary: ls)
  case Nil
  then show ?case by simp
next
  case (Cons p polls)
  show ?case
  proof (cases p)
    case Empty
    with Cons show ?thesis by simp
  next
    case (Got x)
    show ?thesis
    proof (cases x)
      case None
      with Got Cons.prems(1) have "ls = []" by (cases ls) auto
      with None Got show ?thesis by simp
    next
      case (Some l)
      with Got Cons.prems(1) obtain ls' where ls: "ls = l # ls'" and t: "taken polls = map Some ls' @ None # later"
        by (cases ls) auto
      from Cons.prems(2) ls obtain y where y: "handle_line lib l = Inr y" by auto
      from Cons.prems(2) ls have "\<forall>l \<in> set ls'. \<exists>y. handle_line lib l = Inr y" by simp
      from Cons.IH [OF t this] have "stream_loop lib polls = (yields lib ls', Some (Inr ()))" .
      with Some Got ls y show ?thesis by (cases y) simp_all
    qed
  qed
qed

text \<open>
  Claim C5, as amended. The loop body of the streaming invocation treats a line as
  follows: a line that is not valid JSON is yielded as it is; a \<open>text_delta\<close> object
  yields its \<open>content\<close> when that is non-empty and nothing otherwise; a \<open>result\<close> object
  yields the marker \<open>__result__::\<close> followed by the dump of the whole object when its
  \<open>result\<close> is non-empty and nothing otherwise; a \<open>tool_use\<close> object yields
  \<open>[Tool: name]\<close> and a \<open>tool_result\<close> object \<open>[Tool completed]\<close>; any other JSON
  object yields its \<open>content\<close>, else its \<open>result\<close>, else the \<open>str\<close> of the object. When
  the polls of the generator take from the queue what the worker has put there, and
  every line put is invalid JSON or a JSON object, the generator yields what the body
  yields on the lines in order, nothing for whatever is polled after the sentinel, and
  ends normally having received the exit code of the process from the worker.
\<close>

theorem streaming_classification:
  "(json_loads lib line = None \<longrightarrow> handle_line lib line = Inr (Some (JStr line)))
   \<and> (json_loads lib line = Some (JObj chunk) \<and> dict_get chunk ''type'' (JStr '''') = JStr ''text_delta'' \<longrightarrow>
        handle_line lib line =
          Inr (if truthy (dict_get chunk ''content'' (JStr '''')) then Some (dict_get chunk ''content'' (JStr ''''))
               else None))
   \<and> (json_loads lib line = Some (JObj chunk) \<and> dict_get chunk ''type'' (JStr '''') = JStr ''result'' \<longrightarrow>
        handle_line lib line =
          Inr (if truthy (dict_get chunk ''result'' (JStr ''''))
               then Some (JStr (''__result__::'' @ json_dumps lib (JObj chunk)))
               else None))
   \<and> (json_loads lib line = Some (JObj chunk) \<and> dict_get chunk ''type'' (JStr '''') = JStr ''tool_use'' \<longrightarrow>
        handle_line lib line =
          Inr (Some (JStr (''[Tool: '' @ format_value lib (dict_get chunk ''name'' (JStr ''unknown'')) @ '']''))))
   \<and> (json_loads lib line = Some (JObj chunk) \<and> dict_get chunk ''type'' (JStr '''') = JStr ''tool_result'' \<longrightarrow>
        handle_line lib line = Inr (Some (JStr ''[Tool completed]'')))
   \<and> (json_loads lib line = Some (JObj chunk)
        \<and> dict_get chunk ''type'' (JStr '''') \<notin> {JStr ''text_delta'', JStr ''result'', JStr ''tool_use'', JStr ''tool_result''} \<longrightarrow>
        handle_line lib line =
          Inr (if truthy (dict_get chunk ''content'' (JStr '''')) then Some (dict_get chunk ''content'' (JStr ''''))
               else if truthy (dict_get chunk ''result'' (JStr '''')) then Some (dict_get chunk ''result'' (JStr ''''))
               else if py_str lib (JObj chunk) \<noteq> [] then Some (JStr (py_str lib (JObj chunk)))
               else None))
   \<and> (taken polls = fst (stream_blocking (Inr p)) @ later
        \<and> (\<forall>l \<in> set (filter (\<lambda>s. s \<noteq> []) (map rstrip_newlines (out_lines p))). \<exists>y. handle_line lib l = Inr y) \<longrightarrow>
        invoke_cursor_streaming lib (Inr cmd) polls (snd (stream_blocking (Inr p)))
          = (yields lib (filter (\<lambda>s. s \<noteq> []) (map rstrip_newlines (out_lines p))), Some (Inr (exit_code p))))"
proof (intro conjI impI)
  assume "json_loads lib line = None"
  then show "handle_line lib line = Inr (Some (JStr line))" by (simp add: handle_line_def)
next
  assume "json_loads lib line = Some (JObj chunk) \<and> dict_get chunk ''type'' (JStr '''') = JStr ''text_delta''"
  then show "handle_line lib line =
          Inr (if truthy (dict_get chunk ''content'' (JStr '''')) then Some (dict_get chunk ''content'' (JStr ''''))
               else None)" by (simp add: handle_line_def)
next
  assume "json_loads lib line = Some (JObj chunk) \<and> dict_get chunk ''type'' (JStr '''') = JStr ''result''"
  then show "handle_line lib line =
          Inr (if truthy (dict_get chunk ''result'' (JStr ''''))
               then Some (JStr (''__result__::'' @ json_dumps lib (JObj chunk)))
               else None)" by (simp add: handle_line_def)
next
  assume "json_loads lib line = Some (JObj chunk) \<and> dict_get chunk ''type'' (JStr '''') = JStr ''tool_use''"
  then show "handle_line lib line =
          Inr (Some (JStr (''[Tool: '' @ format_value lib (dict_get chunk ''name'' (JStr ''unknown'')) @ '']'')))"
    by (simp add: handle_line_def)
next
  assume "json_loads lib line = Some (JObj chunk) \<and> dict_get chunk ''type'' (JStr '''') = JStr ''tool_result''"
  then show "handle_line lib line = Inr (Some (JStr ''[Tool completed]''))"
    by (simp add: handle_line_def)
next
  assume "json_loads lib line = Some (JObj chunk)
        \<and> dict_get chunk ''type'' (JStr '''') \<notin> {JStr ''text_delta'', JStr ''result'', JStr ''tool_use'', JStr ''tool_result''}"
  then show "handle_line lib line =
          Inr (if truthy (dict_get chunk ''content'' (JStr '''')) then Some (dict_get chunk ''content'' (JStr ''''))
               else if truthy (dict_get chunk ''result'' (JStr '''')) then Some (dict_get chunk ''result'' (JStr ''''))
               else if py_str lib (JObj chunk) \<noteq> [] then Some (JStr (py_str lib (JObj chunk)))
               else None)"
    by (simp add: handle_line_def py_or_def)
next
  let ?ls = "filter (\<lambda>s. s \<noteq> []) (map rstrip_newlines (out_lines p))"
  assume a: "taken polls = fst (stream_blocking (Inr p)) @ later
        \<and> (\<forall>l \<in> set ?ls. \<exists>y. handle_line lib l = Inr y)"
  then have "taken polls = map Some ?ls @ None # later"
    by (simp add: stream_blocking_def put_lines_eq)
  from stream_loop_taken [OF this] a have "stream_loop lib polls = (yields lib ?ls, Some (Inr ()))"
    by blast
  then show "invoke_cursor_streaming lib (Inr cmd) polls (snd (stream_blocking (Inr p)))
          = (yields lib ?ls, Some (Inr (exit_code p)))"
    by (simp add: invoke_cursor_streaming_def stream_blocking_def)
qed

lemma demo_queued:
  "filter (\<lambda>s. s \<noteq> []) (map rstrip_newlines (out_lines demo_process))
     = [line_delta, line_plain, line_tool_use, line_tool_result, line_other, line_result]"
  by (simp add: demo_process_def rstrip_newlines_def demo_lines)

lemma demo_handle_line:
  "handle_line demo_library line_plain = Inr (Some (JStr line_plain))"
  "handle_line demo_library line_delta = Inr (Some (JStr ''partial one''))"
  "handle_line demo_library line_result = Inr (Some (JStr (''__result__::'' @ line_result)))"
  "handle_line demo_library line_tool_use = Inr (Some (JStr ''[Tool: edit]''))"
  "handle_line demo_library line_tool_result = Inr (Some (JStr ''[Tool completed]''))"
  "handle_line demo_library line_other = Inr (Some (JStr ''thinking''))"
  by (simp_all add: handle_line_def demo_library_def demo_loads_def demo_dumps_def demo_lines
      dict_get_def py_or_def format_value_def)

lemma demo_decoded:
  "json_loads demo_library line_plain = None"
  "json_loads demo_library line_delta = Some (JObj [(''type'', JStr ''text_delta''), (''content'', JStr ''partial one'')])"
  "json_loads demo_library line_result = Some (JObj [(''type'', JStr ''result''), (''result'', JStr ''all done'')])"
  "json_loads demo_library line_tool_use = Some (JObj [(''type'', JStr ''tool_use''), (''name'', JStr ''edit'')])"
  "json_loads demo_library line_tool_result = Some (JObj [(''type'', JStr ''tool_result'')])"
  "json_loads demo_library line_other = Some (JObj [(''type'', JStr ''status''), (''content'', JStr ''thinking'')])"
  by (simp_all add: demo_library_def demo_loads_def demo_lines)

theorem streaming_classification_witness:
  "json_loads demo_library line_plain = None
   \<and> handle_line demo_library line_plain = Inr (Some (JStr line_plain))
   \<and> json_loads demo_library line_delta
        = Some (JObj [(''type'', JStr ''text_delta''), (''content'', JStr ''partial one'')])
   \<and> handle_line demo_library line_delta = Inr (Some (JStr ''partial one''))
   \<and> json_loads demo_library line_result
        = Some (JObj [(''type'', JStr ''result''), (''result'', JStr ''all done'')])
   \<and> handle_line demo_library line_result = Inr (Some (JStr (''__result__::'' @ line_result)))
   \<and> json_loads demo_library line_tool_use
        = Some (JObj [(''type'', JStr ''tool_use''), (''name'', JStr ''edit'')])
   \<and> handle_line demo_library line_tool_use = Inr (Some (JStr ''[Tool: edit]''))
   \<and> json_loads demo_library line_tool_result = Some (JObj [(''type'', JStr ''tool_result'')])
   \<and> handle_line demo_library line_tool_result = Inr (Some (JStr ''[Tool completed]''))
   \<and> json_loads demo_library line_other
        = Some (JObj [(''type'', JStr ''status''), (''content'', JStr ''thinking'')])
   \<and> handle_line demo_library line_other = Inr (Some (JStr ''thinking''))
   \<and> taken demo_polls = fst (stream_blocking (Inr demo_process)) @ [Some line_plain]
   \<and> invoke_cursor_streaming demo_library (Inr [''agent'']) demo_polls (snd (stream_blocking (Inr demo_process)))
       = ([JStr ''partial one'', JStr line_plain, JStr ''[Tool: edit]'', JStr ''[Tool completed]'',
           JStr ''thinking'', JStr (''__result__::'' @ line_result)], Some (Inr 0))"
proof -
  let ?delta = "[(''type'', JStr ''text_delta''), (''content'', JStr ''partial one'')]"
  let ?result = "[(''type'', JStr ''result''), (''result'', JStr ''all done'')]"
  let ?tool_use = "[(''type'', JStr ''tool_use''), (''name'', JStr ''edit'')]"
  let ?tool_result = "[(''type'', JStr ''tool_result'')]"
  let ?other = "[(''type'', JStr ''status''), (''content'', JStr ''thinking'')]"
  have ty: "dict_get ?delta ''type'' (JStr '''') = JStr ''text_delta''"
      "dict_get ?result ''type'' (JStr '''') = JStr ''result''"
      "dict_get ?tool_use ''type'' (JStr '''') = JStr ''tool_use''"
      "dict_get ?tool_result ''type'' (JStr '''') = JStr ''tool_result''"
      "dict_get ?other ''type'' (JStr '''')
         \<notin> {JStr ''text_delta'', JStr ''result'', JStr ''tool_use'', JStr ''tool_result''}"
    by (simp_all add: dict_get_def)
  have fld: "dict_get ?delta ''content'' (JStr '''') = JStr ''partial one''"
      "dict_get ?result ''result'' (JStr '''') = JStr ''all done''"
      "dict_get ?tool_use ''name'' (JStr ''unknown'') = JStr ''edit''"
      "dict_get ?other ''content'' (JStr '''') = JStr ''thinking''"
      "json_dumps demo_library (JObj ?result) = line_result"
      "format_value demo_library (JStr ''edit'') = ''edit''"
    by (simp_all add: dict_get_def demo_library_def demo_dumps_def format_value_def)
  have t: "taken demo_polls = fst (stream_blocking (Inr demo_process)) @ [Some line_plain]"
    by (simp add: stream_blocking_def put_lines_eq demo_queued demo_polls_def)
  have h: "\<forall>l \<in> set (filter (\<lambda>s. s \<noteq> []) (map rstrip_newlines (out_lines demo_process))).
             \<exists>y. handle_line demo_library l = Inr y"
    by (simp add: demo_queued demo_handle_line)
  have y: "yields demo_library (filter (\<lambda>s. s \<noteq> []) (map rstrip_newlines (out_lines demo_process)))
       = [JStr ''partial one'', JStr line_plain, JStr ''[Tool: edit]'', JStr ''[Tool completed]'',
           JStr ''thinking'', JStr (''__result__::'' @ line_result)]"
    by (simp add: demo_queued demo_handle_line)
  have e: "exit_code demo_process = 0" by (simp add: demo_process_def)
  show ?thesis
    using demo_decoded ty fld t h y e
      streaming_classification [of demo_library line_plain "[]" demo_polls demo_process
         "[Some line_plain]" "[''agent'']"]
      streaming_classification [of demo_library line_delta ?delta "[]" demo_process "[]" "[]"]
      streaming_classification [of demo_library line_result ?result "[]" demo_process "[]" "[]"]
      streaming_classification [of demo_library line_tool_use ?tool_use "[]" demo_process "[]" "[]"]
      streaming_classification [of demo_library line_tool_result ?tool_result "[]" demo_process "[]" "[]"]
      streaming_classification [of demo_library line_other ?other "[]" demo_process "[]" "[]"]
    by simp
qed

text \<open>
  Claim C5 as stated fails on a \<open>text_delta\<close> object with an empty \<open>content\<close> and on a
  \<open>result\<close> object with an empty \<open>result\<close>, for which nothing is yielded, and on a line
  that is valid JSON but no object (here the number 42), on which the body raises.
\<close>

theorem streaming_silent_or_raising_lines:
  "json_loads demo_library line_delta_empty = Some (JObj [(''type'', JStr ''text_delta''), (''content'', JStr '''')])
   \<and> handle_line demo_library line_delta_empty = Inr None
   \<and> json_loads demo_library line_result_empty = Some (JObj [(''type'', JStr ''result''), (''result'', JStr '''')])
   \<and> handle_line demo_library line_result_empty = Inr None
   \<and> json_loads demo_library line_number = Some (JInt 42)
   \<and> handle_line demo_library line_number = Inl (AttributeError ''int'' ''get'')"
  by (simp add: handle_line_def demo_library_def demo_loads_def demo_lines dict_get_def)

section \<open>Failures of the buffered invocation in the ask and plan handlers\<close>

lemma registered_iff:
  "registered w jid job q \<longleftrightarrow>
     map_of (jobs (mgr w)) jid = Some job
     \<and> (\<exists>queue. map_of (queues (mgr w)) jid = Some queue \<and> queue_store (mgr w) queue = q)"
  by (auto simp add: registered_def get_job_def get_events_def split: option.splits)

lemma w_create_job_registered:
  assumes "\<not> list_ex (\<lambda>q. files (dsk w) q \<noteq> None) (ancestors (artifacts_root (mgr w) @ [take 12 hex]))"
  shows "\<exists>job w'. w_create_job w ppath hex = (Inr job, w') \<and> job_id job = take 12 hex
           \<and> state job = DRAFT \<and> events job = [] \<and> registered w' (take 12 hex) job []
           \<and> artifacts_dir job = artifacts_root (mgr w) @ [take 12 hex]
           \<and> artifacts_dir job \<in> dirs (dsk w') \<and> files (dsk w') = files (dsk w)
           \<and> dirs (dsk w) \<subseteq> dirs (dsk w')"
proof -
  let ?jid = "take 12 hex"
  let ?adir = "artifacts_root (mgr w) @ [?jid]"
  let ?job = "\<lparr>job_id = ?jid, project_path = ppath, state = DRAFT, session_id = '''',
               plan_id = '''', plan_markdown = '''', artifacts_dir = ?adir, events = [],
               created_at = clock_now w, updated_at = clock_now w\<rparr>"
  let ?m = "(mgr w)\<lparr>jobs := AList.update ?jid ?job (jobs (mgr w)),
                     queue_store := (queue_store (mgr w))(next_ref (mgr w) := []),
                     next_ref := Suc (next_ref (mgr w)),
                     queues := AList.update ?jid (next_ref (mgr w)) (queues (mgr w))\<rparr>"
  let ?d = "(dsk w)\<lparr>dirs := dirs (dsk w) \<union> set (ancestors ?adir)\<rparr>"
  let ?w = "tick (w\<lparr>mgr := ?m, dsk := ?d\<rparr>)"
  have c: "create_job (mgr w) (dsk w) ppath hex (clock_now w) = (Inr ?job, ?m, ?d)"
    by (rule create_job_ok [OF assms])
  have s0: "w_create_job w ppath hex = (Inr ?job, ?w)"
    using c by (simp add: w_create_job_def)
  have s1: "job_id ?job = take 12 hex" "state ?job = DRAFT" "events ?job = []"
      "artifacts_dir ?job = artifacts_root (mgr w) @ [take 12 hex]"
    by simp_all
  have s2: "registered ?w (take 12 hex) ?job []"
    by (simp add: registered_iff tick_def update_conv')
  have s3: "artifacts_dir ?job \<in> dirs (dsk ?w)"
    using self_in_ancestors [of ?adir] by (simp add: tick_def)
  have s4: "files (dsk ?w) = files (dsk w)" "dirs (dsk w) \<subseteq> dirs (dsk ?w)"
    by (auto simp add: tick_def)
  from s0 s1 s2 s3 s4 show ?thesis by blast
qed

lemma assign_registered:
  assumes "registered w jid job q"
  shows "registered (assign w jid f) jid (f job) q \<and> dsk (assign w jid f) = dsk w"
  using assms
  by (auto simp add: registered_iff assign_def update_conv' split: option.splits)

lemma w_transition_registered:
  assumes "registered w jid job q" and "(state job, target) \<in> set spec_edges"
  shows "\<exists>r w'. w_transition w jid target = (Inr r, w')
           \<and> registered w' jid (job\<lparr>state := target, updated_at := clock_now w\<rparr>) q
           \<and> dsk w' = dsk w"
proof -
  from assms(1) have g: "get_job (mgr w) jid = Inr job" by (simp add: registered_def)
  have "transition (mgr w) jid target (clock_now w)
          = (Inr (job\<lparr>state := target, updated_at := clock_now w\<rparr>),
             (mgr w)\<lparr>jobs := AList.update jid (job\<lparr>state := target, updated_at := clock_now w\<rparr>) (jobs (mgr w))\<rparr>)"
    using g assms(2) by (simp add: transition_def validate_transition_edge Let_def)
  then show ?thesis
    using assms(1)
    by (auto simp add: w_transition_def registered_iff tick_def update_conv')
qed

lemma w_add_event_registered:
  assumes "registered w jid job q"
  shows "\<exists>ev w'. w_add_event w jid ty dat = (Inr ev, w')
           \<and> ev = \<lparr>event_type = ty, data = dat, timestamp = clock_now w\<rparr>
           \<and> registered w' jid (job\<lparr>events := events job @ [ev]\<rparr>) (q @ [ev])
           \<and> dsk w' = dsk w"
proof -
  from assms obtain queue where j: "map_of (jobs (mgr w)) jid = Some job"
    and qq: "map_of (queues (mgr w)) jid = Some queue" and st: "queue_store (mgr w) queue = q"
    by (auto simp add: registered_iff)
  from assms have g: "get_job (mgr w) jid = Inr job" by (simp add: registered_def)
  show ?thesis
    using g qq st add_event_registered [OF j qq, of ty dat "clock_now w"]
    by (simp add: w_add_event_def registered_iff tick_def update_conv')
qed

lemma ask_start:
  assumes "\<not> list_ex (\<lambda>q. files (dsk w) q \<noteq> None) (ancestors (artifacts_root (mgr w) @ [take 12 hex]))"
    and "(DRAFT, running) \<in> set spec_edges"
  shows "\<exists>job w1 w2 j3 w3 job3.
           w_create_job w ppath hex = (Inr job, w1) \<and> job_id job = take 12 hex
         \<and> w2 = (if sid \<noteq> [] then assign w1 (take 12 hex) (\<lambda>j. j\<lparr>session_id := sid\<rparr>) else w1)
         \<and> w_transition w2 (take 12 hex) running = (Inr j3, w3)
         \<and> registered w3 (take 12 hex) job3 [] \<and> state job3 = running \<and> events job3 = []"
proof -
  from w_create_job_registered [OF assms(1), of ppath] obtain job w1 where
    c: "w_create_job w ppath hex = (Inr job, w1)" "job_id job = take 12 hex"
       "state job = DRAFT" "events job = []" "registered w1 (take 12 hex) job []"
    by blast
  define w2 where "w2 = (if sid \<noteq> [] then assign w1 (take 12 hex) (\<lambda>j. j\<lparr>session_id := sid\<rparr>) else w1)"
  define job2 where "job2 = (if sid \<noteq> [] then job\<lparr>session_id := sid\<rparr> else job)"
  have r2: "registered w2 (take 12 hex) job2 []"
    using c(5) assign_registered [OF c(5), of "\<lambda>j. j\<lparr>session_id := sid\<rparr>"]
    by (simp add: w2_def job2_def)
  have s2: "state job2 = DRAFT" "events job2 = []"
    using c(3,4) by (simp_all add: job2_def)
  from s2(1) assms(2) have "(state job2, running) \<in> set spec_edges" by simp
  from w_transition_registered [OF r2 this] obtain j3 w3 where
    t: "w_transition w2 (take 12 hex) running = (Inr j3, w3)"
       "registered w3 (take 12 hex) (job2\<lparr>state := running, updated_at := clock_now w2\<rparr>) []"
    by blast
  have "state (job2\<lparr>state := running, updated_at := clock_now w2\<rparr>) = running"
       "events (job2\<lparr>state := running, updated_at := clock_now w2\<rparr>) = []"
    using s2 by simp_all
  with c(1,2) t w2_def show ?thesis by blast
qed

lemma fail_and_record:
  assumes "registered w3 jid job3 []" and "state job3 \<in> {ASK_RUNNING, PLAN_RUNNING, EXECUTING}"
    and "events job3 = []"
  shows "\<exists>j4 w4 ev w5 job5.
           w_transition w3 jid FAILED = (Inr j4, w4)
         \<and> w_add_event w4 jid ERROR dat = (Inr ev, w5)
         \<and> registered w5 jid job5 [ev] \<and> state job5 = FAILED \<and> events job5 = [ev]
         \<and> event_type ev = ERROR \<and> data ev = dat"
proof -
  from assms(2) have "(state job3, FAILED) \<in> set spec_edges"
    by (auto simp add: spec_edges_def)
  from w_transition_registered [OF assms(1) this] obtain j4 w4 where
    t: "w_transition w3 jid FAILED = (Inr j4, w4)"
       "registered w4 jid (job3\<lparr>state := FAILED, updated_at := clock_now w3\<rparr>) []"
    by blast
  from w_add_event_registered [OF t(2), of ERROR dat] obtain ev w5 where
    a: "w_add_event w4 jid ERROR dat = (Inr ev, w5)"
       "ev = \<lparr>event_type = ERROR, data = dat, timestamp = clock_now w4\<rparr>"
       "registered w5 jid (job3\<lparr>state := FAILED, updated_at := clock_now w3\<rparr>\<lparr>events :=
            events (job3\<lparr>state := FAILED, updated_at := clock_now w3\<rparr>) @ [ev]\<rparr>) ([] @ [ev])"
    by blast
  let ?job5 = "job3\<lparr>state := FAILED, updated_at := clock_now w3\<rparr>\<lparr>events :=
            events (job3\<lparr>state := FAILED, updated_at := clock_now w3\<rparr>) @ [ev]\<rparr>"
  have "registered w5 jid ?job5 [ev]" using a(3) by simp
  moreover have "state ?job5 = FAILED" "events ?job5 = [ev]" using assms(3) by simp_all
  moreover have "event_type ev = ERROR" "data ev = dat" using a(2) by simp_all
  ultimately show ?thesis using t(1) a(1) by blast
qed

text \<open>
  Claim C3. When the artifacts directory of the new job can be created: in the ask phase
  a \<open>TimeoutError\<close> of the invocation and a \<open>FileNotFoundError\<close> of the agent lookup both
  move the job to \<open>FAILED\<close> and record one \<open>ERROR\<close> event before the handler raises its
  \<open>HTTPException\<close> (504 and 500); in the plan phase a \<open>TimeoutError\<close> does the same, but a
  \<open>FileNotFoundError\<close> of the agent lookup leaves the handler as it is, with the job in
  \<open>PLAN_RUNNING\<close>, no event in its log and none in its queue: there the plan handler
  does not do what the claim says and what the ask handler does.
\<close>

theorem invocation_failures_in_ask_and_plan:
  assumes "\<not> list_ex (\<lambda>q. files (dsk w) q \<noteq> None) (ancestors (artifacts_root (mgr w) @ [take 12 hex]))"
  shows "(\<exists>w' job' ev. ask lib w areq hex (Inr cmd) (Inl (TimeoutError msg))
                          = (Inl (HTTPException 504 ''Cursor agent timed out''), w')
            \<and> registered w' (take 12 hex) job' [ev] \<and> state job' = FAILED \<and> events job' = [ev]
            \<and> event_type ev = ERROR \<and> data ev = ''Cursor agent timed out'')
       \<and> (\<exists>w' job' ev. ask lib w areq hex (Inl (FileNotFoundError msg)) finished
                          = (Inl (HTTPException 500 (''Cursor CLI not found: '' @ msg)), w')
            \<and> registered w' (take 12 hex) job' [ev] \<and> state job' = FAILED \<and> events job' = [ev]
            \<and> event_type ev = ERROR \<and> data ev = ''Cursor CLI not found: '' @ msg)
       \<and> (\<exists>w' job' ev. create_plan lib w preq hex plan_hex (Inr cmd) (Inl (TimeoutError msg))
                          = (Inl (HTTPException 504 ''Cursor agent timed out''), w')
            \<and> registered w' (take 12 hex) job' [ev] \<and> state job' = FAILED \<and> events job' = [ev]
            \<and> event_type ev = ERROR \<and> data ev = ''Cursor agent timed out'')
       \<and> (\<exists>w' job'. create_plan lib w preq hex plan_hex (Inl (FileNotFoundError msg)) finished
                          = (Inl (Unhandled (FileNotFoundError msg)), w')
            \<and> registered w' (take 12 hex) job' [] \<and> state job' = PLAN_RUNNING \<and> events job' = [])"
proof (intro conjI)
  have ea: "(DRAFT, ASK_RUNNING) \<in> set spec_edges" by (simp add: spec_edges_def)
  have ep: "(DRAFT, PLAN_RUNNING) \<in> set spec_edges" by (simp add: spec_edges_def)
  from ask_start [OF assms ea, of "ask_project_path areq" "ask_session_id areq"]
  obtain job w1 w2 j3 w3 job3 where
    a: "w_create_job w (ask_project_path areq) hex = (Inr job, w1)" "job_id job = take 12 hex"
       "w2 = (if ask_session_id areq \<noteq> []
              then assign w1 (take 12 hex) (\<lambda>j. j\<lparr>session_id := ask_session_id areq\<rparr>) else w1)"
       "w_transition w2 (take 12 hex) ASK_RUNNING = (Inr j3, w3)"
       "registered w3 (take 12 hex) job3 []" "state job3 = ASK_RUNNING" "events job3 = []"
    by blast
  have s3: "state job3 \<in> {ASK_RUNNING, PLAN_RUNNING, EXECUTING}" using a(6) by simp
  from ask_start [OF assms ep, of "plan_project_path preq" "plan_session_id preq"]
  obtain pjob pw1 pw2 pj3 pw3 pjob3 where
    p: "w_create_job w (plan_project_path preq) hex = (Inr pjob, pw1)" "job_id pjob = take 12 hex"
       "pw2 = (if plan_session_id preq \<noteq> []
              then assign pw1 (take 12 hex) (\<lambda>j. j\<lparr>session_id := plan_session_id preq\<rparr>) else pw1)"
       "w_transition pw2 (take 12 hex) PLAN_RUNNING = (Inr pj3, pw3)"
       "registered pw3 (take 12 hex) pjob3 []" "state pjob3 = PLAN_RUNNING" "events pjob3 = []"
    by blast
  have ps3: "state pjob3 \<in> {ASK_RUNNING, PLAN_RUNNING, EXECUTING}" using p(6) by simp
  {
    from fail_and_record [OF a(5) s3 a(7), of "''Cursor agent timed out''"]
    obtain j4 w4 ev w5 job5 where
      f: "w_transition w3 (take 12 hex) FAILED = (Inr j4, w4)"
         "w_add_event w4 (take 12 hex) ERROR ''Cursor agent timed out'' = (Inr ev, w5)"
         "registered w5 (take 12 hex) job5 [ev]" "state job5 = FAILED" "events job5 = [ev]"
         "event_type ev = ERROR" "data ev = ''Cursor agent timed out''"
      by blast
    have "ask lib w areq hex (Inr cmd) (Inl (TimeoutError msg))
            = (Inl (HTTPException 504 ''Cursor agent timed out''), w5)"
      using a(1,2,4) f(1,2) unfolding a(3)
      by (simp add: ask_def Let_def invoke_cursor_def)
    with f show "\<exists>w' job' ev. ask lib w areq hex (Inr cmd) (Inl (TimeoutError msg))
                          = (Inl (HTTPException 504 ''Cursor agent timed out''), w')
            \<and> registered w' (take 12 hex) job' [ev] \<and> state job' = FAILED \<and> events job' = [ev]
            \<and> event_type ev = ERROR \<and> data ev = ''Cursor agent timed out''"
      by blast
  }
  {
    from fail_and_record [OF a(5) s3 a(7), of "''Cursor CLI not found: '' @ msg"]
    obtain j4 w4 ev w5 job5 where
      f: "w_transition w3 (take 12 hex) FAILED = (Inr j4, w4)"
         "w_add_event w4 (take 12 hex) ERROR (''Cursor CLI not found: '' @ msg) = (Inr ev, w5)"
         "registered w5 (take 12 hex) job5 [ev]" "state job5 = FAILED" "events job5 = [ev]"
         "event_type ev = ERROR" "data ev = ''Cursor CLI not found: '' @ msg"
      by blast
    have "ask lib w areq hex (Inl (FileNotFoundError msg)) finished
            = (Inl (HTTPException 500 (''Cursor CLI not found: '' @ msg)), w5)"
      using a(1,2,4) f(1,2) unfolding a(3)
      by (simp add: ask_def Let_def invoke_cursor_def str_exc_def)
    with f show "\<exists>w' job' ev. ask lib w areq hex (Inl (FileNotFoundError msg)) finished
                          = (Inl (HTTPException 500 (''Cursor CLI not found: '' @ msg)), w')
            \<and> registered w' (take 12 hex) job' [ev] \<and> state job' = FAILED \<and> events job' = [ev]
            \<and> event_type ev = ERROR \<and> data ev = ''Cursor CLI not found: '' @ msg"
      by blast
  }
  {
    from fail_and_record [OF p(5) ps3 p(7), of "''Cursor agent timed out''"]
    obtain j4 w4 ev w5 job5 where
      f: "w_transition pw3 (take 12 hex) FAILED = (Inr j4, w4)"
         "w_add_event w4 (take 12 hex) ERROR ''Cursor agent timed out'' = (Inr ev, w5)"
         "registered w5 (take 12 hex) job5 [ev]" "state job5 = FAILED" "events job5 = [ev]"
         "event_type ev = ERROR" "data ev = ''Cursor agent timed out''"
      by blast
    have "create_plan lib w preq hex plan_hex (Inr cmd) (Inl (TimeoutError msg))
            = (Inl (HTTPException 504 ''Cursor agent timed out''), w5)"
      using p(1,2,4) f(1,2) unfolding p(3)
      by (simp add: create_plan_def Let_def invoke_cursor_def)
    with f show "\<exists>w' job' ev. create_plan lib w preq hex plan_hex (Inr cmd) (Inl (TimeoutError msg))
                          = (Inl (HTTPException 504 ''Cursor agent timed out''), w')
            \<and> registered w' (take 12 hex) job' [ev] \<and> state job' = FAILED \<and> events job' = [ev]
            \<and> event_type ev = ERROR \<and> data ev = ''Cursor agent timed out''"
      by blast
  }
  {
    have "create_plan lib w preq hex plan_hex (Inl (FileNotFoundError msg)) finished
            = (Inl (Unhandled (FileNotFoundError msg)), pw3)"
      using p(1,2,4) unfolding p(3)
      by (simp add: create_plan_def Let_def invoke_cursor_def)
    with p(5,6,7) show "\<exists>w' job'. create_plan lib w preq hex plan_hex (Inl (FileNotFoundError msg)) finished
                          = (Inl (Unhandled (FileNotFoundError msg)), w')
            \<and> registered w' (take 12 hex) job' [] \<and> state job' = PLAN_RUNNING \<and> events job' = []"
      by blast
  }
qed

theorem invocation_failures_in_ask_and_plan_witness:
  "\<not> list_ex (\<lambda>q. files (dsk demo_world) q \<noteq> None)
        (ancestors (artifacts_root (mgr demo_world) @ [take 12 demo_hex]))
   \<and> (\<exists>w' job'. create_plan demo_library demo_world demo_plan_request demo_hex demo_hex_b
                     (Inl (FileNotFoundError demo_hint)) (Inl (OtherException ''not started''))
                   = (Inl (Unhandled (FileNotFoundError demo_hint)), w')
          \<and> get_job (mgr w') ''0123456789ab'' = Inr job'
          \<and> state job' = PLAN_RUNNING \<and> events job' = [])"
proof -
  have a: "\<not> list_ex (\<lambda>q. files (dsk demo_world) q \<noteq> None)
        (ancestors (artifacts_root (mgr demo_world) @ [take 12 demo_hex]))"
    by (simp add: demo_world_def demo_disk_def JobManager_init_def demo_hex_def)
  have t: "take 12 demo_hex = ''0123456789ab''" by (simp add: demo_hex_def)
  from invocation_failures_in_ask_and_plan [where w = demo_world and hex = demo_hex
      and lib = demo_library and preq = demo_plan_request and plan_hex = demo_hex_b
      and msg = demo_hint and finished = "Inl (OtherException ''not started'')", OF a]
  have "\<exists>w' job'. create_plan demo_library demo_world demo_plan_request demo_hex demo_hex_b
                     (Inl (FileNotFoundError demo_hint)) (Inl (OtherException ''not started''))
                   = (Inl (Unhandled (FileNotFoundError demo_hint)), w')
          \<and> registered w' (take 12 demo_hex) job' [] \<and> state job' = PLAN_RUNNING \<and> events job' = []"
    by blast
  then have "\<exists>w' job'. create_plan demo_library demo_world demo_plan_request demo_hex demo_hex_b
                     (Inl (FileNotFoundError demo_hint)) (Inl (OtherException ''not started''))
                   = (Inl (Unhandled (FileNotFoundError demo_hint)), w')
          \<and> get_job (mgr w') ''0123456789ab'' = Inr job'
          \<and> state job' = PLAN_RUNNING \<and> events job' = []"
    unfolding t registered_def by blast
  with a show ?thesis by (rule conjI)
qed

section \<open>The execution task\<close>

lemma w_save_artifact_registered:
  assumes "registered w jid job q"
  shows "\<exists>r w'. w_save_artifact w jid filename content = (r, w') \<and> mgr w' = mgr w
           \<and> dirs (dsk w') = dirs (dsk w)
           \<and> (\<forall>p. p \<noteq> artifacts_dir job @ [filename] \<longrightarrow> files (dsk w') p = files (dsk w) p)
           \<and> (\<forall>e. r = Inl e \<longrightarrow> is_Exception e)
           \<and> (artifacts_dir job \<in> dirs (dsk w) \<and> artifacts_dir job @ [filename] \<notin> dirs (dsk w) \<longrightarrow>
                r = Inr (artifacts_dir job @ [filename])
                \<and> files (dsk w') (artifacts_dir job @ [filename]) = Some content)"
proof -
  from assms have g: "get_job (mgr w) jid = Inr job" by (simp add: registered_def)
  show ?thesis
    using g
    by (auto simp add: w_save_artifact_def save_artifact_def write_text_def Let_def)
qed

lemma registered_mgr: "registered w jid job q \<Longrightarrow> mgr w' = mgr w \<Longrightarrow> registered w' jid job q"
  by (simp add: registered_iff)

lemma log_events_simps:
  "log_events []" "log_events (ev # evs) \<longleftrightarrow> event_type ev = LOG \<and> log_events evs"
  by (simp_all add: log_events_def)

lemma drain_chunks_registered:
  assumes "registered w jid job q"
  shows "\<exists>r w' job' q' logs. drain_chunks lib w jid items acc = (r, w') \<and> registered w' jid job' q'
           \<and> state job' = state job \<and> artifacts_dir job' = artifacts_dir job \<and> dsk w' = dsk w
           \<and> events job' = events job @ logs \<and> log_events logs"
  using assms
proof (induction items arbitrary: w job q acc)
  case Nil
  have "events job = events job @ [] \<and> log_events []" by (simp add: log_events_simps)
  with Nil show ?case by (metis drain_chunks.simps(1))
next
  case (Cons chunk rest)
  have stay: "\<exists>r w' job' q' logs. drain_chunks lib w jid (chunk # rest) acc = (r, w')
           \<and> registered w' jid job' q'
           \<and> state job' = state job \<and> artifacts_dir job' = artifacts_dir job \<and> dsk w' = dsk w
           \<and> events job' = events job @ logs \<and> log_events logs"
    if "drain_chunks lib w jid (chunk # rest) acc = (Inl e, w)" for e
  proof -
    have "events job = events job @ [] \<and> log_events []" by (simp add: log_events_simps)
    with that Cons.prems show ?thesis by metis
  qed
  show ?case
  proof (cases chunk)
    case (JStr s)
    show ?thesis
    proof (cases "take 12 s = ''__result__::''")
      case True
      show ?thesis
      proof (cases "json_loads lib (drop 12 s)")
        case None
        with True JStr Cons.IH [OF Cons.prems, of acc] show ?thesis by simp
      next
        case (Some v)
        show ?thesis
        proof (cases v)
          case (JObj result_data)
          with Some True JStr
            Cons.IH [OF Cons.prems, of "if truthy (dict_get result_data ''result'' (JStr ''''))
                 then acc @ [dict_get result_data ''result'' (JStr '''')] else acc"]
          show ?thesis by (simp add: Let_def)
        qed (rule stay, use Some True JStr in simp)+
      qed
    next
      case False
      from w_add_event_registered [OF Cons.prems, of LOG s] obtain ev w1 where
        a: "w_add_event w jid LOG s = (Inr ev, w1)"
           "ev = \<lparr>event_type = LOG, data = s, timestamp = clock_now w\<rparr>"
           "registered w1 jid (job\<lparr>events := events job @ [ev]\<rparr>) (q @ [ev])" "dsk w1 = dsk w"
        by blast
      from Cons.IH [OF a(3), of "acc @ [chunk]"] obtain r w' job' q' logs where
        i: "drain_chunks lib w1 jid rest (acc @ [chunk]) = (r, w')" "registered w' jid job' q'"
           "state job' = state (job\<lparr>events := events job @ [ev]\<rparr>)"
           "artifacts_dir job' = artifacts_dir (job\<lparr>events := events job @ [ev]\<rparr>)" "dsk w' = dsk w1"
           "events job' = events (job\<lparr>events := events job @ [ev]\<rparr>) @ logs"
           "log_events logs"
        by blast
      have step: "drain_chunks lib w jid (chunk # rest) acc = (r, w')"
        using a(1) False JStr i(1) by simp
      have e: "events job' = events job @ (ev # logs)" using i(6) by simp
      have l: "log_events (ev # logs)" using i(7) a(2) by (simp add: log_events_simps)
      have k: "state job' = state job" "artifacts_dir job' = artifacts_dir job" "dsk w' = dsk w"
        using i(3,4,5) a(4) by simp_all
      from step i(2) k e l show ?thesis by blast
    qed
  qed (rule stay, simp)+
qed

lemma drain_stream_registered:
  assumes "registered w jid job q"
  shows "\<exists>x w' job' q' ev0 logs. drain_stream lib w jid gen = (x, w') \<and> registered w' jid job' q'
           \<and> state job' = state job \<and> artifacts_dir job' = artifacts_dir job \<and> dsk w' = dsk w
           \<and> events job' = events job @ ev0 # logs
           \<and> event_type ev0 = STEP \<and> log_events logs
           \<and> (x = None \<longrightarrow> snd gen = None)
           \<and> (\<forall>exc. snd gen = Some (Inl exc) \<longrightarrow> (\<exists>e. x = Some (Inl e)))
           \<and> (\<forall>acc. x = Some (Inr acc) \<longrightarrow> (\<exists>returncode. snd gen = Some (Inr returncode)))"
proof -
  from w_add_event_registered [OF assms, of STEP "''Starting Cursor agent in execute mode (streaming)''"]
  obtain ev w1 where
    a: "w_add_event w jid STEP ''Starting Cursor agent in execute mode (streaming)'' = (Inr ev, w1)"
       "ev = \<lparr>event_type = STEP, data = ''Starting Cursor agent in execute mode (streaming)'',
              timestamp = clock_now w\<rparr>"
       "registered w1 jid (job\<lparr>events := events job @ [ev]\<rparr>) (q @ [ev])" "dsk w1 = dsk w"
    by blast
  from drain_chunks_registered [OF a(3), of lib "fst gen" "[]"] obtain r w2 job2 q2 logs where
    d: "drain_chunks lib w1 jid (fst gen) [] = (r, w2)" "registered w2 jid job2 q2"
       "state job2 = state (job\<lparr>events := events job @ [ev]\<rparr>)"
       "artifacts_dir job2 = artifacts_dir (job\<lparr>events := events job @ [ev]\<rparr>)" "dsk w2 = dsk w1"
       "events job2 = events (job\<lparr>events := events job @ [ev]\<rparr>) @ logs"
       "log_events logs"
    by blast
  have k: "state job2 = state job" "artifacts_dir job2 = artifacts_dir job" "dsk w2 = dsk w"
      "events job2 = events job @ ev # logs" "event_type ev = STEP"
    using d(3,4,5,6) a(2,4) by simp_all
  have "\<exists>x. drain_stream lib w jid gen = (x, w2)
           \<and> (x = None \<longrightarrow> snd gen = None)
           \<and> (\<forall>exc. snd gen = Some (Inl exc) \<longrightarrow> (\<exists>e. x = Some (Inl e)))
           \<and> (\<forall>acc. x = Some (Inr acc) \<longrightarrow> (\<exists>returncode. snd gen = Some (Inr returncode)))"
    using a(1) d(1)
    by (simp add: drain_stream_def split: sum.splits option.splits)
  then obtain x where x: "drain_stream lib w jid gen = (x, w2)"
      "x = None \<longrightarrow> snd gen = None" "\<forall>exc. snd gen = Some (Inl exc) \<longrightarrow> (\<exists>e. x = Some (Inl e))"
      "\<forall>acc. x = Some (Inr acc) \<longrightarrow> (\<exists>returncode. snd gen = Some (Inr returncode))"
    by (elim exE conjE)
  show ?thesis by (intro exI conjI) (rule x d(2) k d(7))+
qed

lemma join_text_Exception: "join_text i acc = Inl e \<Longrightarrow> is_Exception e"
  by (induction i acc rule: join_text.induct) (auto split: sum.splits)

lemma complete_execution_registered:
  assumes "registered w jid job q" and "state job = EXECUTING"
  shows "\<exists>r w' job' q'. complete_execution w jid acc = (r, w') \<and> registered w' jid job' q'
           \<and> artifacts_dir job' = artifacts_dir job \<and> dirs (dsk w') = dirs (dsk w)
           \<and> ((\<exists>exc. r = Inl exc \<and> is_Exception exc \<and> job' = job)
                \<or> (r = Inr () \<and> state job' = COMPLETE
                    \<and> (\<exists>ev. events job' = events job @ [ev] \<and> event_type ev = DONE
                           \<and> data ev = ''Execution completed successfully'')))"
proof -
  have give_up: "\<exists>r w' job' q'. complete_execution w jid acc = (r, w') \<and> registered w' jid job' q'
           \<and> artifacts_dir job' = artifacts_dir job \<and> dirs (dsk w') = dirs (dsk w)
           \<and> ((\<exists>exc. r = Inl exc \<and> is_Exception exc \<and> job' = job)
                \<or> (r = Inr () \<and> state job' = COMPLETE
                    \<and> (\<exists>ev. events job' = events job @ [ev] \<and> event_type ev = DONE
                           \<and> data ev = ''Execution completed successfully'')))"
    if "complete_execution w jid acc = (Inl e, w')" "mgr w' = mgr w" "dirs (dsk w') = dirs (dsk w)"
      "is_Exception e"
    for e w'
  proof -
    have "registered w' jid job q" using assms(1) that(2) by (rule registered_mgr)
    with that(1,3,4) show ?thesis by blast
  qed
  show ?thesis
  proof (cases "join_text 0 acc")
    case (Inl e)
    then have "complete_execution w jid acc = (Inl e, w)" by (simp add: complete_execution_def)
    moreover have "is_Exception e" using Inl by (rule join_text_Exception)
    ultimately show ?thesis by (intro give_up [of e w]) simp_all
  next
    case (Inr full_output)
    from w_save_artifact_registered [OF assms(1), of "''logs.txt''" full_output] obtain r1 w1 where
      s1: "w_save_artifact w jid ''logs.txt'' full_output = (r1, w1)" "mgr w1 = mgr w"
          "dirs (dsk w1) = dirs (dsk w)" "\<forall>e. r1 = Inl e \<longrightarrow> is_Exception e" by blast
    have g1: "registered w1 jid job q" using assms(1) s1(2) by (rule registered_mgr)
    show ?thesis
    proof (cases r1)
      case (Inl e)
      then have "complete_execution w jid acc = (Inl e, w1)"
        using Inr s1(1) by (simp add: complete_execution_def)
      moreover have "is_Exception e" using Inl s1(4) by simp
      ultimately show ?thesis using s1(2,3) by (intro give_up [of e w1])
    next
      case p1: (Inr p1)
      from w_save_artifact_registered [OF g1, of "''job_summary.md''" full_output] obtain r2 w2 where
        s2: "w_save_artifact w1 jid ''job_summary.md'' full_output = (r2, w2)" "mgr w2 = mgr w1"
            "dirs (dsk w2) = dirs (dsk w1)" "\<forall>e. r2 = Inl e \<longrightarrow> is_Exception e" by blast
      have g2: "registered w2 jid job q" using g1 s2(2) by (rule registered_mgr)
      show ?thesis
      proof (cases r2)
        case (Inl e)
        then have "complete_execution w jid acc = (Inl e, w2)"
          using Inr s1(1) p1 s2(1) by (simp add: complete_execution_def)
        moreover have "mgr w2 = mgr w" using s1(2) s2(2) by simp
        moreover have "dirs (dsk w2) = dirs (dsk w)" using s1(3) s2(3) by simp
        moreover have "is_Exception e" using Inl s2(4) by simp
        ultimately show ?thesis by (rule give_up)
      next
        case p2: (Inr p2)
        have "(state job, COMPLETE) \<in> set spec_edges" using assms(2) by (simp add: spec_edges_def)
        from w_transition_registered [OF g2 this] obtain j3 w3 where
          t: "w_transition w2 jid COMPLETE = (Inr j3, w3)"
             "registered w3 jid (job\<lparr>state := COMPLETE, updated_at := clock_now w2\<rparr>) q"
             "dsk w3 = dsk w2" by blast
        from w_add_event_registered [OF t(2), of DONE "''Execution completed successfully''"]
        obtain ev w4 where
          a: "w_add_event w3 jid DONE ''Execution completed successfully'' = (Inr ev, w4)"
             "ev = \<lparr>event_type = DONE, data = ''Execution completed successfully'',
                    timestamp = clock_now w3\<rparr>"
             "registered w4 jid (job\<lparr>state := COMPLETE, updated_at := clock_now w2\<rparr>\<lparr>events :=
                 events (job\<lparr>state := COMPLETE, updated_at := clock_now w2\<rparr>) @ [ev]\<rparr>) (q @ [ev])"
             "dsk w4 = dsk w3" by blast
        define job4 where "job4 = job\<lparr>state := COMPLETE, updated_at := clock_now w2\<rparr>\<lparr>events :=
                 events (job\<lparr>state := COMPLETE, updated_at := clock_now w2\<rparr>) @ [ev]\<rparr>"
        have c: "complete_execution w jid acc = (Inr (), w4)"
          using Inr s1(1) p1 s2(1) p2 t(1) a(1) by (simp add: complete_execution_def)
        have d: "dirs (dsk w4) = dirs (dsk w)" using a(4) t(3) s2(3) s1(3) by simp
        have r4: "registered w4 jid job4 (q @ [ev])" using a(3) by (simp add: job4_def)
        have p4: "artifacts_dir job4 = artifacts_dir job" "state job4 = COMPLETE"
            "events job4 = events job @ [ev]"
          by (simp_all add: job4_def)
        have e4: "event_type ev = DONE" "data ev = ''Execution completed successfully''"
          using a(2) by simp_all
        from c r4 p4 d e4 show ?thesis by blast
      qed
    qed
  qed
qed

lemma complete_execution_ok:
  assumes "registered w jid job q" and "state job = EXECUTING"
    and "join_text 0 acc = Inr full_output"
    and "artifacts_dir job \<in> dirs (dsk w)"
    and "artifacts_dir job @ [''logs.txt''] \<notin> dirs (dsk w)"
    and "artifacts_dir job @ [''job_summary.md''] \<notin> dirs (dsk w)"
  shows "\<exists>w'. complete_execution w jid acc = (Inr (), w')
           \<and> files (dsk w') (artifacts_dir job @ [''logs.txt'']) = Some full_output
           \<and> files (dsk w') (artifacts_dir job @ [''job_summary.md'']) = Some full_output"
proof -
  from w_save_artifact_registered [OF assms(1), of "''logs.txt''" full_output] assms(4,5)
  obtain w1 where
    s1: "w_save_artifact w jid ''logs.txt'' full_output = (Inr (artifacts_dir job @ [''logs.txt'']), w1)"
        "mgr w1 = mgr w" "dirs (dsk w1) = dirs (dsk w)"
        "files (dsk w1) (artifacts_dir job @ [''logs.txt'']) = Some full_output"
    by blast
  have g1: "registered w1 jid job q" using assms(1) s1(2) by (rule registered_mgr)
  from w_save_artifact_registered [OF g1, of "''job_summary.md''" full_output] assms(4,6) s1(3)
  obtain w2 where
    s2: "w_save_artifact w1 jid ''job_summary.md'' full_output
           = (Inr (artifacts_dir job @ [''job_summary.md'']), w2)"
        "mgr w2 = mgr w1" "dirs (dsk w2) = dirs (dsk w1)"
        "\<forall>p. p \<noteq> artifacts_dir job @ [''job_summary.md''] \<longrightarrow> files (dsk w2) p = files (dsk w1) p"
        "files (dsk w2) (artifacts_dir job @ [''job_summary.md'']) = Some full_output"
    by auto
  have g2: "registered w2 jid job q" using g1 s2(2) by (rule registered_mgr)
  have l2: "files (dsk w2) (artifacts_dir job @ [''logs.txt'']) = Some full_output"
    using s2(4) s1(4) by simp
  have "(state job, COMPLETE) \<in> set spec_edges" using assms(2) by (simp add: spec_edges_def)
  from w_transition_registered [OF g2 this] obtain j3 w3 where
    t: "w_transition w2 jid COMPLETE = (Inr j3, w3)"
       "registered w3 jid (job\<lparr>state := COMPLETE, updated_at := clock_now w2\<rparr>) q"
       "dsk w3 = dsk w2" by blast
  from w_add_event_registered [OF t(2), of DONE "''Execution completed successfully''"]
  obtain ev w4 where
    a: "w_add_event w3 jid DONE ''Execution completed successfully'' = (Inr ev, w4)"
       "dsk w4 = dsk w3" by blast
  have c: "complete_execution w jid acc = (Inr (), w4)"
    using assms(3) s1(1) s2(1) t(1) a(1) by (simp add: complete_execution_def)
  have "files (dsk w4) = files (dsk w2)" using a(2) t(3) by simp
  with c l2 s2(5) show ?thesis by simp
qed

lemma fail_execution_registered:
  assumes "registered w jid job q" and "state job = EXECUTING"
  shows "\<exists>w' ev. fail_execution lib w jid exc = (Inr (), w')
           \<and> registered w' jid (job\<lparr>state := FAILED, updated_at := clock_now w, events := events job @ [ev]\<rparr>)
                (q @ [ev])
           \<and> event_type ev = ERROR \<and> data ev = str_exc lib exc \<and> dsk w' = dsk w"
proof -
  have "(state job, FAILED) \<in> set spec_edges" using assms(2) by (simp add: spec_edges_def)
  from w_transition_registered [OF assms(1) this] obtain j1 w1 where
    t: "w_transition w jid FAILED = (Inr j1, w1)"
       "registered w1 jid (job\<lparr>state := FAILED, updated_at := clock_now w\<rparr>) q" "dsk w1 = dsk w"
    by blast
  from w_add_event_registered [OF t(2), of ERROR "str_exc lib exc"] obtain ev w2 where
    a: "w_add_event w1 jid ERROR (str_exc lib exc) = (Inr ev, w2)"
       "ev = \<lparr>event_type = ERROR, data = str_exc lib exc, timestamp = clock_now w1\<rparr>"
       "registered w2 jid (job\<lparr>state := FAILED, updated_at := clock_now w\<rparr>\<lparr>events :=
            events (job\<lparr>state := FAILED, updated_at := clock_now w\<rparr>) @ [ev]\<rparr>) (q @ [ev])"
       "dsk w2 = dsk w1"
    by blast
  have "fail_execution lib w jid exc = (Inr (), w2)"
    using t(1) a(1) by (simp add: fail_execution_def)
  moreover have "registered w2 jid (job\<lparr>state := FAILED, updated_at := clock_now w, events := events job @ [ev]\<rparr>)
                (q @ [ev])" using a(3) by simp
  moreover have "event_type ev = ERROR" "data ev = str_exc lib exc" using a(2) by simp_all
  ultimately show ?thesis using a(4) t(3) by auto
qed

lemma finally_save_registered:
  assumes "registered w jid job q" and "artifacts_dir job \<in> dirs (dsk w)"
    and "artifacts_dir job @ [''run.json''] \<notin> dirs (dsk w)"
  shows "\<exists>w'. finally_save lib jid (r, w) = (r, w') \<and> mgr w' = mgr w
           \<and> files (dsk w') (artifacts_dir job @ [''run.json'']) = Some (dump_job lib job)
           \<and> (\<forall>p. p \<noteq> artifacts_dir job @ [''run.json''] \<longrightarrow> files (dsk w') p = files (dsk w) p)"
proof -
  from assms(1) have g: "get_job (mgr w) jid = Inr job" by (simp add: registered_def)
  from w_save_artifact_registered [OF assms(1), of "''run.json''" "dump_job lib job"] assms(2,3)
  obtain w' where
    s: "w_save_artifact w jid ''run.json'' (dump_job lib job) = (Inr (artifacts_dir job @ [''run.json'']), w')"
       "mgr w' = mgr w" "files (dsk w') (artifacts_dir job @ [''run.json'']) = Some (dump_job lib job)"
       "\<forall>p. p \<noteq> artifacts_dir job @ [''run.json''] \<longrightarrow> files (dsk w') p = files (dsk w) p"
    by auto
  have "w_save_run_metadata lib w jid = (Inr (artifacts_dir job @ [''run.json'']), w')"
    using s(1) g by (simp add: w_save_run_metadata_def w_save_artifact_def save_run_metadata_def)
  then show ?thesis using s(2,3,4) by (simp add: finally_save_def)
qed

lemma fail_then_save:
  assumes "registered w1 jid job1 q1" and "state job1 = EXECUTING"
    and "artifacts_dir job1 \<in> dirs (dsk w1)"
    and "artifacts_dir job1 @ [''run.json''] \<notin> dirs (dsk w1)"
    and "is_Exception exc"
  shows "\<exists>w' job' ev. finally_save lib jid (except_Exception lib w1 jid exc) = (Inr (), w')
           \<and> get_job (mgr w') jid = Inr job' \<and> state job' = FAILED
           \<and> events job' = events job1 @ [ev] \<and> event_type ev = ERROR \<and> data ev = str_exc lib exc
           \<and> files (dsk w') (artifacts_dir job1 @ [''run.json'']) = Some (dump_job lib job')"
proof -
  from fail_execution_registered [OF assms(1,2), of lib exc] obtain w2 ev where
    f: "fail_execution lib w1 jid exc = (Inr (), w2)"
       "registered w2 jid (job1\<lparr>state := FAILED, updated_at := clock_now w1, events := events job1 @ [ev]\<rparr>)
          (q1 @ [ev])"
       "event_type ev = ERROR" "data ev = str_exc lib exc" "dsk w2 = dsk w1"
    by blast
  define jobF where "jobF = job1\<lparr>state := FAILED, updated_at := clock_now w1, events := events job1 @ [ev]\<rparr>"
  have rF: "registered w2 jid jobF (q1 @ [ev])" using f(2) by (simp add: jobF_def)
  have aF: "artifacts_dir jobF = artifacts_dir job1" "state jobF = FAILED"
      "events jobF = events job1 @ [ev]" by (simp_all add: jobF_def)
  have d1: "artifacts_dir jobF \<in> dirs (dsk w2)" using assms(3) f(5) aF(1) by simp
  have d2: "artifacts_dir jobF @ [''run.json''] \<notin> dirs (dsk w2)" using assms(4) f(5) aF(1) by simp
  from finally_save_registered [OF rF d1 d2, of lib "Inr ()"] obtain w' where
    s: "finally_save lib jid (Inr (), w2) = (Inr (), w')" "mgr w' = mgr w2"
       "files (dsk w') (artifacts_dir jobF @ [''run.json'']) = Some (dump_job lib jobF)"
    by blast
  have g: "get_job (mgr w') jid = Inr jobF" using rF s(2) by (simp add: registered_def)
  have "finally_save lib jid (except_Exception lib w1 jid exc) = (Inr (), w')"
    using f(1) s(1) assms(5) by (simp add: except_Exception_def)
  with g aF f(3,4) s(3) show ?thesis by metis
qed

lemma pass_then_save:
  assumes "registered w1 jid job1 q1"
    and "artifacts_dir job1 \<in> dirs (dsk w1)"
    and "artifacts_dir job1 @ [''run.json''] \<notin> dirs (dsk w1)"
    and "\<not> is_Exception exc"
  shows "\<exists>w'. finally_save lib jid (except_Exception lib w1 jid exc) = (Inl exc, w')
           \<and> get_job (mgr w') jid = Inr job1
           \<and> files (dsk w') (artifacts_dir job1 @ [''run.json'']) = Some (dump_job lib job1)"
proof -
  from finally_save_registered [OF assms(1,2,3), of lib "Inl exc"] obtain w' where
    s: "finally_save lib jid (Inl exc, w1) = (Inl exc, w')" "mgr w' = mgr w1"
       "files (dsk w') (artifacts_dir job1 @ [''run.json'']) = Some (dump_job lib job1)"
    by blast
  have g: "get_job (mgr w') jid = Inr job1" using assms(1) s(2) by (simp add: registered_def)
  have "finally_save lib jid (except_Exception lib w1 jid exc) = (Inl exc, w')"
    using s(1) assms(4) by (simp add: except_Exception_def)
  with g s(3) show ?thesis by blast
qed

text \<open>
  Claim C4, as amended. Take a registered job in state \<open>EXECUTING\<close> whose artifacts
  directory exists and where \<open>run.json\<close> is not a directory, and any outcome \<open>gen\<close> of the
  streaming invocation. The first part of the task (the \<open>STEP\<close> event and the loop over
  the stream) changes nothing on disk and leaves the job in \<open>EXECUTING\<close>, its log grown
  by the \<open>STEP\<close> event and \<open>LOG\<close> events only; an exception of the generator is an exception
  of that part. Then:
  \<^item> when an exception that is an instance of \<open>Exception\<close> is raised there, the task catches
    it and returns: the job is in \<open>FAILED\<close>, its log has one more event, an \<open>ERROR\<close> event
    whose payload is \<open>str\<close> of the exception, and \<open>run.json\<close> holds the dump of that final
    record;
  \<^item> when an exception that is no instance of \<open>Exception\<close> is raised there, it leaves the
    task: the job record is as it was when the exception was raised (in \<open>EXECUTING\<close>, no
    \<open>ERROR\<close> event), and \<open>run.json\<close> holds the dump of that record;
  \<^item> when the stream ends normally, the task returns and \<open>run.json\<close> holds the dump of the
    final record, whose log has one more event: either the job is in \<open>COMPLETE\<close> and the
    event is \<open>DONE\<close>, or an exception of the last steps was caught, the job is in \<open>FAILED\<close>
    and the event is \<open>ERROR\<close>; the job is in \<open>COMPLETE\<close>, with the joined text in
    \<open>logs.txt\<close> and \<open>job_summary.md\<close>, when the accumulated items are all strings and
    neither file is a directory;
  \<^item> when the stream neither ends nor raises, the task never returns: the job stays in
    \<open>EXECUTING\<close> and nothing is written, \<open>run.json\<close> included.
\<close>

theorem run_execution_outcome:
  assumes "registered w jid job q" and "state job = EXECUTING"
    and "artifacts_dir job \<in> dirs (dsk w)"
    and "artifacts_dir job @ [''run.json''] \<notin> dirs (dsk w)"
  shows "\<exists>x w1 job1 ev0 logs.
       drain_stream lib w jid gen = (x, w1)
     \<and> get_job (mgr w1) jid = Inr job1 \<and> state job1 = EXECUTING
     \<and> events job1 = events job @ ev0 # logs \<and> event_type ev0 = STEP \<and> log_events logs
     \<and> dsk w1 = dsk w
     \<and> (\<forall>exc. snd gen = Some (Inl exc) \<longrightarrow> (\<exists>e. x = Some (Inl e)))
     \<and> (\<forall>exc. x = Some (Inl exc) \<and> is_Exception exc \<longrightarrow>
          (\<exists>w' job' ev. run_execution lib w jid gen = (Some (Inr ()), w')
             \<and> get_job (mgr w') jid = Inr job' \<and> state job' = FAILED
             \<and> events job' = events job1 @ [ev]
             \<and> event_type ev = ERROR \<and> data ev = str_exc lib exc
             \<and> files (dsk w') (artifacts_dir job @ [''run.json'']) = Some (dump_job lib job')))
     \<and> (\<forall>exc. x = Some (Inl exc) \<and> \<not> is_Exception exc \<longrightarrow>
          (\<exists>w'. run_execution lib w jid gen = (Some (Inl exc), w')
             \<and> get_job (mgr w') jid = Inr job1
             \<and> files (dsk w') (artifacts_dir job @ [''run.json'']) = Some (dump_job lib job1)))
     \<and> (\<forall>acc. x = Some (Inr acc) \<longrightarrow>
          (\<exists>w' job' ev. run_execution lib w jid gen = (Some (Inr ()), w')
             \<and> (\<exists>returncode. snd gen = Some (Inr returncode))
             \<and> get_job (mgr w') jid = Inr job' \<and> events job' = events job1 @ [ev]
             \<and> ((state job' = COMPLETE \<and> event_type ev = DONE)
                  \<or> (state job' = FAILED \<and> event_type ev = ERROR))
             \<and> files (dsk w') (artifacts_dir job @ [''run.json'']) = Some (dump_job lib job')
             \<and> (\<forall>full_output. join_text 0 acc = Inr full_output
                     \<and> artifacts_dir job @ [''logs.txt''] \<notin> dirs (dsk w)
                     \<and> artifacts_dir job @ [''job_summary.md''] \<notin> dirs (dsk w) \<longrightarrow>
                   state job' = COMPLETE
                 \<and> files (dsk w') (artifacts_dir job @ [''logs.txt'']) = Some full_output
                 \<and> files (dsk w') (artifacts_dir job @ [''job_summary.md'']) = Some full_output)))
     \<and> (x = None \<longrightarrow> snd gen = None \<and> run_execution lib w jid gen = (None, w1))"
proof -
  from drain_stream_registered [OF assms(1), of lib gen] obtain x w1 job1 q1 ev0 logs where
    d: "drain_stream lib w jid gen = (x, w1)" "registered w1 jid job1 q1"
       "state job1 = state job" "artifacts_dir job1 = artifacts_dir job" "dsk w1 = dsk w"
    and l: "events job1 = events job @ ev0 # logs" "event_type ev0 = STEP" "log_events logs"
    and g: "x = None \<longrightarrow> snd gen = None"
       "\<forall>exc. snd gen = Some (Inl exc) \<longrightarrow> (\<exists>e. x = Some (Inl e))"
       "\<forall>acc. x = Some (Inr acc) \<longrightarrow> (\<exists>returncode. snd gen = Some (Inr returncode))"
    by (elim exE conjE)
  have e1: "state job1 = EXECUTING" using d(3) assms(2) by simp
  have a1: "artifacts_dir job1 \<in> dirs (dsk w1)" using d(4,5) assms(3) by simp
  have n1: "artifacts_dir job1 @ [''run.json''] \<notin> dirs (dsk w1)" using d(4,5) assms(4) by simp
  have g1: "get_job (mgr w1) jid = Inr job1" using d(2) by (simp add: registered_def)
  have caught: "\<forall>exc. x = Some (Inl exc) \<and> is_Exception exc \<longrightarrow>
          (\<exists>w' job' ev. run_execution lib w jid gen = (Some (Inr ()), w')
             \<and> get_job (mgr w') jid = Inr job' \<and> state job' = FAILED
             \<and> events job' = events job1 @ [ev]
             \<and> event_type ev = ERROR \<and> data ev = str_exc lib exc
             \<and> files (dsk w') (artifacts_dir job @ [''run.json'']) = Some (dump_job lib job'))"
  proof (intro allI impI)
    fix exc
    assume h: "x = Some (Inl exc) \<and> is_Exception exc"
    then have ie: "is_Exception exc" by simp
    from fail_then_save [OF d(2) e1 a1 n1 ie, of lib] obtain w' job' ev where
      f: "finally_save lib jid (except_Exception lib w1 jid exc) = (Inr (), w')"
         "get_job (mgr w') jid = Inr job'" "state job' = FAILED"
         "events job' = events job1 @ [ev]" "event_type ev = ERROR" "data ev = str_exc lib exc"
         "files (dsk w') (artifacts_dir job1 @ [''run.json'']) = Some (dump_job lib job')"
      by blast
    have "run_execution lib w jid gen = (Some (Inr ()), w')"
      using d(1) h f(1) by (simp add: run_execution_def)
    with f(2-7) d(4)
    show "\<exists>w' job' ev. run_execution lib w jid gen = (Some (Inr ()), w')
             \<and> get_job (mgr w') jid = Inr job' \<and> state job' = FAILED
             \<and> events job' = events job1 @ [ev]
             \<and> event_type ev = ERROR \<and> data ev = str_exc lib exc
             \<and> files (dsk w') (artifacts_dir job @ [''run.json'']) = Some (dump_job lib job')"
      by metis
  qed
  have passed: "\<forall>exc. x = Some (Inl exc) \<and> \<not> is_Exception exc \<longrightarrow>
          (\<exists>w'. run_execution lib w jid gen = (Some (Inl exc), w')
             \<and> get_job (mgr w') jid = Inr job1
             \<and> files (dsk w') (artifacts_dir job @ [''run.json'']) = Some (dump_job lib job1))"
  proof (intro allI impI)
    fix exc
    assume h: "x = Some (Inl exc) \<and> \<not> is_Exception exc"
    then have ne: "\<not> is_Exception exc" by simp
    from pass_then_save [OF d(2) a1 n1 ne, of lib] obtain w' where
      f: "finally_save lib jid (except_Exception lib w1 jid exc) = (Inl exc, w')"
         "get_job (mgr w') jid = Inr job1"
         "files (dsk w') (artifacts_dir job1 @ [''run.json'']) = Some (dump_job lib job1)"
      by blast
    have "run_execution lib w jid gen = (Some (Inl exc), w')"
      using d(1) h f(1) by (simp add: run_execution_def)
    with f(2,3) d(4)
    show "\<exists>w'. run_execution lib w jid gen = (Some (Inl exc), w')
             \<and> get_job (mgr w') jid = Inr job1
             \<and> files (dsk w') (artifacts_dir job @ [''run.json'']) = Some (dump_job lib job1)"
      by metis
  qed
  have ended: "\<forall>acc. x = Some (Inr acc) \<longrightarrow>
          (\<exists>w' job' ev. run_execution lib w jid gen = (Some (Inr ()), w')
             \<and> (\<exists>returncode. snd gen = Some (Inr returncode))
             \<and> get_job (mgr w') jid = Inr job' \<and> events job' = events job1 @ [ev]
             \<and> ((state job' = COMPLETE \<and> event_type ev = DONE)
                  \<or> (state job' = FAILED \<and> event_type ev = ERROR))
             \<and> files (dsk w') (artifacts_dir job @ [''run.json'']) = Some (dump_job lib job')
             \<and> (\<forall>full_output. join_text 0 acc = Inr full_output
                     \<and> artifacts_dir job @ [''logs.txt''] \<notin> dirs (dsk w)
                     \<and> artifacts_dir job @ [''job_summary.md''] \<notin> dirs (dsk w) \<longrightarrow>
                   state job' = COMPLETE
                 \<and> files (dsk w') (artifacts_dir job @ [''logs.txt'']) = Some full_output
                 \<and> files (dsk w') (artifacts_dir job @ [''job_summary.md'']) = Some full_output))"
  proof (intro allI impI)
    fix acc
    assume h: "x = Some (Inr acc)"
    from g(3) h obtain returncode where rc: "snd gen = Some (Inr returncode)" by auto
    from complete_execution_registered [OF d(2) e1, of acc] obtain r2 w2 job2 q2 where
      c: "complete_execution w1 jid acc = (r2, w2)" "registered w2 jid job2 q2"
         "artifacts_dir job2 = artifacts_dir job1" "dirs (dsk w2) = dirs (dsk w1)"
         "(\<exists>exc. r2 = Inl exc \<and> is_Exception exc \<and> job2 = job1)
            \<or> (r2 = Inr () \<and> state job2 = COMPLETE
                \<and> (\<exists>ev. events job2 = events job1 @ [ev] \<and> event_type ev = DONE
                       \<and> data ev = ''Execution completed successfully''))"
      by blast
    have a2: "artifacts_dir job2 \<in> dirs (dsk w2)" using c(3,4) a1 by simp
    have n2: "artifacts_dir job2 @ [''run.json''] \<notin> dirs (dsk w2)" using c(3,4) n1 by simp
    have adir: "artifacts_dir job2 = artifacts_dir job" using c(3) d(4) by simp
    from c(5)
    show "\<exists>w' job' ev. run_execution lib w jid gen = (Some (Inr ()), w')
             \<and> (\<exists>returncode. snd gen = Some (Inr returncode))
             \<and> get_job (mgr w') jid = Inr job' \<and> events job' = events job1 @ [ev]
             \<and> ((state job' = COMPLETE \<and> event_type ev = DONE)
                  \<or> (state job' = FAILED \<and> event_type ev = ERROR))
             \<and> files (dsk w') (artifacts_dir job @ [''run.json'']) = Some (dump_job lib job')
             \<and> (\<forall>full_output. join_text 0 acc = Inr full_output
                     \<and> artifacts_dir job @ [''logs.txt''] \<notin> dirs (dsk w)
                     \<and> artifacts_dir job @ [''job_summary.md''] \<notin> dirs (dsk w) \<longrightarrow>
                   state job' = COMPLETE
                 \<and> files (dsk w') (artifacts_dir job @ [''logs.txt'']) = Some full_output
                 \<and> files (dsk w') (artifacts_dir job @ [''job_summary.md'']) = Some full_output)"
    proof
      assume "\<exists>exc. r2 = Inl exc \<and> is_Exception exc \<and> job2 = job1"
      then obtain exc where y: "r2 = Inl exc" "is_Exception exc" "job2 = job1" by blast
      have e2: "state job2 = EXECUTING" using y(3) e1 by simp
      from fail_then_save [OF c(2) e2 a2 n2 y(2), of lib] obtain w' job' ev where
        f: "finally_save lib jid (except_Exception lib w2 jid exc) = (Inr (), w')"
           "get_job (mgr w') jid = Inr job'" "state job' = FAILED"
           "events job' = events job2 @ [ev]" "event_type ev = ERROR"
           "files (dsk w') (artifacts_dir job2 @ [''run.json'']) = Some (dump_job lib job')"
        by blast
      have run: "run_execution lib w jid gen = (Some (Inr ()), w')"
        using d(1) h c(1) y(1) f(1) by (simp add: run_execution_def)
      have ev: "events job' = events job1 @ [ev]" using f(4) y(3) by simp
      have st: "(state job' = COMPLETE \<and> event_type ev = DONE)
                  \<or> (state job' = FAILED \<and> event_type ev = ERROR)"
        using f(3,5) by simp
      have fl: "files (dsk w') (artifacts_dir job @ [''run.json'']) = Some (dump_job lib job')"
        using f(6) adir by simp
      have ok: "\<forall>full_output. join_text 0 acc = Inr full_output
                     \<and> artifacts_dir job @ [''logs.txt''] \<notin> dirs (dsk w)
                     \<and> artifacts_dir job @ [''job_summary.md''] \<notin> dirs (dsk w) \<longrightarrow>
                   state job' = COMPLETE
                 \<and> files (dsk w') (artifacts_dir job @ [''logs.txt'']) = Some full_output
                 \<and> files (dsk w') (artifacts_dir job @ [''job_summary.md'']) = Some full_output"
      proof (intro allI impI)
        fix full_output
        assume k: "join_text 0 acc = Inr full_output
                     \<and> artifacts_dir job @ [''logs.txt''] \<notin> dirs (dsk w)
                     \<and> artifacts_dir job @ [''job_summary.md''] \<notin> dirs (dsk w)"
        have "\<exists>w'. complete_execution w1 jid acc = (Inr (), w')
           \<and> files (dsk w') (artifacts_dir job1 @ [''logs.txt'']) = Some full_output
           \<and> files (dsk w') (artifacts_dir job1 @ [''job_summary.md'']) = Some full_output"
          using k d(4,5) by (intro complete_execution_ok [OF d(2) e1 _ a1]) simp_all
        with c(1) y(1) have False by auto
        then show "state job' = COMPLETE
                 \<and> files (dsk w') (artifacts_dir job @ [''logs.txt'']) = Some full_output
                 \<and> files (dsk w') (artifacts_dir job @ [''job_summary.md'']) = Some full_output"
          by simp
      qed
      show ?thesis by (intro exI conjI) (rule run rc f(2) ev st fl ok)+
    next
      assume z: "r2 = Inr () \<and> state job2 = COMPLETE
                \<and> (\<exists>ev. events job2 = events job1 @ [ev] \<and> event_type ev = DONE
                       \<and> data ev = ''Execution completed successfully'')"
      then obtain ev where y: "r2 = Inr ()" "state job2 = COMPLETE"
          "events job2 = events job1 @ [ev]" "event_type ev = DONE" by blast
      from finally_save_registered [OF c(2) a2 n2, of lib "Inr ()"] obtain w' where
        s: "finally_save lib jid (Inr (), w2) = (Inr (), w')" "mgr w' = mgr w2"
           "files (dsk w') (artifacts_dir job2 @ [''run.json'']) = Some (dump_job lib job2)"
           "\<forall>p. p \<noteq> artifacts_dir job2 @ [''run.json''] \<longrightarrow> files (dsk w') p = files (dsk w2) p"
        by blast
      have gj: "get_job (mgr w') jid = Inr job2" using c(2) s(2) by (simp add: registered_def)
      have run: "run_execution lib w jid gen = (Some (Inr ()), w')"
        using d(1) h c(1) y(1) s(1) by (simp add: run_execution_def)
      have st: "(state job2 = COMPLETE \<and> event_type ev = DONE)
                  \<or> (state job2 = FAILED \<and> event_type ev = ERROR)"
        using y(2,4) by simp
      have fl: "files (dsk w') (artifacts_dir job @ [''run.json'']) = Some (dump_job lib job2)"
        using s(3) adir by simp
      have ok: "\<forall>full_output. join_text 0 acc = Inr full_output
                     \<and> artifacts_dir job @ [''logs.txt''] \<notin> dirs (dsk w)
                     \<and> artifacts_dir job @ [''job_summary.md''] \<notin> dirs (dsk w) \<longrightarrow>
                   state job2 = COMPLETE
                 \<and> files (dsk w') (artifacts_dir job @ [''logs.txt'']) = Some full_output
                 \<and> files (dsk w') (artifacts_dir job @ [''job_summary.md'']) = Some full_output"
      proof (intro allI impI)
        fix full_output
        assume k: "join_text 0 acc = Inr full_output
                     \<and> artifacts_dir job @ [''logs.txt''] \<notin> dirs (dsk w)
                     \<and> artifacts_dir job @ [''job_summary.md''] \<notin> dirs (dsk w)"
        have "\<exists>w'. complete_execution w1 jid acc = (Inr (), w')
           \<and> files (dsk w') (artifacts_dir job1 @ [''logs.txt'']) = Some full_output
           \<and> files (dsk w') (artifacts_dir job1 @ [''job_summary.md'']) = Some full_output"
          using k d(4,5) by (intro complete_execution_ok [OF d(2) e1 _ a1]) simp_all
        with c(1) have w2f: "files (dsk w2) (artifacts_dir job1 @ [''logs.txt'']) = Some full_output"
            "files (dsk w2) (artifacts_dir job1 @ [''job_summary.md'']) = Some full_output"
          by auto
        have "files (dsk w') (artifacts_dir job @ [''logs.txt'']) = Some full_output"
             "files (dsk w') (artifacts_dir job @ [''job_summary.md'']) = Some full_output"
          using s(4) w2f adir d(4) by simp_all
        with y(2) show "state job2 = COMPLETE
                 \<and> files (dsk w') (artifacts_dir job @ [''logs.txt'']) = Some full_output
                 \<and> files (dsk w') (artifacts_dir job @ [''job_summary.md'']) = Some full_output"
          by simp
      qed
      show ?thesis by (intro exI conjI) (rule run rc gj y(3) st fl ok)+
    qed
  qed
  have polling: "x = None \<longrightarrow> snd gen = None \<and> run_execution lib w jid gen = (None, w1)"
    using d(1) g(1) by (simp add: run_execution_def)
  show ?thesis
    by (intro exI conjI) (rule d(1) g1 e1 l d(5) g(2) caught passed ended polling)+
qed

text \<open>
  A stream that neither ends nor raises is what the generator gives when the worker
  could not start the agent process: the worker then puts nothing on the queue, not even
  the sentinel, and however often the generator polls, it finds the queue empty and polls
  again.
\<close>

lemma unstarted_worker_never_ends:
  "fst (stream_blocking (Inl e)) = []"
  "invoke_cursor_streaming lib (Inr cmd) (replicate n Empty) (snd (stream_blocking (Inl e))) = ([], None)"
proof -
  show "fst (stream_blocking (Inl e)) = []" by (simp add: stream_blocking_def)
  have "stream_loop lib (replicate n Empty) = ([], None)" by (induction n) simp_all
  then show "invoke_cursor_streaming lib (Inr cmd) (replicate n Empty) (snd (stream_blocking (Inl e)))
               = ([], None)"
    by (simp add: invoke_cursor_streaming_def)
qed

lemma demo_exec_ready:
  "registered demo_exec_world ''0123456789ab'' demo_job_exec []"
  "state demo_job_exec = EXECUTING"
  "artifacts_dir demo_job_exec \<in> dirs (dsk demo_exec_world)"
  "artifacts_dir demo_job_exec @ [''run.json''] \<notin> dirs (dsk demo_exec_world)"
  by (simp_all add: registered_def demo_exec_world_def demo_job_exec_def get_job_def get_events_def
      demo_disk1_def)

lemmas demo_run_defs = summary_def run_execution_def drain_stream_def demo_gen_ok_def demo_gen_def
  demo_gen_cancelled_def demo_gen_unstarted_def invoke_cursor_streaming_def stream_blocking_def
  w_add_event_def add_event_def queue_put_def get_job_def
  demo_exec_world_def Let_def
  tick_def clock_now_def complete_execution_def fail_execution_def except_Exception_def str_exc_def
  w_save_artifact_def save_artifact_def write_text_def demo_disk1_def
  demo_job_exec_def w_transition_def transition_def validate_transition_edge spec_edges_def
  finally_save_def w_save_run_metadata_def save_run_metadata_def demo_library_def
  demo_loads_def demo_lines dict_get_def

lemma demo_drains:
  "fst (drain_stream demo_library demo_exec_world ''0123456789ab'' demo_gen)
     = Some (Inl (OSError ''Broken pipe''))"
  "fst (drain_stream demo_library demo_exec_world ''0123456789ab'' demo_gen_cancelled)
     = Some (Inl CancelledError)"
  "fst (drain_stream demo_library demo_exec_world ''0123456789ab'' demo_gen_ok)
     = Some (Inr [JStr ''partial one'', JStr ''partial two'', JStr ''all done''])"
  "fst (drain_stream demo_library demo_exec_world ''0123456789ab'' demo_gen_unstarted) = None"
  by (simp_all add: demo_run_defs)

lemma demo_runs:
  "summary (run_execution demo_library demo_exec_world ''0123456789ab'' demo_gen) ''0123456789ab''
        [''jobs'', ''0123456789ab'', ''run.json'']
   = (Some (Inr ()), Some (FAILED, [(STEP, ''Starting Cursor agent in execute mode (streaming)''),
        (LOG, ''partial one''), (ERROR, ''Broken pipe'')]), Some ''failed'')"
  "summary (run_execution demo_library demo_exec_world ''0123456789ab'' demo_gen_ok) ''0123456789ab''
        [''jobs'', ''0123456789ab'', ''logs.txt'']
   = (Some (Inr ()), Some (COMPLETE, [(STEP, ''Starting Cursor agent in execute mode (streaming)''),
        (LOG, ''partial one''), (LOG, ''partial two''), (DONE, ''Execution completed successfully'')]),
        Some ''partial onepartial twoall done'')"
  "summary (run_execution demo_library demo_exec_world ''0123456789ab'' demo_gen_ok) ''0123456789ab''
        [''jobs'', ''0123456789ab'', ''run.json'']
   = (Some (Inr ()), Some (COMPLETE, [(STEP, ''Starting Cursor agent in execute mode (streaming)''),
        (LOG, ''partial one''), (LOG, ''partial two''), (DONE, ''Execution completed successfully'')]),
        Some ''complete'')"
  "summary (run_execution demo_library demo_exec_world ''0123456789ab'' demo_gen_unstarted) ''0123456789ab''
        [''jobs'', ''0123456789ab'', ''run.json'']
   = (None, Some (EXECUTING, [(STEP, ''Starting Cursor agent in execute mode (streaming)'')]), None)"
  by (simp_all add: demo_run_defs)

theorem run_execution_outcome_witness:
  "registered demo_exec_world ''0123456789ab'' demo_job_exec []
   \<and> state demo_job_exec = EXECUTING
   \<and> artifacts_dir demo_job_exec \<in> dirs (dsk demo_exec_world)
   \<and> artifacts_dir demo_job_exec @ [''run.json''] \<notin> dirs (dsk demo_exec_world)
   \<and> fst (drain_stream demo_library demo_exec_world ''0123456789ab'' demo_gen)
        = Some (Inl (OSError ''Broken pipe''))
   \<and> is_Exception (OSError ''Broken pipe'')
   \<and> (\<exists>w' job' ev evs.
          run_execution demo_library demo_exec_world ''0123456789ab'' demo_gen = (Some (Inr ()), w')
        \<and> get_job (mgr w') ''0123456789ab'' = Inr job'
        \<and> state job' = FAILED \<and> events job' = evs @ [ev]
        \<and> event_type ev = ERROR \<and> data ev = ''Broken pipe''
        \<and> files (dsk w') [''jobs'', ''0123456789ab'', ''run.json''] = Some (dump_job demo_library job'))
   \<and> summary (run_execution demo_library demo_exec_world ''0123456789ab'' demo_gen) ''0123456789ab''
        [''jobs'', ''0123456789ab'', ''run.json'']
      = (Some (Inr ()), Some (FAILED, [(STEP, ''Starting Cursor agent in execute mode (streaming)''),
          (LOG, ''partial one''), (ERROR, ''Broken pipe'')]), Some ''failed'')
   \<and> fst (drain_stream demo_library demo_exec_world ''0123456789ab'' demo_gen_cancelled)
        = Some (Inl CancelledError)
   \<and> \<not> is_Exception CancelledError
   \<and> (\<exists>w' job1.
          run_execution demo_library demo_exec_world ''0123456789ab'' demo_gen_cancelled
            = (Some (Inl CancelledError), w')
        \<and> get_job (mgr w') ''0123456789ab'' = Inr job1 \<and> state job1 = EXECUTING
        \<and> files (dsk w') [''jobs'', ''0123456789ab'', ''run.json''] = Some (dump_job demo_library job1))
   \<and> fst (drain_stream demo_library demo_exec_world ''0123456789ab'' demo_gen_ok)
        = Some (Inr [JStr ''partial one'', JStr ''partial two'', JStr ''all done''])
   \<and> join_text 0 [JStr ''partial one'', JStr ''partial two'', JStr ''all done'']
        = Inr ''partial onepartial twoall done''
   \<and> artifacts_dir demo_job_exec @ [''logs.txt''] \<notin> dirs (dsk demo_exec_world)
   \<and> artifacts_dir demo_job_exec @ [''job_summary.md''] \<notin> dirs (dsk demo_exec_world)
   \<and> (\<exists>w' job'.
          run_execution demo_library demo_exec_world ''0123456789ab'' demo_gen_ok = (Some (Inr ()), w')
        \<and> get_job (mgr w') ''0123456789ab'' = Inr job' \<and> state job' = COMPLETE
        \<and> files (dsk w') [''jobs'', ''0123456789ab'', ''logs.txt''] = Some ''partial onepartial twoall done''
        \<and> files (dsk w') [''jobs'', ''0123456789ab'', ''run.json''] = Some (dump_job demo_library job'))
   \<and> summary (run_execution demo_library demo_exec_world ''0123456789ab'' demo_gen_ok) ''0123456789ab''
        [''jobs'', ''0123456789ab'', ''run.json'']
      = (Some (Inr ()), Some (COMPLETE, [(STEP, ''Starting Cursor agent in execute mode (streaming)''),
          (LOG, ''partial one''), (LOG, ''partial two''), (DONE, ''Execution completed successfully'')]),
          Some ''complete'')
   \<and> demo_gen_unstarted = ([], None)
   \<and> fst (drain_stream demo_library demo_exec_world ''0123456789ab'' demo_gen_unstarted) = None
   \<and> (\<exists>w1 job1.
          run_execution demo_library demo_exec_world ''0123456789ab'' demo_gen_unstarted = (None, w1)
        \<and> get_job (mgr w1) ''0123456789ab'' = Inr job1 \<and> state job1 = EXECUTING
        \<and> dsk w1 = dsk demo_exec_world)
   \<and> summary (run_execution demo_library demo_exec_world ''0123456789ab'' demo_gen_unstarted)
        ''0123456789ab'' [''jobs'', ''0123456789ab'', ''run.json'']
      = (None, Some (EXECUTING, [(STEP, ''Starting Cursor agent in execute mode (streaming)'')]),
         None)"
proof -
  have s: "str_exc demo_library (OSError ''Broken pipe'') = ''Broken pipe''"
    by (simp add: str_exc_def)
  have p: "artifacts_dir demo_job_exec @ [''run.json''] = [''jobs'', ''0123456789ab'', ''run.json'']"
      "artifacts_dir demo_job_exec @ [''logs.txt''] = [''jobs'', ''0123456789ab'', ''logs.txt'']"
    by (simp_all add: demo_job_exec_def)
  have ie: "is_Exception (OSError ''Broken pipe'')" "\<not> is_Exception CancelledError" by simp_all
  have jt: "join_text 0 [JStr ''partial one'', JStr ''partial two'', JStr ''all done'']
        = Inr ''partial onepartial twoall done''" by simp
  have nd: "artifacts_dir demo_job_exec @ [''logs.txt''] \<notin> dirs (dsk demo_exec_world)"
      "artifacts_dir demo_job_exec @ [''job_summary.md''] \<notin> dirs (dsk demo_exec_world)"
    by (simp_all add: demo_job_exec_def demo_exec_world_def demo_disk1_def)
  have one: "\<exists>w' job' ev evs.
          run_execution demo_library demo_exec_world ''0123456789ab'' demo_gen = (Some (Inr ()), w')
        \<and> get_job (mgr w') ''0123456789ab'' = Inr job'
        \<and> state job' = FAILED \<and> events job' = evs @ [ev]
        \<and> event_type ev = ERROR \<and> data ev = ''Broken pipe''
        \<and> files (dsk w') [''jobs'', ''0123456789ab'', ''run.json''] = Some (dump_job demo_library job')"
  proof -
    from run_execution_outcome [OF demo_exec_ready, of demo_library demo_gen]
    obtain x w1 job1 ev0 logs where
      o: "drain_stream demo_library demo_exec_world ''0123456789ab'' demo_gen = (x, w1)"
         "get_job (mgr w1) ''0123456789ab'' = Inr job1" "state job1 = EXECUTING"
         "events job1 = events demo_job_exec @ ev0 # logs" "event_type ev0 = STEP" "log_events logs"
         "dsk w1 = dsk demo_exec_world"
         "\<forall>exc. snd demo_gen = Some (Inl exc) \<longrightarrow> (\<exists>e. x = Some (Inl e))"
         "\<forall>exc. x = Some (Inl exc) \<and> is_Exception exc \<longrightarrow>
          (\<exists>w' job' ev. run_execution demo_library demo_exec_world ''0123456789ab'' demo_gen = (Some (Inr ()), w')
             \<and> get_job (mgr w') ''0123456789ab'' = Inr job' \<and> state job' = FAILED
             \<and> events job' = events job1 @ [ev]
             \<and> event_type ev = ERROR \<and> data ev = str_exc demo_library exc
             \<and> files (dsk w') (artifacts_dir demo_job_exec @ [''run.json'']) = Some (dump_job demo_library job'))"
         "\<forall>exc. x = Some (Inl exc) \<and> \<not> is_Exception exc \<longrightarrow>
          (\<exists>w'. run_execution demo_library demo_exec_world ''0123456789ab'' demo_gen = (Some (Inl exc), w')
             \<and> get_job (mgr w') ''0123456789ab'' = Inr job1
             \<and> files (dsk w') (artifacts_dir demo_job_exec @ [''run.json'']) = Some (dump_job demo_library job1))"
         "\<forall>acc. x = Some (Inr acc) \<longrightarrow>
          (\<exists>w' job' ev. run_execution demo_library demo_exec_world ''0123456789ab'' demo_gen = (Some (Inr ()), w')
             \<and> (\<exists>returncode. snd demo_gen = Some (Inr returncode))
             \<and> get_job (mgr w') ''0123456789ab'' = Inr job' \<and> events job' = events job1 @ [ev]
             \<and> ((state job' = COMPLETE \<and> event_type ev = DONE)
                  \<or> (state job' = FAILED \<and> event_type ev = ERROR))
             \<and> files (dsk w') (artifacts_dir demo_job_exec @ [''run.json'']) = Some (dump_job demo_library job')
             \<and> (\<forall>full_output. join_text 0 acc = Inr full_output
                     \<and> artifacts_dir demo_job_exec @ [''logs.txt''] \<notin> dirs (dsk demo_exec_world)
                     \<and> artifacts_dir demo_job_exec @ [''job_summary.md''] \<notin> dirs (dsk demo_exec_world) \<longrightarrow>
                   state job' = COMPLETE
                 \<and> files (dsk w') (artifacts_dir demo_job_exec @ [''logs.txt'']) = Some full_output
                 \<and> files (dsk w') (artifacts_dir demo_job_exec @ [''job_summary.md'']) = Some full_output))"
         "x = None \<longrightarrow> snd demo_gen = None \<and> run_execution demo_library demo_exec_world ''0123456789ab'' demo_gen = (None, w1)"
      by (elim exE conjE)
    from o(1) demo_drains(1) have "x = Some (Inl (OSError ''Broken pipe''))" by simp
    with o(9) ie(1)
    have "\<exists>w' job' ev. run_execution demo_library demo_exec_world ''0123456789ab'' demo_gen
                = (Some (Inr ()), w')
             \<and> get_job (mgr w') ''0123456789ab'' = Inr job' \<and> state job' = FAILED
             \<and> events job' = events job1 @ [ev]
             \<and> event_type ev = ERROR \<and> data ev = str_exc demo_library (OSError ''Broken pipe'')
             \<and> files (dsk w') (artifacts_dir demo_job_exec @ [''run.json''])
                  = Some (dump_job demo_library job')"
      by blast
    then show ?thesis unfolding s p by blast
  qed
  have two: "\<exists>w' job1.
          run_execution demo_library demo_exec_world ''0123456789ab'' demo_gen_cancelled
            = (Some (Inl CancelledError), w')
        \<and> get_job (mgr w') ''0123456789ab'' = Inr job1 \<and> state job1 = EXECUTING
        \<and> files (dsk w') [''jobs'', ''0123456789ab'', ''run.json''] = Some (dump_job demo_library job1)"
  proof -
    from run_execution_outcome [OF demo_exec_ready, of demo_library demo_gen_cancelled]
    obtain x w1 job1 ev0 logs where
      o: "drain_stream demo_library demo_exec_world ''0123456789ab'' demo_gen_cancelled = (x, w1)"
         "get_job (mgr w1) ''0123456789ab'' = Inr job1" "state job1 = EXECUTING"
         "events job1 = events demo_job_exec @ ev0 # logs" "event_type ev0 = STEP" "log_events logs"
         "dsk w1 = dsk demo_exec_world"
         "\<forall>exc. snd demo_gen_cancelled = Some (Inl exc) \<longrightarrow> (\<exists>e. x = Some (Inl e))"
         "\<forall>exc. x = Some (Inl exc) \<and> is_Exception exc \<longrightarrow>
          (\<exists>w' job' ev. run_execution demo_library demo_exec_world ''0123456789ab'' demo_gen_cancelled = (Some (Inr ()), w')
             \<and> get_job (mgr w') ''0123456789ab'' = Inr job' \<and> state job' = FAILED
             \<and> events job' = events job1 @ [ev]
             \<and> event_type ev = ERROR \<and> data ev = str_exc demo_library exc
             \<and> files (dsk w') (artifacts_dir demo_job_exec @ [''run.json'']) = Some (dump_job demo_library job'))"
         "\<forall>exc. x = Some (Inl exc) \<and> \<not> is_Exception exc \<longrightarrow>
          (\<exists>w'. run_execution demo_library demo_exec_world ''0123456789ab'' demo_gen_cancelled = (Some (Inl exc), w')
             \<and> get_job (mgr w') ''0123456789ab'' = Inr job1
             \<and> files (dsk w') (artifacts_dir demo_job_exec @ [''run.json'']) = Some (dump_job demo_library job1))"
         "\<forall>acc. x = Some (Inr acc) \<longrightarrow>
          (\<exists>w' job' ev. run_execution demo_library demo_exec_world ''0123456789ab'' demo_gen_cancelled = (Some (Inr ()), w')
             \<and> (\<exists>returncode. snd demo_gen_cancelled = Some (Inr returncode))
             \<and> get_job (mgr w') ''0123456789ab'' = Inr job' \<and> events job' = events job1 @ [ev]
             \<and> ((state job' = COMPLETE \<and> event_type ev = DONE)
                  \<or> (state job' = FAILED \<and> event_type ev = ERROR))
             \<and> files (dsk w') (artifacts_dir demo_job_exec @ [''run.json'']) = Some (dump_job demo_library job')
             \<and> (\<forall>full_output. join_text 0 acc = Inr full_output
                     \<and> artifacts_dir demo_job_exec @ [''logs.txt''] \<notin> dirs (dsk demo_exec_world)
                     \<and> artifacts_dir demo_job_exec @ [''job_summary.md''] \<notin> dirs (dsk demo_exec_world) \<longrightarrow>
                   state job' = COMPLETE
                 \<and> files (dsk w') (artifacts_dir demo_job_exec @ [''logs.txt'']) = Some full_output
                 \<and> files (dsk w') (artifacts_dir demo_job_exec @ [''job_summary.md'']) = Some full_output))"
         "x = None \<longrightarrow> snd demo_gen_cancelled = None \<and> run_execution demo_library demo_exec_world ''0123456789ab'' demo_gen_cancelled = (None, w1)"
      by (elim exE conjE)
    from o(1) demo_drains(2) have "x = Some (Inl CancelledError)" by simp
    with o(10) ie(2)
    have "\<exists>w'. run_execution demo_library demo_exec_world ''0123456789ab'' demo_gen_cancelled
                = (Some (Inl CancelledError), w')
             \<and> get_job (mgr w') ''0123456789ab'' = Inr job1
             \<and> files (dsk w') (artifacts_dir demo_job_exec @ [''run.json''])
                  = Some (dump_job demo_library job1)"
      by blast
    with o(3) show ?thesis unfolding p by blast
  qed
  have three: "\<exists>w' job'.
          run_execution demo_library demo_exec_world ''0123456789ab'' demo_gen_ok = (Some (Inr ()), w')
        \<and> get_job (mgr w') ''0123456789ab'' = Inr job' \<and> state job' = COMPLETE
        \<and> files (dsk w') [''jobs'', ''0123456789ab'', ''logs.txt''] = Some ''partial onepartial twoall done''
        \<and> files (dsk w') [''jobs'', ''0123456789ab'', ''run.json''] = Some (dump_job demo_library job')"
  proof -
    from run_execution_outcome [OF demo_exec_ready, of demo_library demo_gen_ok]
    obtain x w1 job1 ev0 logs where
      o: "drain_stream demo_library demo_exec_world ''0123456789ab'' demo_gen_ok = (x, w1)"
         "get_job (mgr w1) ''0123456789ab'' = Inr job1" "state job1 = EXECUTING"
         "events job1 = events demo_job_exec @ ev0 # logs" "event_type ev0 = STEP" "log_events logs"
         "dsk w1 = dsk demo_exec_world"
         "\<forall>exc. snd demo_gen_ok = Some (Inl exc) \<longrightarrow> (\<exists>e. x = Some (Inl e))"
         "\<forall>exc. x = Some (Inl exc) \<and> is_Exception exc \<longrightarrow>
          (\<exists>w' job' ev. run_execution demo_library demo_exec_world ''0123456789ab'' demo_gen_ok = (Some (Inr ()), w')
             \<and> get_job (mgr w') ''0123456789ab'' = Inr job' \<and> state job' = FAILED
             \<and> events job' = events job1 @ [ev]
             \<and> event_type ev = ERROR \<and> data ev = str_exc demo_library exc
             \<and> files (dsk w') (artifacts_dir demo_job_exec @ [''run.json'']) = Some (dump_job demo_library job'))"
         "\<forall>exc. x = Some (Inl exc) \<and> \<not> is_Exception exc \<longrightarrow>
          (\<exists>w'. run_execution demo_library demo_exec_world ''0123456789ab'' demo_gen_ok = (Some (Inl exc), w')
             \<and> get_job (mgr w') ''0123456789ab'' = Inr job1
             \<and> files (dsk w') (artifacts_dir demo_job_exec @ [''run.json'']) = Some (dump_job demo_library job1))"
         "\<forall>acc. x = Some (Inr acc) \<longrightarrow>
          (\<exists>w' job' ev. run_execution demo_library demo_exec_world ''0123456789ab'' demo_gen_ok = (Some (Inr ()), w')
             \<and> (\<exists>returncode. snd demo_gen_ok = Some (Inr returncode))
             \<and> get_job (mgr w') ''0123456789ab'' = Inr job' \<and> events job' = events job1 @ [ev]
             \<and> ((state job' = COMPLETE \<and> event_type ev = DONE)
                  \<or> (state job' = FAILED \<and> event_type ev = ERROR))
             \<and> files (dsk w') (artifacts_dir demo_job_exec @ [''run.json'']) = Some (dump_job demo_library job')
             \<and> (\<forall>full_output. join_text 0 acc = Inr full_output
                     \<and> artifacts_dir demo_job_exec @ [''logs.txt''] \<notin> dirs (dsk demo_exec_world)
                     \<and> artifacts_dir demo_job_exec @ [''job_summary.md''] \<notin> dirs (dsk demo_exec_world) \<longrightarrow>
                   state job' = COMPLETE
                 \<and> files (dsk w') (artifacts_dir demo_job_exec @ [''logs.txt'']) = Some full_output
                 \<and> files (dsk w') (artifacts_dir demo_job_exec @ [''job_summary.md'']) = Some full_output))"
         "x = None \<longrightarrow> snd demo_gen_ok = None \<and> run_execution demo_library demo_exec_world ''0123456789ab'' demo_gen_ok = (None, w1)"
      by (elim exE conjE)
    from o(1) demo_drains(3)
    have "x = Some (Inr [JStr ''partial one'', JStr ''partial two'', JStr ''all done''])" by simp
    with o(11) jt nd
    have "\<exists>w' job'. run_execution demo_library demo_exec_world ''0123456789ab'' demo_gen_ok
                = (Some (Inr ()), w')
             \<and> get_job (mgr w') ''0123456789ab'' = Inr job' \<and> state job' = COMPLETE
             \<and> files (dsk w') (artifacts_dir demo_job_exec @ [''logs.txt''])
                  = Some ''partial onepartial twoall done''
             \<and> files (dsk w') (artifacts_dir demo_job_exec @ [''run.json''])
                  = Some (dump_job demo_library job')"
      by blast
    then show ?thesis unfolding p by blast
  qed
  have four: "\<exists>w1 job1.
          run_execution demo_library demo_exec_world ''0123456789ab'' demo_gen_unstarted = (None, w1)
        \<and> get_job (mgr w1) ''0123456789ab'' = Inr job1 \<and> state job1 = EXECUTING
        \<and> dsk w1 = dsk demo_exec_world"
  proof -
    from run_execution_outcome [OF demo_exec_ready, of demo_library demo_gen_unstarted]
    obtain x w1 job1 ev0 logs where
      o: "drain_stream demo_library demo_exec_world ''0123456789ab'' demo_gen_unstarted = (x, w1)"
         "get_job (mgr w1) ''0123456789ab'' = Inr job1" "state job1 = EXECUTING"
         "events job1 = events demo_job_exec @ ev0 # logs" "event_type ev0 = STEP" "log_events logs"
         "dsk w1 = dsk demo_exec_world"
         "\<forall>exc. snd demo_gen_unstarted = Some (Inl exc) \<longrightarrow> (\<exists>e. x = Some (Inl e))"
         "\<forall>exc. x = Some (Inl exc) \<and> is_Exception exc \<longrightarrow>
          (\<exists>w' job' ev. run_execution demo_library demo_exec_world ''0123456789ab'' demo_gen_unstarted = (Some (Inr ()), w')
             \<and> get_job (mgr w') ''0123456789ab'' = Inr job' \<and> state job' = FAILED
             \<and> events job' = events job1 @ [ev]
             \<and> event_type ev = ERROR \<and> data ev = str_exc demo_library exc
             \<and> files (dsk w') (artifacts_dir demo_job_exec @ [''run.json'']) = Some (dump_job demo_library job'))"
         "\<forall>exc. x = Some (Inl exc) \<and> \<not> is_Exception exc \<longrightarrow>
          (\<exists>w'. run_execution demo_library demo_exec_world ''0123456789ab'' demo_gen_unstarted = (Some (Inl exc), w')
             \<and> get_job (mgr w') ''0123456789ab'' = Inr job1
             \<and> files (dsk w') (artifacts_dir demo_job_exec @ [''run.json'']) = Some (dump_job demo_library job1))"
         "\<forall>acc. x = Some (Inr acc) \<longrightarrow>
          (\<exists>w' job' ev. run_execution demo_library demo_exec_world ''0123456789ab'' demo_gen_unstarted = (Some (Inr ()), w')
             \<and> (\<exists>returncode. snd demo_gen_unstarted = Some (Inr returncode))
             \<and> get_job (mgr w') ''0123456789ab'' = Inr job' \<and> events job' = events job1 @ [ev]
             \<and> ((state job' = COMPLETE \<and> event_type ev = DONE)
                  \<or> (state job' = FAILED \<and> event_type ev = ERROR))
             \<and> files (dsk w') (artifacts_dir demo_job_exec @ [''run.json'']) = Some (dump_job demo_library job')
             \<and> (\<forall>full_output. join_text 0 acc = Inr full_output
                     \<and> artifacts_dir demo_job_exec @ [''logs.txt''] \<notin> dirs (dsk demo_exec_world)
                     \<and> artifacts_dir demo_job_exec @ [''job_summary.md''] \<notin> dirs (dsk demo_exec_world) \<longrightarrow>
                   state job' = COMPLETE
                 \<and> files (dsk w') (artifacts_dir demo_job_exec @ [''logs.txt'']) = Some full_output
                 \<and> files (dsk w') (artifacts_dir demo_job_exec @ [''job_summary.md'']) = Some full_output))"
         "x = None \<longrightarrow> snd demo_gen_unstarted = None \<and> run_execution demo_library demo_exec_world ''0123456789ab'' demo_gen_unstarted = (None, w1)"
      by (elim exE conjE)
    from o(1) demo_drains(4) have "x = None" by simp
    with o(2,3,7,12) show ?thesis by blast
  qed
  have un: "demo_gen_unstarted = ([], None)"
    using unstarted_worker_never_ends(2) [of demo_library "[''agent'']" 3]
    by (simp add: demo_gen_unstarted_def numeral_3_eq_3)
  from demo_exec_ready demo_drains ie one demo_runs(1) two jt nd three demo_runs(3) un four demo_runs(4)
  show ?thesis by (intro conjI)
qed

text \<open>
  Claim C4 as stated fails when the task is cancelled while it drains the stream: the
  \<open>CancelledError\<close> is not caught, the job stays in \<open>EXECUTING\<close> with no \<open>ERROR\<close> event, and
  only the run metadata is written before the exception leaves the task.
\<close>

theorem run_execution_cancelled:
  "fst (drain_stream demo_library demo_exec_world ''0123456789ab'' demo_gen_cancelled)
     = Some (Inl CancelledError)
   \<and> summary (run_execution demo_library demo_exec_world ''0123456789ab'' demo_gen_cancelled)
        ''0123456789ab'' [''jobs'', ''0123456789ab'', ''run.json'']
      = (Some (Inl CancelledError),
         Some (EXECUTING, [(STEP, ''Starting Cursor agent in execute mode (streaming)''),
                           (LOG, ''partial one'')]),
         Some ''executing'')"
  by (simp add: demo_run_defs)

end
